theory Spec2Isabelle
  imports Main "HOL-Library.AList"
begin

section \<open>Publishing connector metadata to GCS: a model of \<open>gcs_upload.py\<close>\<close>

text \<open>
  The module \<open>metadata_service/gcs_upload.py\<close> publishes a connector's metadata file and its
  companion files (icon, docs, manifest, packaged components) to a bucket, once under a
  version folder and once under the \<open>latest\<close> folder, and skips a file whose md5 the bucket
  already holds.

  The Python functions are translated one by one, under their own names (a leading
  underscore is dropped, since an Isabelle name cannot start with one). Exceptions are
  values of the type \<open>error\<close>, the local file system and the bucket are explicit states, and
  what the module imports from elsewhere (the constants, the helpers of
  \<open>metadata_service\<close>, \<open>yaml\<close>, \<open>git\<close>, \<open>requests\<close>, \<open>pathlib\<close>, \<open>tempfile\<close>, the GCS
  client) is a field of the record \<open>env\<close>: every theorem holds for every such environment.
\<close>

subsection \<open>Exceptions\<close>

datatype error =
    ValueError string
  | FileNotFoundError string
  | AttributeError string
  | KeyError string
  | TypeError string
  | CollaboratorError string

text \<open>
  \<open>ValueError\<close> and \<open>FileNotFoundError\<close> carry the message of the \<open>raise\<close> statement.
  \<open>AttributeError\<close>, \<open>KeyError\<close> and \<open>TypeError\<close> are raised by Python itself, on a
  missing attribute, a missing dictionary key and an operation that the value's type does
  not have; they carry the attribute, the key and the operation. \<open>CollaboratorError\<close> is
  any exception raised inside an imported function.
\<close>

subsection \<open>Types of the module\<close>

record UploadedFile =
  id' :: string
  uploaded :: bool
  blob_id :: "string option"

record MetadataUploadInfo =
  metadata_uploaded :: bool
  metadata_file_path :: string
  uploaded_files :: "UploadedFile list"

text \<open>\<open>MaybeUpload\<close> is a named tuple \<open>(uploaded, blob_id)\<close>; it is a pair here.\<close>

type_synonym MaybeUpload = "bool \<times> string option"

record ManifestOnlyFilePaths =
  zip_file_path :: string
  sha256_file_path :: string
  sha256 :: "string option"
  manifest_file_path :: string

subsection \<open>Documents\<close>

text \<open>
  What \<open>yaml.safe_load\<close> returns: scalars, lists and dictionaries with string keys. A
  dictionary is an association list in insertion order; assigning to a key that is there
  keeps its place, assigning to a new key appends it (\<open>AList.update\<close>). Floating point
  scalars are left out.
\<close>

datatype yaml =
    YNull
  | YBool bool
  | YInt int
  | YStr string
  | YList "yaml list"
  | YDict "(string \<times> yaml) list"

text \<open>
  The validated document, \<open>ConnectorMetadataDefinitionV0\<close>: the generated model class is
  not part of the module, so only the attributes that the module reads are kept.
\<close>

record ConnectorReleases =
  isReleaseCandidate :: bool

record ConnectorMetadata =
  dockerRepository :: string
  dockerImageTag :: string
  documentationUrl :: string
  releases :: "ConnectorReleases option"

record ValidatorOptions =
  docs_path :: string
  prerelease_tag :: "string option"

record GitInfo =
  commit_sha :: string
  commit_timestamp :: string
  commit_author :: string
  commit_author_email :: string

text \<open>
  What \<open>_get_git_info_for_file\<close> tells apart in what GitPython does: a commit, no
  repository, a failed git command with its text, any other exception.
\<close>

datatype git_lookup =
    Commit GitInfo
  | InvalidGitRepositoryError
  | GitCommandError string
  | OtherGitError string

subsection \<open>Local files and the bucket\<close>

text \<open>
  The local file system maps the path of a regular file to its content. A bucket maps
  the name of an object to the properties that the module reads or sets.
\<close>

type_synonym files = "string \<rightharpoonup> string"

record blob =
  blob_data :: string
  md5_hash :: string
  cache_control :: "string option"
  blob_ident :: string

type_synonym bucket = "string \<rightharpoonup> blob"

subsection \<open>The environment\<close>

text \<open>
  The constants of \<open>metadata_service.constants\<close> whose value the specification does not
  fix, and the imported functions. \<open>path_join p q\<close> is \<open>p / q\<close>; paths are their text.
  \<open>NamedTemporaryFile fs suffix\<close> is the name that \<open>tempfile\<close> picks. \<open>compute_gcs_md5\<close>
  takes the content of the file; \<open>gcs_md5\<close> is the hash that the bucket records for an
  uploaded content, \<open>gcs_new_id\<close> the id it gives to the object written at a name.
  \<open>pydash_set\<close> is pydash's \<open>set_\<close>, the assignment at a dotted path, \<open>py_str\<close> is \<open>str\<close> on a value that is
  not a string, \<open>requests_head url\<close> is \<open>requests.head(url).ok\<close>. \<open>storage_client\<close> parses
  the credentials and builds the client. Where an imported function can raise, its result
  is a sum whose left side is the text of the exception (an option for \<open>storage_client\<close>);
  the module does not catch it, and the model passes it on as a \<open>CollaboratorError\<close>.
\<close>

record env =
  COMPONENTS_PY_FILE_NAME :: string
  ICON_FILE_NAME :: string
  MANIFEST_FILE_NAME :: string
  METADATA_FOLDER :: string
  path_join :: "string \<Rightarrow> string \<Rightarrow> string"
  path_parent :: "string \<Rightarrow> string"
  path_name :: "string \<Rightarrow> string"
  path_with_suffix :: "string \<Rightarrow> string \<Rightarrow> string + string"
  NamedTemporaryFile :: "files \<Rightarrow> string \<Rightarrow> string"
  compute_gcs_md5 :: "string \<Rightarrow> string"
  create_zip_and_get_sha256 :: "files \<Rightarrow> string list \<Rightarrow> string + string \<times> string"
  yaml_safe_load :: "string \<Rightarrow> string + yaml"
  yaml_dump :: "yaml \<Rightarrow> string"
  py_str :: "yaml \<Rightarrow> string"
  pydash_set :: "(string \<times> yaml) list \<Rightarrow> string \<Rightarrow> yaml \<Rightarrow> string + (string \<times> yaml) list"
  git_log :: "string \<Rightarrow> git_lookup"
  to_json_sanitized_dict :: "GitInfo \<Rightarrow> yaml"
  requests_head :: "string \<Rightarrow> string + bool"
  validate_and_load :: "files \<Rightarrow> string \<Rightarrow> ValidatorOptions \<Rightarrow> ConnectorMetadata option \<times> string"
  GCS_CREDENTIALS :: "string option"
  storage_client :: "string \<Rightarrow> string option"
  gcs_md5 :: "string \<Rightarrow> string"
  gcs_new_id :: "bucket \<Rightarrow> string \<Rightarrow> string"

text \<open>
  Modelled from the spec: the module \<open>metadata_service.constants\<close> is missing; the remote
  path layout of the specification fixes the names of these two folders.
\<close>

definition LATEST_GCS_FOLDER_NAME :: string where
  "LATEST_GCS_FOLDER_NAME = ''latest''"

definition RELEASE_CANDIDATE_GCS_FOLDER_NAME :: string where
  "RELEASE_CANDIDATE_GCS_FOLDER_NAME = ''release_candidate''"

subsection \<open>Helpers\<close>

text \<open>
  \<open>_any_uploaded\<close>: the loop returns at the first file whose id is one of the keys.
\<close>

fun any_uploaded :: "UploadedFile list \<Rightarrow> string list \<Rightarrow> bool" where
  "any_uploaded [] keys = False"
| "any_uploaded (uploaded_file # rest) keys =
     (if id' uploaded_file \<in> set keys then True else any_uploaded rest keys)"

subsection \<open>Upload\<close>

text \<open>
  \<open>_save_blob_to_gcs\<close> sets the cache directive when asked to and uploads the file: the
  object at the blob's name then holds the file's content. An object that was reloaded
  keeps its other properties.
\<close>

definition save_blob_to_gcs :: "env \<Rightarrow> bucket \<Rightarrow> string \<Rightarrow> string \<Rightarrow> bool \<Rightarrow> bool \<times> bucket" where
  "save_blob_to_gcs E bucket name content disable_cache =
     (let cc = (if disable_cache then Some ''no-cache''
                else (case bucket name of None \<Rightarrow> None | Some b \<Rightarrow> cache_control b))
      in (True, bucket(name \<mapsto>
            \<lparr>blob_data = content, md5_hash = gcs_md5 E content, cache_control = cc,
             blob_ident = gcs_new_id E bucket name\<rparr>)))"

text \<open>
  \<open>upload_file_if_changed\<close>. \<open>compute_gcs_md5\<close> reads the local file and fails when there
  is none. The remote hash is \<open>None\<close> when the object does not exist, and then differs from
  the local one. \<open>remote_blob.id\<close> is \<open>None\<close> for an object that is not in the bucket.
\<close>

definition upload_file_if_changed ::
    "env \<Rightarrow> files \<Rightarrow> string \<Rightarrow> bucket \<Rightarrow> string \<Rightarrow> bool \<Rightarrow> error + MaybeUpload \<times> bucket" where
  "upload_file_if_changed E fs local_file_path bucket blob_path disable_cache =
     (case fs local_file_path of
        None \<Rightarrow> Inl (CollaboratorError local_file_path)
      | Some content \<Rightarrow>
          let local_file_md5_hash = Some (compute_gcs_md5 E content);
              remote_blob_md5_hash = map_option md5_hash (bucket blob_path)
          in if local_file_md5_hash \<noteq> remote_blob_md5_hash
             then (let (uploaded, bucket') = save_blob_to_gcs E bucket blob_path content disable_cache
                   in Inr ((uploaded, map_option blob_ident (bucket' blob_path)), bucket'))
             else Inr ((False, map_option blob_ident (bucket blob_path)), bucket))"

definition missing_file_msg :: "string \<Rightarrow> string" where
  "missing_file_msg local_path = ''Expected to find file at '' @ local_path @ '', but none was found.''"

text \<open>
  The blob path \<open>{gcp_connector_dir}/{folder}/{local_path.name}\<close> of \<open>_file_upload\<close>.
\<close>

definition blob_path_of :: "env \<Rightarrow> string \<Rightarrow> string \<Rightarrow> string \<Rightarrow> string" where
  "blob_path_of E gcp_connector_dir folder local_path =
     (gcp_connector_dir @ ''/'' @ folder) @ ''/'' @ path_name E local_path"

text \<open>
  \<open>_file_upload\<close>. The local path is optional because \<open>get_doc_local_file_path\<close> may return
  \<open>None\<close>, and \<open>None.exists()\<close> raises \<open>AttributeError\<close>. \<open>upload_as_version\<close> is a string
  or \<open>False\<close>: \<open>None\<close> stands for \<open>False\<close>, and the test \<open>if upload_as_version\<close> is Python's
  truth value, which \<open>False\<close> and the empty string fail.
\<close>

definition file_upload ::
    "env \<Rightarrow> files \<Rightarrow> string option \<Rightarrow> string \<Rightarrow> bucket \<Rightarrow> string \<Rightarrow> string option \<Rightarrow> bool \<Rightarrow> bool \<Rightarrow> bool
      \<Rightarrow> error + (UploadedFile \<times> UploadedFile) \<times> bucket" where
  "file_upload E fs local_path gcp_connector_dir bucket file_key
       upload_as_version upload_as_latest skip_if_not_exists disable_cache =
     (let latest_file_key = ''latest_'' @ file_key;
          versioned_file_key = ''versioned_'' @ file_key;
          versioned_file_info = \<lparr>id' = versioned_file_key, uploaded = False, blob_id = None\<rparr>;
          latest_file_info = \<lparr>id' = latest_file_key, uploaded = False, blob_id = None\<rparr>
      in case local_path of
           None \<Rightarrow> Inl (AttributeError ''exists'')
         | Some p \<Rightarrow>
             if fs p = None then
               (if skip_if_not_exists then Inr ((versioned_file_info, latest_file_info), bucket)
                else Inl (FileNotFoundError (missing_file_msg p)))
             else
               (case (case upload_as_version of
                        None \<Rightarrow> Inr (versioned_file_info, bucket)
                      | Some version \<Rightarrow>
                          if version = [] then Inr (versioned_file_info, bucket)
                          else
                            (case upload_file_if_changed E fs p bucket
                                    (blob_path_of E gcp_connector_dir version p) disable_cache of
                               Inl e \<Rightarrow> Inl e
                             | Inr ((versioned_uploaded, versioned_blob_id), bucket1) \<Rightarrow>
                                 Inr (\<lparr>id' = versioned_file_key, uploaded = versioned_uploaded,
                                       blob_id = versioned_blob_id\<rparr>, bucket1))) of
                  Inl e \<Rightarrow> Inl e
                | Inr (versioned_file_info', bucket1) \<Rightarrow>
                    (case (if upload_as_latest then
                             (case upload_file_if_changed E fs p bucket1
                                     (blob_path_of E gcp_connector_dir LATEST_GCS_FOLDER_NAME p) disable_cache of
                                Inl e \<Rightarrow> Inl e
                              | Inr ((latest_uploaded, latest_blob_id), bucket2) \<Rightarrow>
                                  Inr (\<lparr>id' = latest_file_key, uploaded = latest_uploaded,
                                        blob_id = latest_blob_id\<rparr>, bucket2))
                           else Inr (latest_file_info, bucket1)) of
                       Inl e \<Rightarrow> Inl e
                     | Inr (latest_file_info', bucket2) \<Rightarrow>
                         Inr ((versioned_file_info', latest_file_info'), bucket2))))"


subsection \<open>Files and paths\<close>

text \<open>
  The pattern \<open>^https://docs\.airbyte\.com/(.+)$\<close>, searched without flags: the text
  starts with the prefix, the group is one or more characters other than a newline, and
  \<open>$\<close> stands at the end of the text or before a newline that ends it.
\<close>

definition docs_url_prefix :: string where
  "docs_url_prefix = ''https://docs.airbyte.com/''"

definition docs_url_match :: "string \<Rightarrow> string option" where
  "docs_url_match url =
     (if take (length docs_url_prefix) url = docs_url_prefix then
        (let rest = drop (length docs_url_prefix) url;
             group1 = (if rest \<noteq> [] \<and> last rest = CHR 0x0A then butlast rest else rest)
         in if group1 \<noteq> [] \<and> CHR 0x0A \<notin> set group1 then Some group1 else None)
      else None)"

definition get_doc_local_file_path :: "env \<Rightarrow> ConnectorMetadata \<Rightarrow> string \<Rightarrow> bool \<Rightarrow> error + string option" where
  "get_doc_local_file_path E metadata docs_path' inapp =
     (case docs_url_match (documentationUrl metadata) of
        Some group1 \<Rightarrow>
          (let extension = (if inapp then ''.inapp.md'' else ''.md'')
           in case path_with_suffix E (path_join E docs_path' group1) extension of
                Inl e \<Rightarrow> Inl (CollaboratorError e)
              | Inr p \<Rightarrow> Inr (Some p))
      | None \<Rightarrow> Inr None)"

text \<open>
  \<open>maybe_create_components_zip\<close>. Both temporary files are created, empty, when the \<open>with\<close>
  statement is entered, and \<open>delete=False\<close> keeps them; only then the function looks for
  the components file. The file system is returned also when the zip helper raises.
\<close>

definition maybe_create_components_zip ::
    "env \<Rightarrow> files \<Rightarrow> string \<Rightarrow> (error + ManifestOnlyFilePaths) \<times> files" where
  "maybe_create_components_zip E fs working_directory =
     (let yaml_manifest_file_path = path_join E working_directory (MANIFEST_FILE_NAME E);
          components_py_file_path = path_join E working_directory (COMPONENTS_PY_FILE_NAME E);
          python_components_zip_file_path = NamedTemporaryFile E fs ''.zip'';
          fs1 = fs(python_components_zip_file_path \<mapsto> []);
          python_components_zip_sha256_file_path = NamedTemporaryFile E fs1 ''.sha256'';
          fs2 = fs1(python_components_zip_sha256_file_path \<mapsto> [])
      in if fs2 components_py_file_path \<noteq> None then
           (case create_zip_and_get_sha256 E fs2 [components_py_file_path, yaml_manifest_file_path] of
              Inl e \<Rightarrow> (Inl (CollaboratorError e), fs2)
            | Inr (zip_bytes, components_zip_sha256) \<Rightarrow>
                (Inr \<lparr>zip_file_path = python_components_zip_file_path,
                      sha256_file_path = python_components_zip_sha256_file_path,
                      sha256 = Some components_zip_sha256,
                      manifest_file_path = yaml_manifest_file_path\<rparr>,
                 fs2(python_components_zip_file_path \<mapsto> zip_bytes,
                     python_components_zip_sha256_file_path \<mapsto> components_zip_sha256)))
         else
           (Inr \<lparr>zip_file_path = python_components_zip_file_path,
                 sha256_file_path = python_components_zip_sha256_file_path,
                 sha256 = None,
                 manifest_file_path = yaml_manifest_file_path\<rparr>, fs2))"

definition write_metadata_to_tmp_file :: "env \<Rightarrow> files \<Rightarrow> (string \<times> yaml) list \<Rightarrow> string \<times> files" where
  "write_metadata_to_tmp_file E fs metadata_dict =
     (let name = NamedTemporaryFile E fs ''.yaml''
      in (name, fs(name \<mapsto> yaml_dump E (YDict metadata_dict))))"

subsection \<open>Loading the document\<close>

definition invalid_yaml_msg :: "string \<Rightarrow> string" where
  "invalid_yaml_msg metadata_file_path' =
     ''Validation error: Metadata file '' @ metadata_file_path' @ '' is invalid yaml''"

text \<open>
  \<open>_safe_load_metadata_file\<close>: whatever is raised inside the \<open>try\<close>, the own
  \<open>ValueError\<close> included, is raised again as a \<open>ValueError\<close> that ends with its text.
\<close>

definition safe_load_metadata_file :: "env \<Rightarrow> files \<Rightarrow> string \<Rightarrow> error + (string \<times> yaml) list" where
  "safe_load_metadata_file E fs metadata_file_path' =
     (case fs metadata_file_path' of
        None \<Rightarrow>
          Inl (ValueError (invalid_yaml_msg metadata_file_path' @ '': ''
                 @ ''[Errno 2] No such file or directory: '' @ metadata_file_path'))
      | Some text \<Rightarrow>
          (case yaml_safe_load E text of
             Inl e \<Rightarrow> Inl (ValueError (invalid_yaml_msg metadata_file_path' @ '': '' @ e))
           | Inr (YDict metadata) \<Rightarrow> Inr metadata
           | Inr _ \<Rightarrow>
               Inl (ValueError (invalid_yaml_msg metadata_file_path' @ '': ''
                      @ invalid_yaml_msg metadata_file_path' @ ''.''))))"

text \<open>Python's \<open>x in s\<close> on two strings.\<close>

fun str_contains :: "string \<Rightarrow> string \<Rightarrow> bool" where
  "str_contains x [] = (x = [])"
| "str_contains x (c # s) = (take (length x) (c # s) = x \<or> str_contains x s)"

definition get_git_info_for_file :: "env \<Rightarrow> string \<Rightarrow> error + GitInfo option" where
  "get_git_info_for_file E original_metadata_file_path =
     (case git_log E original_metadata_file_path of
        Commit info \<Rightarrow> Inr (Some info)
      | InvalidGitRepositoryError \<Rightarrow> Inr None
      | GitCommandError e \<Rightarrow>
          if str_contains ''unknown revision or path not in the working tree'' e then Inr None
          else Inl (CollaboratorError e)
      | OtherGitError e \<Rightarrow> Inl (CollaboratorError e))"

subsection \<open>Metadata modifications\<close>

text \<open>
  One step of the loop of \<open>_apply_prerelease_overrides\<close>, on one value of the registry
  overrides. On a dictionary \<open>in\<close> looks for the key and the assignment replaces its value.
  On a string \<open>in\<close> is the substring test and on a list the membership test, and the
  assignment that follows a positive test raises \<open>TypeError\<close>; on any other value \<open>in\<close>
  itself raises \<open>TypeError\<close>.
\<close>

fun override_registry :: "string \<Rightarrow> yaml \<Rightarrow> error + yaml" where
  "override_registry tag (YDict registry) =
     Inr (YDict (if ''dockerImageTag'' \<in> fst ` set registry
                 then AList.update ''dockerImageTag'' (YStr tag) registry else registry))"
| "override_registry tag (YStr s) =
     (if str_contains ''dockerImageTag'' s then Inl (TypeError ''item assignment'') else Inr (YStr s))"
| "override_registry tag (YList xs) =
     (if YStr ''dockerImageTag'' \<in> set xs then Inl (TypeError ''item assignment'') else Inr (YList xs))"
| "override_registry tag v = Inl (TypeError ''in'')"

fun override_registries :: "string \<Rightarrow> (string \<times> yaml) list \<Rightarrow> error + (string \<times> yaml) list" where
  "override_registries tag [] = Inr []"
| "override_registries tag ((name, registry) # rest) =
     (case override_registry tag registry of
        Inl e \<Rightarrow> Inl e
      | Inr registry' \<Rightarrow>
          (case override_registries tag rest of
             Inl e \<Rightarrow> Inl e
           | Inr rest' \<Rightarrow> Inr ((name, registry') # rest')))"

text \<open>
  \<open>_apply_prerelease_overrides\<close>. \<open>metadata_dict["data"]\<close> raises \<open>KeyError\<close> without the key,
  and the assignment into it raises \<open>TypeError\<close> unless it is a dictionary.
  \<open>get(metadata_dict, "data.registryOverrides", {})\<close> is the value under the key, or the
  empty dictionary without the key; \<open>.values()\<close> raises \<open>AttributeError\<close> on a value that is
  not a dictionary. The dictionaries are changed in place, so the result holds the new
  overrides at the place of the old ones.
\<close>

definition apply_prerelease_overrides ::
    "(string \<times> yaml) list \<Rightarrow> ValidatorOptions \<Rightarrow> error + (string \<times> yaml) list" where
  "apply_prerelease_overrides metadata_dict validator_opts =
     (case prerelease_tag validator_opts of
        None \<Rightarrow> Inr metadata_dict
      | Some tag \<Rightarrow>
          (case map_of metadata_dict ''data'' of
             None \<Rightarrow> Inl (KeyError ''data'')
           | Some (YDict data) \<Rightarrow>
               (let data1 = AList.update ''dockerImageTag'' (YStr tag) data
                in case map_of data1 ''registryOverrides'' of
                     None \<Rightarrow> Inr (AList.update ''data'' (YDict data1) metadata_dict)
                   | Some (YDict registries) \<Rightarrow>
                       (case override_registries tag registries of
                          Inl e \<Rightarrow> Inl e
                        | Inr registries' \<Rightarrow>
                            Inr (AList.update ''data''
                                   (YDict (AList.update ''registryOverrides'' (YDict registries') data1))
                                   metadata_dict))
                   | Some _ \<Rightarrow> Inl (AttributeError ''values''))
           | Some _ \<Rightarrow> Inl (TypeError ''item assignment'')))"

definition apply_author_info_to_metadata_file ::
    "env \<Rightarrow> (string \<times> yaml) list \<Rightarrow> string \<Rightarrow> error + (string \<times> yaml) list" where
  "apply_author_info_to_metadata_file E metadata_dict original_metadata_file_path =
     (case get_git_info_for_file E original_metadata_file_path of
        Inl e \<Rightarrow> Inl e
      | Inr None \<Rightarrow> Inr metadata_dict
      | Inr (Some git_info) \<Rightarrow>
          (case pydash_set E metadata_dict ''data.generated.git'' (to_json_sanitized_dict E git_info) of
             Inl e \<Rightarrow> Inl (CollaboratorError e)
           | Inr metadata_dict1 \<Rightarrow> Inr metadata_dict1))"

text \<open>The test \<open>if python_components_sha256\<close> fails on \<open>None\<close> and on the empty string.\<close>

definition apply_python_components_sha_to_metadata_file ::
    "env \<Rightarrow> (string \<times> yaml) list \<Rightarrow> string option \<Rightarrow> error + (string \<times> yaml) list" where
  "apply_python_components_sha_to_metadata_file E metadata_dict python_components_sha256 =
     (case python_components_sha256 of
        None \<Rightarrow> Inr metadata_dict
      | Some digest \<Rightarrow>
          if digest = [] then Inr metadata_dict
          else
            (case pydash_set E metadata_dict ''data.generated.pythonComponents.required'' (YBool True) of
               Inl e \<Rightarrow> Inl (CollaboratorError e)
             | Inr metadata_dict1 \<Rightarrow>
                 (case pydash_set E metadata_dict1 ''data.generated.pythonComponents.sha256''
                         (YStr digest) of
                    Inl e \<Rightarrow> Inl (CollaboratorError e)
                  | Inr metadata_dict2 \<Rightarrow> Inr metadata_dict2)))"

text \<open>
  \<open>v[key]\<close> on a loaded value: \<open>KeyError\<close> on a dictionary without the key, \<open>TypeError\<close> on
  a value that is not a dictionary. A value is formatted into an f-string by \<open>str\<close>.
\<close>

definition subscript :: "yaml \<Rightarrow> string \<Rightarrow> error + yaml" where
  "subscript v key =
     (case v of
        YDict d \<Rightarrow> (case map_of d key of None \<Rightarrow> Inl (KeyError key) | Some x \<Rightarrow> Inr x)
      | _ \<Rightarrow> Inl (TypeError ''subscript''))"

definition format_value :: "env \<Rightarrow> yaml \<Rightarrow> string" where
  "format_value E v = (case v of YStr s \<Rightarrow> s | _ \<Rightarrow> py_str E v)"

text \<open>
  The f-string of \<open>_apply_sbom_url_to_metadata_file\<close>, evaluated from left to right.
\<close>

definition sbom_url_of :: "env \<Rightarrow> (string \<times> yaml) list \<Rightarrow> error + string" where
  "sbom_url_of E metadata_dict =
     (case subscript (YDict metadata_dict) ''data'' of
        Inl e \<Rightarrow> Inl e
      | Inr data \<Rightarrow>
          (case subscript data ''dockerRepository'' of
             Inl e \<Rightarrow> Inl e
           | Inr repository \<Rightarrow>
               (case subscript data ''dockerImageTag'' of
                  Inl e \<Rightarrow> Inl e
                | Inr tag \<Rightarrow>
                    Inr (''https://connectors.airbyte.com/files/sbom/'' @ format_value E repository
                         @ ''/'' @ format_value E tag @ ''.spdx.json''))))"

text \<open>
  \<open>_apply_sbom_url_to_metadata_file\<close>: the \<open>try\<close> covers the f-string and catches
  \<open>KeyError\<close> only; \<open>requests.head\<close> is called outside it.
\<close>

definition apply_sbom_url_to_metadata_file ::
    "env \<Rightarrow> (string \<times> yaml) list \<Rightarrow> error + (string \<times> yaml) list" where
  "apply_sbom_url_to_metadata_file E metadata_dict =
     (case sbom_url_of E metadata_dict of
        Inl (KeyError k) \<Rightarrow> Inr metadata_dict
      | Inl e \<Rightarrow> Inl e
      | Inr sbom_url \<Rightarrow>
          (case requests_head E sbom_url of
             Inl e \<Rightarrow> Inl (CollaboratorError e)
           | Inr ok \<Rightarrow>
               if ok then
                 (case pydash_set E metadata_dict ''data.generated.sbomUrl'' (YStr sbom_url) of
                    Inl e \<Rightarrow> Inl (CollaboratorError e)
                  | Inr metadata_dict1 \<Rightarrow> Inr metadata_dict1)
               else Inr metadata_dict))"

definition apply_modifications_to_metadata_file ::
    "env \<Rightarrow> files \<Rightarrow> string \<Rightarrow> ValidatorOptions \<Rightarrow> string option \<Rightarrow> error + string \<times> files" where
  "apply_modifications_to_metadata_file E fs original_metadata_file_path validator_opts components_zip_sha256 =
     (case safe_load_metadata_file E fs original_metadata_file_path of
        Inl e \<Rightarrow> Inl e
      | Inr metadata0 \<Rightarrow>
      (case apply_prerelease_overrides metadata0 validator_opts of
        Inl e \<Rightarrow> Inl e
      | Inr metadata1 \<Rightarrow>
      (case apply_author_info_to_metadata_file E metadata1 original_metadata_file_path of
        Inl e \<Rightarrow> Inl e
      | Inr metadata2 \<Rightarrow>
      (case apply_python_components_sha_to_metadata_file E metadata2 components_zip_sha256 of
        Inl e \<Rightarrow> Inl e
      | Inr metadata3 \<Rightarrow>
      (case apply_sbom_url_to_metadata_file E metadata3 of
        Inl e \<Rightarrow> Inl e
      | Inr metadata4 \<Rightarrow> Inr (write_metadata_to_tmp_file E fs metadata4))))))"

subsection \<open>Main logic\<close>

text \<open>\<open>uploaded_files.extend(pair)\<close> appends the two files of the pair.\<close>

definition list_extend :: "UploadedFile list \<Rightarrow> UploadedFile \<times> UploadedFile \<Rightarrow> UploadedFile list" where
  "list_extend files pair = files @ [fst pair, snd pair]"

definition invalid_for_upload_msg :: "string \<Rightarrow> string \<Rightarrow> string" where
  "invalid_for_upload_msg path err = ''Metadata file '' @ path @ '' is invalid for uploading: '' @ err"

text \<open>
  The flags that \<open>upload_metadata_to_gcs\<close> derives from the validated document and the
  options, under the names of its local variables.
  \<open>getattr(metadata.data.releases, "isReleaseCandidate", False)\<close> is \<open>False\<close> without a
  releases section.
\<close>

definition is_pre_release :: "ValidatorOptions \<Rightarrow> bool" where
  "is_pre_release validator_opts = (prerelease_tag validator_opts \<noteq> None)"

definition is_release_candidate :: "ConnectorMetadata \<Rightarrow> bool" where
  "is_release_candidate metadata =
     (case releases metadata of None \<Rightarrow> False | Some r \<Rightarrow> isReleaseCandidate r)"

definition should_upload_release_candidate :: "ConnectorMetadata \<Rightarrow> ValidatorOptions \<Rightarrow> bool" where
  "should_upload_release_candidate metadata validator_opts =
     (is_release_candidate metadata \<and> \<not> is_pre_release validator_opts)"

definition should_upload_latest :: "ConnectorMetadata \<Rightarrow> ValidatorOptions \<Rightarrow> bool" where
  "should_upload_latest metadata validator_opts =
     (\<not> is_release_candidate metadata \<and> \<not> is_pre_release validator_opts)"

definition gcp_connector_dir :: "env \<Rightarrow> ConnectorMetadata \<Rightarrow> string" where
  "gcp_connector_dir E metadata = METADATA_FOLDER E @ ''/'' @ dockerRepository metadata"

definition upload_as_version :: "ConnectorMetadata \<Rightarrow> ValidatorOptions \<Rightarrow> string option" where
  "upload_as_version metadata validator_opts =
     (if \<not> is_pre_release validator_opts then Some (dockerImageTag metadata)
      else prerelease_tag validator_opts)"

text \<open>
  \<open>upload_metadata_to_gcs\<close>. The state is the local file system and the objects of the
  bucket called \<open>bucket_name\<close>; both are returned with the result, also when the run raises,
  so that what was written before an exception is still there. After the modifications
  the name \<open>metadata_file_path\<close> is bound to the temporary file (\<open>tmp_metadata_file_path\<close>
  here): the uploads and the icon path start from it. The calls of \<open>_file_upload\<close> that
  do not pass \<open>skip_if_not_exists\<close> and \<open>disable_cache\<close> get the defaults \<open>True\<close> and
  \<open>False\<close>.
\<close>

definition upload_metadata_to_gcs ::
    "env \<Rightarrow> string \<Rightarrow> string \<Rightarrow> ValidatorOptions \<Rightarrow> files \<Rightarrow> bucket
      \<Rightarrow> (error + MetadataUploadInfo) \<times> files \<times> bucket" where
  "upload_metadata_to_gcs E bucket_name metadata_file_path' validator_opts fs bucket =
     (let working_directory = path_parent E metadata_file_path' in
      case maybe_create_components_zip E fs working_directory of
        (Inl e, fs1) \<Rightarrow> (Inl e, fs1, bucket)
      | (Inr manifest_only_file_info, fs1) \<Rightarrow>
      (case apply_modifications_to_metadata_file E fs1 metadata_file_path' validator_opts
              (sha256 manifest_only_file_info) of
        Inl e \<Rightarrow> (Inl e, fs1, bucket)
      | Inr (tmp_metadata_file_path, fs2) \<Rightarrow>
      (case validate_and_load E fs2 tmp_metadata_file_path validator_opts of
        (None, err) \<Rightarrow>
          (Inl (ValueError (invalid_for_upload_msg tmp_metadata_file_path err)), fs2, bucket)
      | (Some metadata, err) \<Rightarrow>
      (case GCS_CREDENTIALS E of
        None \<Rightarrow> (Inl (ValueError ''Please set the GCS_CREDENTIALS env var.''), fs2, bucket)
      | Some gcs_creds \<Rightarrow>
      if gcs_creds = [] then
        (Inl (ValueError ''Please set the GCS_CREDENTIALS env var.''), fs2, bucket)
      else
      (case storage_client E gcs_creds of
        Some e \<Rightarrow> (Inl (CollaboratorError e), fs2, bucket)
      | None \<Rightarrow>
      (case file_upload E fs2 (Some tmp_metadata_file_path) (gcp_connector_dir E metadata) bucket
              ''metadata'' (upload_as_version metadata validator_opts)
              (should_upload_latest metadata validator_opts) True True of
        Inl e \<Rightarrow> (Inl e, fs2, bucket)
      | Inr (metadata_files_uploaded, bucket1) \<Rightarrow>
      (case (if should_upload_release_candidate metadata validator_opts then
               (case file_upload E fs2 (Some tmp_metadata_file_path) (gcp_connector_dir E metadata)
                       bucket1 ''release_candidate'' (Some RELEASE_CANDIDATE_GCS_FOLDER_NAME)
                       False True True of
                  Inl e \<Rightarrow> Inl e
                | Inr (release_candidate_files_uploaded, bucket2) \<Rightarrow>
                    Inr (list_extend (list_extend [] metadata_files_uploaded)
                           release_candidate_files_uploaded, bucket2))
             else Inr (list_extend [] metadata_files_uploaded, bucket1)) of
        Inl e \<Rightarrow> (Inl e, fs2, bucket1)
      | Inr (uploaded_files2, bucket2) \<Rightarrow>
      (case file_upload E fs2
              (Some (path_join E (path_parent E tmp_metadata_file_path) (ICON_FILE_NAME E)))
              (gcp_connector_dir E metadata) bucket2 ''icon'' None
              (should_upload_latest metadata validator_opts) True False of
        Inl e \<Rightarrow> (Inl e, fs2, bucket2)
      | Inr (icon_files_uploaded, bucket3) \<Rightarrow>
      (case get_doc_local_file_path E metadata (docs_path validator_opts) False of
        Inl e \<Rightarrow> (Inl e, fs2, bucket3)
      | Inr local_doc_path \<Rightarrow>
      (case file_upload E fs2 local_doc_path (gcp_connector_dir E metadata) bucket3
              ''doc'' (upload_as_version metadata validator_opts)
              (should_upload_latest metadata validator_opts) True False of
        Inl e \<Rightarrow> (Inl e, fs2, bucket3)
      | Inr (doc_files_uploaded, bucket4) \<Rightarrow>
      (case get_doc_local_file_path E metadata (docs_path validator_opts) True of
        Inl e \<Rightarrow> (Inl e, fs2, bucket4)
      | Inr local_inapp_doc_path \<Rightarrow>
      (case file_upload E fs2 local_inapp_doc_path (gcp_connector_dir E metadata) bucket4
              ''inapp_doc'' (upload_as_version metadata validator_opts)
              (should_upload_latest metadata validator_opts) True False of
        Inl e \<Rightarrow> (Inl e, fs2, bucket4)
      | Inr (inapp_doc_files_uploaded, bucket5) \<Rightarrow>
      (case file_upload E fs2 (Some (manifest_file_path manifest_only_file_info))
              (gcp_connector_dir E metadata) bucket5
              ''manifest'' (upload_as_version metadata validator_opts)
              (should_upload_latest metadata validator_opts) True False of
        Inl e \<Rightarrow> (Inl e, fs2, bucket5)
      | Inr (manifest_files_uploaded, bucket6) \<Rightarrow>
      (case file_upload E fs2 (Some (sha256_file_path manifest_only_file_info))
              (gcp_connector_dir E metadata) bucket6
              ''components_zip_sha256'' (upload_as_version metadata validator_opts)
              (should_upload_latest metadata validator_opts) True False of
        Inl e \<Rightarrow> (Inl e, fs2, bucket6)
      | Inr (components_zip_sha256_files_uploaded, bucket7) \<Rightarrow>
      (case file_upload E fs2 (Some (zip_file_path manifest_only_file_info))
              (gcp_connector_dir E metadata) bucket7
              ''components_zip'' (upload_as_version metadata validator_opts)
              (should_upload_latest metadata validator_opts) True False of
        Inl e \<Rightarrow> (Inl e, fs2, bucket7)
      | Inr (components_zip_files_uploaded, bucket8) \<Rightarrow>
      (let uploaded_files8 =
             list_extend (list_extend (list_extend (list_extend (list_extend (list_extend
               uploaded_files2 icon_files_uploaded) doc_files_uploaded) inapp_doc_files_uploaded)
               manifest_files_uploaded) components_zip_sha256_files_uploaded)
               components_zip_files_uploaded
       in (Inr \<lparr>metadata_uploaded =
                   any_uploaded uploaded_files8
                     [''latest_metadata'', ''version_metadata'', ''version_release_candidate''],
                 metadata_file_path = tmp_metadata_file_path,
                 uploaded_files = uploaded_files8\<rparr>,
           fs2, bucket8)))))))))))))))))"

subsection \<open>An environment to run the model in\<close>

text \<open>
  Paths are POSIX texts, \<open>tempfile\<close> names its files \<open>/tmp/tmp0\<close> plus the suffix, both
  hashes are the content itself, the loaded document is fixed, there is no git
  repository, the SBOM probe answers "not found", the validator accepts and returns
  \<open>validated\<close>, and the credentials are set.
\<close>

definition posix_name :: "string \<Rightarrow> string" where
  "posix_name p = rev (takeWhile (\<lambda>c. c \<noteq> CHR ''/'') (rev p))"

definition posix_parent :: "string \<Rightarrow> string" where
  "posix_parent p = rev (drop 1 (dropWhile (\<lambda>c. c \<noteq> CHR ''/'') (rev p)))"

text \<open>Assignment at a dotted path, as far as the path runs through dictionaries.\<close>

fun split_path :: "string \<Rightarrow> string list" where
  "split_path [] = [[]]"
| "split_path (c # s) =
     (if c = CHR ''.'' then [] # split_path s
      else (case split_path s of [] \<Rightarrow> [[c]] | k # ks \<Rightarrow> (c # k) # ks))"

fun set_nested :: "string list \<Rightarrow> yaml \<Rightarrow> (string \<times> yaml) list \<Rightarrow> string + (string \<times> yaml) list" where
  "set_nested [] v d = Inr d"
| "set_nested [k] v d = Inr (AList.update k v d)"
| "set_nested (k # k' # ks) v d =
     (case map_of d k of
        None \<Rightarrow>
          (case set_nested (k' # ks) v [] of
             Inl e \<Rightarrow> Inl e
           | Inr child' \<Rightarrow> Inr (AList.update k (YDict child') d))
      | Some (YDict child) \<Rightarrow>
          (case set_nested (k' # ks) v child of
             Inl e \<Rightarrow> Inl e
           | Inr child' \<Rightarrow> Inr (AList.update k (YDict child') d))
      | Some _ \<Rightarrow> Inl ''not a dictionary'')"

definition example_document :: "(string \<times> yaml) list" where
  "example_document =
     [(''data'', YDict [(''dockerRepository'', YStr ''source-foo''),
                        (''dockerImageTag'', YStr ''2.1.0'')])]"

definition example_env :: "ConnectorMetadata \<Rightarrow> env" where
  "example_env validated =
     \<lparr>COMPONENTS_PY_FILE_NAME = ''components.py'',
      ICON_FILE_NAME = ''icon.svg'',
      MANIFEST_FILE_NAME = ''manifest.yaml'',
      METADATA_FOLDER = ''metadata'',
      path_join = (\<lambda>p q. p @ ''/'' @ q),
      path_parent = posix_parent,
      path_name = posix_name,
      path_with_suffix = (\<lambda>p suffix. Inr (p @ suffix)),
      NamedTemporaryFile = (\<lambda>fs suffix. ''/tmp/tmp0'' @ suffix),
      compute_gcs_md5 = (\<lambda>content. content),
      create_zip_and_get_sha256 = (\<lambda>fs paths. Inr (''zip'', ''sha'')),
      yaml_safe_load = (\<lambda>text. Inr (YDict example_document)),
      yaml_dump = (\<lambda>v. ''dumped''),
      py_str = (\<lambda>v. ''?''),
      pydash_set = (\<lambda>d path v. set_nested (split_path path) v d),
      git_log = (\<lambda>path. InvalidGitRepositoryError),
      to_json_sanitized_dict = (\<lambda>info. YDict []),
      requests_head = (\<lambda>url. Inr False),
      validate_and_load = (\<lambda>fs path opts. (Some validated, [])),
      GCS_CREDENTIALS = Some ''{}'',
      storage_client = (\<lambda>creds. None),
      gcs_md5 = (\<lambda>content. content),
      gcs_new_id = (\<lambda>bucket name. name)\<rparr>"

text \<open>The same environment without a network: the SBOM probe raises.\<close>

definition offline_env :: "ConnectorMetadata \<Rightarrow> env" where
  "offline_env validated =
     (example_env validated)\<lparr>requests_head := (\<lambda>url. Inl ''ConnectionError'')\<rparr>"

definition example_metadata :: "string \<Rightarrow> bool \<Rightarrow> ConnectorMetadata" where
  "example_metadata url rc =
     \<lparr>dockerRepository = ''source-foo'', dockerImageTag = ''2.1.0'',
      documentationUrl = url, releases = Some \<lparr>isReleaseCandidate = rc\<rparr>\<rparr>"

definition docs_url :: string where
  "docs_url = ''https://docs.airbyte.com/integrations/sources/foo''"

definition other_url :: string where
  "other_url = ''https://example.com/foo''"

definition example_options :: ValidatorOptions where
  "example_options = \<lparr>docs_path = ''/docs'', prerelease_tag = None\<rparr>"

text \<open>
  A connector directory that holds the metadata file only: no \<open>components.py\<close>, no
  manifest, no icon, no docs.
\<close>

definition example_files :: files where
  "example_files = [''/c/metadata.yaml'' \<mapsto> ''data: {}'']"

text \<open>A local file, and the same file after an edit.\<close>

definition icon_files :: files where
  "icon_files = [''/c/icon.svg'' \<mapsto> ''A'']"

definition icon_files_edited :: files where
  "icon_files_edited = [''/c/icon.svg'' \<mapsto> ''B'']"

definition icon_blob :: blob where
  "icon_blob = \<lparr>blob_data = ''A'', md5_hash = ''A'', cache_control = None,
                 blob_ident = ''metadata/source-foo/latest/icon.svg''\<rparr>"

text \<open>
  A bucket that already holds, under the version folder and under \<open>latest\<close>, an object of
  the name and the content of the metadata file that the run writes.
\<close>

definition published_blob :: "string \<Rightarrow> blob" where
  "published_blob name =
     \<lparr>blob_data = ''dumped'', md5_hash = ''dumped'', cache_control = Some ''no-cache'',
      blob_ident = name\<rparr>"

definition published_bucket :: bucket where
  "published_bucket =
     [''metadata/source-foo/2.1.0/tmp0.yaml'' \<mapsto> published_blob ''metadata/source-foo/2.1.0/tmp0.yaml'',
      ''metadata/source-foo/latest/tmp0.yaml'' \<mapsto> published_blob ''metadata/source-foo/latest/tmp0.yaml'']"

text \<open>
  The test of \<open>_file_upload\<close> that decides whether the version folder is tried.
\<close>

definition attempt_version :: "string option \<Rightarrow> bool" where
  "attempt_version ver = (case ver of None \<Rightarrow> False | Some a \<Rightarrow> a \<noteq> [])"

subsection \<open>Notions used in the statements\<close>

text \<open>
  The URL that \<open>_apply_sbom_url_to_metadata_file\<close> formats from the repository and the tag.
\<close>

definition sbom_url :: "env \<Rightarrow> yaml \<Rightarrow> yaml \<Rightarrow> string" where
  "sbom_url E repository tag =
     ''https://connectors.airbyte.com/files/sbom/'' @ format_value E repository
       @ ''/'' @ format_value E tag @ ''.spdx.json''"

text \<open>
  Two registry entries that differ at most in \<open>dockerImageTag\<close>: the second carries the tag
  \<open>tag\<close> where the first carried any tag, and every other key is unchanged.
\<close>

definition tag_replaced :: "string \<Rightarrow> (string \<times> yaml) list \<Rightarrow> (string \<times> yaml) list \<Rightarrow> bool" where
  "tag_replaced tag r r' =
     (map_of r' ''dockerImageTag'' = map_option (\<lambda>old. YStr tag) (map_of r ''dockerImageTag'')
      \<and> (\<forall>k. k \<noteq> ''dockerImageTag'' \<longrightarrow> map_of r' k = map_of r k))"

text \<open>
  The same relation on the items of \<open>registryOverrides\<close>: same registry name, both values
  dictionaries, related by \<open>tag_replaced\<close>.
\<close>

definition override_replaced :: "string \<Rightarrow> string \<times> yaml \<Rightarrow> string \<times> yaml \<Rightarrow> bool" where
  "override_replaced tag x y =
     (fst y = fst x \<and> (\<exists>r r'. snd x = YDict r \<and> snd y = YDict r' \<and> tag_replaced tag r r'))"

text \<open>
  A metadata document with two registry overrides, one with a tag of its own and one without.
\<close>

definition override_document :: "(string \<times> yaml) list" where
  "override_document =
     [(''data'', YDict [(''dockerRepository'', YStr ''source-foo''),
                        (''dockerImageTag'', YStr ''1.0.0''),
                        (''registryOverrides'',
                           YDict [(''cloud'', YDict [(''dockerImageTag'', YStr ''1.0.0'')]),
                                  (''oss'', YDict [(''enabled'', YBool True)])])])]"

text \<open>
  Validator options of a prerelease publish.
\<close>

definition prerelease_options :: ValidatorOptions where
  "prerelease_options = \<lparr>docs_path = ''/docs'', prerelease_tag = Some ''1.0.0-dev.abc123''\<rparr>"

text \<open>
  What it is for the content of a local file to be published at a path of the bucket, with
  the outcome that \<open>_file_upload\<close> reported for that path: an outcome that says "written"
  goes with an object that holds the content, in place of one with another hash; an outcome
  that says "not written" goes with the object that was there before, whose hash is the one
  computed from the content.
\<close>

definition published :: "env \<Rightarrow> string \<Rightarrow> UploadedFile \<Rightarrow> bucket \<Rightarrow> bucket \<Rightarrow> string \<Rightarrow> bool" where
  "published E content outcome earlier later path =
     (case later path of
        None \<Rightarrow> False
      | Some obj \<Rightarrow>
          if uploaded outcome
          then blob_data obj = content
               \<and> map_option md5_hash (earlier path) \<noteq> Some (compute_gcs_md5 E content)
          else earlier path = Some obj \<and> md5_hash obj = compute_gcs_md5 E content)"

text \<open>
  The three folders of a connector are three paths for a file: the version is not the name
  of the latest or of the release-candidate folder, and the name of the file has no
  separator (the name of a path never has one).
\<close>

definition distinct_folders :: "env \<Rightarrow> string \<Rightarrow> string \<Rightarrow> bool" where
  "distinct_folders E version local_path =
     (CHR ''/'' \<notin> set (path_name E local_path)
      \<and> version \<noteq> LATEST_GCS_FOLDER_NAME
      \<and> version \<noteq> RELEASE_CANDIDATE_GCS_FOLDER_NAME)"

text \<open>
  The name of a local file is its own: no other file of the local file system has it.
\<close>

definition unique_name :: "env \<Rightarrow> files \<Rightarrow> string \<Rightarrow> bool" where
  "unique_name E fs local_path =
     (\<forall>p. fs p \<noteq> None \<and> path_name E p = path_name E local_path \<longrightarrow> p = local_path)"

text \<open>
  The two shapes of an \<open>UploadedFile\<close> in the example runs: a destination that was not tried, and
  one that was written under the given blob name.
\<close>

definition not_written :: "string \<Rightarrow> UploadedFile" where
  "not_written file_id = \<lparr>id' = file_id, uploaded = False, blob_id = None\<rparr>"

definition written :: "string \<Rightarrow> string \<Rightarrow> UploadedFile" where
  "written file_id name = \<lparr>id' = file_id, uploaded = True, blob_id = Some name\<rparr>"

text \<open>
  The report of a release run of the example connector on an empty bucket.
\<close>

definition example_report :: MetadataUploadInfo where
  "example_report =
     \<lparr>metadata_uploaded = True,
      metadata_file_path = ''/tmp/tmp0.yaml'',
      uploaded_files =
        [written ''versioned_metadata'' ''metadata/source-foo/2.1.0/tmp0.yaml'',
         written ''latest_metadata'' ''metadata/source-foo/latest/tmp0.yaml'',
         not_written ''versioned_icon'', not_written ''latest_icon'',
         not_written ''versioned_doc'', not_written ''latest_doc'',
         not_written ''versioned_inapp_doc'', not_written ''latest_inapp_doc'',
         not_written ''versioned_manifest'', not_written ''latest_manifest'',
         written ''versioned_components_zip_sha256'' ''metadata/source-foo/2.1.0/tmp0.sha256'',
         written ''latest_components_zip_sha256'' ''metadata/source-foo/latest/tmp0.sha256'',
         written ''versioned_components_zip'' ''metadata/source-foo/2.1.0/tmp0.zip'',
         written ''latest_components_zip'' ''metadata/source-foo/latest/tmp0.zip'']\<rparr>"

text \<open>
  The report of a release-candidate run of the example connector on an empty bucket.
\<close>

definition candidate_report :: MetadataUploadInfo where
  "candidate_report =
     \<lparr>metadata_uploaded = True,
      metadata_file_path = ''/tmp/tmp0.yaml'',
      uploaded_files =
        [written ''versioned_metadata'' ''metadata/source-foo/2.1.0/tmp0.yaml'',
         not_written ''latest_metadata'',
         written ''versioned_release_candidate'' ''metadata/source-foo/release_candidate/tmp0.yaml'',
         not_written ''latest_release_candidate'',
         not_written ''versioned_icon'', not_written ''latest_icon'',
         not_written ''versioned_doc'', not_written ''latest_doc'',
         not_written ''versioned_inapp_doc'', not_written ''latest_inapp_doc'',
         not_written ''versioned_manifest'', not_written ''latest_manifest'',
         written ''versioned_components_zip_sha256'' ''metadata/source-foo/2.1.0/tmp0.sha256'',
         not_written ''latest_components_zip_sha256'',
         written ''versioned_components_zip'' ''metadata/source-foo/2.1.0/tmp0.zip'',
         not_written ''latest_components_zip'']\<rparr>"

section \<open>Properties\<close>

lemma upload_file_if_changed_result:
  "fs p = Some c \<Longrightarrow>
   upload_file_if_changed E fs p bucket bp dc =
     (if map_option md5_hash (bucket bp) = Some (compute_gcs_md5 E c)
      then Inr ((False, map_option blob_ident (bucket bp)), bucket)
      else Inr ((True, Some (gcs_new_id E bucket bp)),
                bucket(bp \<mapsto> \<lparr>blob_data = c, md5_hash = gcs_md5 E c,
                  cache_control = (if dc then Some ''no-cache''
                     else (case bucket bp of None \<Rightarrow> None | Some b \<Rightarrow> cache_control b)),
                  blob_ident = gcs_new_id E bucket bp\<rparr>)))"
  by (cases "bucket bp") (auto simp: upload_file_if_changed_def save_blob_to_gcs_def Let_def)

lemma upload_file_if_changed_frame:
  "upload_file_if_changed E fs p bucket bp dc = Inr (r, bucket') \<Longrightarrow> n \<noteq> bp \<Longrightarrow> bucket' n = bucket n"
  by (auto simp: upload_file_if_changed_def save_blob_to_gcs_def Let_def split: option.splits if_splits)

lemma upload_file_if_changed_Inr:
  "upload_file_if_changed E fs p bucket bp dc = Inr r \<Longrightarrow> \<exists>c. fs p = Some c"
  by (auto simp: upload_file_if_changed_def split: option.splits)

lemma upload_file_if_changed_attempted:
  assumes "upload_file_if_changed E fs p bucket bp dc = Inr ((w, i), bucket')"
  shows "i \<noteq> None \<and> bucket' bp \<noteq> None"
proof -
  obtain c where c: "fs p = Some c"
    using assms upload_file_if_changed_Inr by blast
  show ?thesis
    using assms unfolding upload_file_if_changed_result[of fs p c, OF c]
    by (cases "bucket bp") (auto split: if_splits)
qed

lemma upload_file_if_changed_mono:
  "upload_file_if_changed E fs p bucket bp dc = Inr (r, bucket') \<Longrightarrow> bucket n \<noteq> None \<Longrightarrow> bucket' n \<noteq> None"
  by (auto simp: upload_file_if_changed_def save_blob_to_gcs_def Let_def split: option.splits if_splits)

lemma upload_file_if_changed_total:
  "fs p = Some c \<Longrightarrow> \<exists>w i bucket'. upload_file_if_changed E fs p bucket bp dc = Inr ((w, i), bucket')"
  by (cases "map_option md5_hash (bucket bp) = Some (compute_gcs_md5 E c)")
     (auto simp: upload_file_if_changed_result[of fs p c])

text \<open>What \<open>_file_upload\<close> does, case by case.\<close>

lemma file_upload_None:
  "file_upload E fs None dir bucket key ver latest skip dc = Inl (AttributeError ''exists'')"
  by (simp add: file_upload_def)

lemma file_upload_missing:
  "fs p = None \<Longrightarrow>
   file_upload E fs (Some p) dir bucket key ver latest skip dc =
     (if skip then Inr ((\<lparr>id' = ''versioned_'' @ key, uploaded = False, blob_id = None\<rparr>,
                         \<lparr>id' = ''latest_'' @ key, uploaded = False, blob_id = None\<rparr>), bucket)
      else Inl (FileNotFoundError (missing_file_msg p)))"
  by (simp add: file_upload_def)

lemma file_upload_cases:
  assumes c: "fs p = Some c"
      and R: "file_upload E fs (Some p) dir bucket key ver latest skip dc = R"
  obtains
    (neither) "\<not> attempt_version ver" "\<not> latest"
      "R = Inr ((\<lparr>id' = ''versioned_'' @ key, uploaded = False, blob_id = None\<rparr>,
                 \<lparr>id' = ''latest_'' @ key, uploaded = False, blob_id = None\<rparr>), bucket)"
  | (latest_only) w i b2 where "\<not> attempt_version ver" "latest"
      "upload_file_if_changed E fs p bucket (blob_path_of E dir LATEST_GCS_FOLDER_NAME p) dc = Inr ((w, i), b2)"
      "R = Inr ((\<lparr>id' = ''versioned_'' @ key, uploaded = False, blob_id = None\<rparr>,
                 \<lparr>id' = ''latest_'' @ key, uploaded = w, blob_id = i\<rparr>), b2)"
  | (version_only) a w i b1 where "ver = Some a" "a \<noteq> []" "\<not> latest"
      "upload_file_if_changed E fs p bucket (blob_path_of E dir a p) dc = Inr ((w, i), b1)"
      "R = Inr ((\<lparr>id' = ''versioned_'' @ key, uploaded = w, blob_id = i\<rparr>,
                 \<lparr>id' = ''latest_'' @ key, uploaded = False, blob_id = None\<rparr>), b1)"
  | (both) a w i b1 w2 i2 b2 where "ver = Some a" "a \<noteq> []" "latest"
      "upload_file_if_changed E fs p bucket (blob_path_of E dir a p) dc = Inr ((w, i), b1)"
      "upload_file_if_changed E fs p b1 (blob_path_of E dir LATEST_GCS_FOLDER_NAME p) dc = Inr ((w2, i2), b2)"
      "R = Inr ((\<lparr>id' = ''versioned_'' @ key, uploaded = w, blob_id = i\<rparr>,
                 \<lparr>id' = ''latest_'' @ key, uploaded = w2, blob_id = i2\<rparr>), b2)"
proof -
  have tot: "\<And>b bp. \<exists>w i b'. upload_file_if_changed E fs p b bp dc = Inr ((w, i), b')"
    using c by (rule upload_file_if_changed_total)
  show ?thesis
  proof (cases "attempt_version ver")
    case False
    then have nv: "ver = None \<or> ver = Some []"
      by (auto simp: attempt_version_def split: option.splits)
    show ?thesis
    proof (cases latest)
      case True
      obtain w i b' where u: "upload_file_if_changed E fs p bucket (blob_path_of E dir LATEST_GCS_FOLDER_NAME p) dc = Inr ((w, i), b')"
        using tot by blast
      have "R = Inr ((\<lparr>id' = ''versioned_'' @ key, uploaded = False, blob_id = None\<rparr>,
                 \<lparr>id' = ''latest_'' @ key, uploaded = w, blob_id = i\<rparr>), b')"
        using nv True c u R[symmetric] by (auto simp: file_upload_def)
      then show ?thesis using latest_only False True u by blast
    next
      case lf: False
      have "R = Inr ((\<lparr>id' = ''versioned_'' @ key, uploaded = False, blob_id = None\<rparr>,
                 \<lparr>id' = ''latest_'' @ key, uploaded = False, blob_id = None\<rparr>), bucket)"
        using nv lf c R[symmetric] by (auto simp: file_upload_def)
      then show ?thesis using neither False lf by blast
    qed
  next
    case True
    then obtain a where a: "ver = Some a" "a \<noteq> []"
      by (auto simp: attempt_version_def split: option.splits)
    obtain w i b1 where v: "upload_file_if_changed E fs p bucket (blob_path_of E dir a p) dc = Inr ((w, i), b1)"
      using tot by blast
    show ?thesis
    proof (cases latest)
      case True
      obtain w2 i2 b2 where u: "upload_file_if_changed E fs p b1 (blob_path_of E dir LATEST_GCS_FOLDER_NAME p) dc = Inr ((w2, i2), b2)"
        using tot by blast
      have "R = Inr ((\<lparr>id' = ''versioned_'' @ key, uploaded = w, blob_id = i\<rparr>,
                 \<lparr>id' = ''latest_'' @ key, uploaded = w2, blob_id = i2\<rparr>), b2)"
        using a v u True c R[symmetric] by (simp add: file_upload_def)
      then show ?thesis using both a True v u by blast
    next
      case lf: False
      have "R = Inr ((\<lparr>id' = ''versioned_'' @ key, uploaded = w, blob_id = i\<rparr>,
                 \<lparr>id' = ''latest_'' @ key, uploaded = False, blob_id = None\<rparr>), b1)"
        using a v lf c R[symmetric] by (simp add: file_upload_def)
      then show ?thesis using version_only a lf v by blast
    qed
  qed
qed

lemma file_upload_ids:
  assumes "file_upload E fs lp dir bucket key ver latest skip dc = Inr ((v, l), bucket')"
  shows "id' v = ''versioned_'' @ key \<and> id' l = ''latest_'' @ key"
proof (cases lp)
  case None
  then show ?thesis using assms by (simp add: file_upload_None)
next
  case (Some p)
  show ?thesis
  proof (cases "fs p")
    case None
    then show ?thesis using assms Some by (auto simp: file_upload_missing split: if_splits)
  next
    case c: (Some c)
    from assms Some have R: "file_upload E fs (Some p) dir bucket key ver latest skip dc = Inr ((v, l), bucket')"
      by simp
    from c R show ?thesis
      by (cases rule: file_upload_cases) auto
  qed
qed

lemma file_upload_unattempted:
  assumes R: "file_upload E fs (Some p) dir bucket key ver latest skip dc = Inr ((v, l), bucket')"
  shows "(\<not> attempt_version ver \<or> fs p = None \<longrightarrow>
            v = \<lparr>id' = ''versioned_'' @ key, uploaded = False, blob_id = None\<rparr>)
       \<and> (\<not> latest \<or> fs p = None \<longrightarrow>
            l = \<lparr>id' = ''latest_'' @ key, uploaded = False, blob_id = None\<rparr>)"
proof (cases "fs p")
  case None
  then show ?thesis using assms by (auto simp: file_upload_missing split: if_splits)
next
  case c: (Some c)
  from c R show ?thesis
    by (cases rule: file_upload_cases) (auto simp: attempt_version_def c)
qed

lemma file_upload_frame:
  assumes R: "file_upload E fs (Some p) dir bucket key ver latest skip dc = Inr ((v, l), bucket')"
      and d: "bucket' n \<noteq> bucket n"
  shows "(\<exists>a. ver = Some a \<and> a \<noteq> [] \<and> n = blob_path_of E dir a p)
       \<or> (latest \<and> n = blob_path_of E dir LATEST_GCS_FOLDER_NAME p)"
proof (cases "fs p")
  case None
  then show ?thesis using assms by (auto simp: file_upload_missing split: if_splits)
next
  case c: (Some c)
  from c R show ?thesis
  proof (cases rule: file_upload_cases)
    case neither
    then show ?thesis using d by simp
  next
    case (latest_only w i b2)
    then show ?thesis using d upload_file_if_changed_frame[OF latest_only(3), of n] by auto
  next
    case (version_only a w i b1)
    then show ?thesis using d upload_file_if_changed_frame[OF version_only(4), of n] by auto
  next
    case (both a w i b1 w2 i2 b2)
    have f1: "n \<noteq> blob_path_of E dir a p \<Longrightarrow> b1 n = bucket n"
      by (rule upload_file_if_changed_frame[OF both(4)])
    have f2: "n \<noteq> blob_path_of E dir LATEST_GCS_FOLDER_NAME p \<Longrightarrow> b2 n = b1 n"
      by (rule upload_file_if_changed_frame[OF both(5)])
    have b: "bucket' = b2" using both(6) by simp
    have "n = blob_path_of E dir a p \<or> n = blob_path_of E dir LATEST_GCS_FOLDER_NAME p"
      using d f1 f2 b by metis
    then show ?thesis using both(1,2,3) by auto
  qed
qed

lemma file_upload_mono:
  assumes R0: "file_upload E fs lp dir bucket key ver latest skip dc = Inr ((v, l), bucket')"
      and d: "bucket n \<noteq> None"
  shows "bucket' n \<noteq> None"
proof (cases lp)
  case None
  then show ?thesis using assms by (simp add: file_upload_None)
next
  case (Some p)
  with R0 have R: "file_upload E fs (Some p) dir bucket key ver latest skip dc = Inr ((v, l), bucket')"
    by simp
  show ?thesis
  proof (cases "fs p")
    case None
    then show ?thesis using R d by (auto simp: file_upload_missing split: if_splits)
  next
    case c: (Some c)
    from c R show ?thesis
    proof (cases rule: file_upload_cases)
      case neither
      then show ?thesis using d by simp
    next
      case (latest_only w i b2)
      then show ?thesis using d upload_file_if_changed_mono[OF latest_only(3), of n] by auto
    next
      case (version_only a w i b1)
      then show ?thesis using d upload_file_if_changed_mono[OF version_only(4), of n] by auto
    next
      case (both a w i b1 w2 i2 b2)
      then show ?thesis
        using d upload_file_if_changed_mono[OF both(4), of n] upload_file_if_changed_mono[OF both(5), of n]
        by auto
    qed
  qed
qed

lemma file_upload_attempted:
  assumes R: "file_upload E fs (Some p) dir bucket key ver latest skip dc = Inr ((v, l), bucket')"
      and c: "fs p = Some c"
  shows "(latest \<longrightarrow> blob_id l \<noteq> None \<and> bucket' (blob_path_of E dir LATEST_GCS_FOLDER_NAME p) \<noteq> None)
       \<and> (\<forall>a. ver = Some a \<and> a \<noteq> [] \<longrightarrow>
              blob_id v \<noteq> None \<and> bucket' (blob_path_of E dir a p) \<noteq> None)"
  using c R
proof (cases rule: file_upload_cases)
  case neither
  then show ?thesis by (auto simp: attempt_version_def)
next
  case (latest_only w i b2)
  then show ?thesis using upload_file_if_changed_attempted[OF latest_only(3)]
    by (auto simp: attempt_version_def)
next
  case (version_only a w i b1)
  then show ?thesis using upload_file_if_changed_attempted[OF version_only(4)] by auto
next
  case (both a w i b1 w2 i2 b2)
  then show ?thesis
    using upload_file_if_changed_attempted[OF both(4)] upload_file_if_changed_attempted[OF both(5)]
      upload_file_if_changed_mono[OF both(5), of "blob_path_of E dir a p"]
    by auto
qed

lemma file_upload_Inl:
  assumes "file_upload E fs lp dir bucket key ver latest skip dc = Inl e"
  shows "(lp = None \<and> e = AttributeError ''exists'')
       \<or> (\<exists>p. lp = Some p \<and> fs p = None \<and> \<not> skip \<and> e = FileNotFoundError (missing_file_msg p))"
proof (cases lp)
  case None
  then show ?thesis using assms by (simp add: file_upload_None)
next
  case (Some p)
  with assms have R: "file_upload E fs (Some p) dir bucket key ver latest skip dc = Inl e"
    by simp
  show ?thesis
  proof (cases "fs p")
    case None
    then show ?thesis using R Some by (auto simp: file_upload_missing split: if_splits)
  next
    case c: (Some c)
    from c R show ?thesis
      by (cases rule: file_upload_cases) auto
  qed
qed

lemma file_upload_total:
  assumes "fs p = Some c"
  shows "\<exists>v l bucket'. file_upload E fs (Some p) dir bucket key ver latest skip dc = Inr ((v, l), bucket')"
proof -
  have R: "file_upload E fs (Some p) dir bucket key ver latest skip dc
             = file_upload E fs (Some p) dir bucket key ver latest skip dc" ..
  from assms R show ?thesis
    by (cases rule: file_upload_cases) auto
qed

lemma file_upload_skip_total:
  "\<exists>v l bucket'. file_upload E fs (Some p) dir bucket key ver latest True dc = Inr ((v, l), bucket')"
proof (cases "fs p")
  case None
  then show ?thesis by (simp add: file_upload_missing)
next
  case (Some c)
  then show ?thesis by (rule file_upload_total)
qed

lemma example_env_simps:
  "compute_gcs_md5 (example_env m) = (\<lambda>content. content)"
  "gcs_md5 (example_env m) = (\<lambda>content. content)"
  "gcs_new_id (example_env m) = (\<lambda>bucket name. name)"
  "path_name (example_env m) = posix_name"
  "path_parent (example_env m) = posix_parent"
  "path_join (example_env m) = (\<lambda>p q. p @ ''/'' @ q)"
  by (simp_all add: example_env_def)

text \<open>
  Claim C5. Two publishes of a local file to the same blob path, the second from the bucket
  that the first one left: the second one writes nothing when the hash of the file equals
  the hash that the bucket then stores, and writes when it differs. When the bucket records
  for an uploaded content the hash that \<open>compute_gcs_md5\<close> computes, an unchanged file is not
  written again, and a file whose content was changed to one of another hash is.
\<close>

theorem upload_file_if_changed_idempotent:
  assumes first: "upload_file_if_changed E fs p bucket bp dc = Inr ((w1, i1), bucket1)"
      and second: "upload_file_if_changed E fs2 p bucket1 bp dc2 = Inr ((w2, i2), bucket2)"
      and c1: "fs p = Some c1" and c2: "fs2 p = Some c2"
  shows "(map_option md5_hash (bucket1 bp) = Some (compute_gcs_md5 E c2) \<longrightarrow> \<not> w2 \<and> bucket2 = bucket1)
       \<and> (map_option md5_hash (bucket1 bp) \<noteq> Some (compute_gcs_md5 E c2) \<longrightarrow> w2)
       \<and> (gcs_md5 E c1 = compute_gcs_md5 E c1 \<longrightarrow> c2 = c1 \<longrightarrow> \<not> w2 \<and> bucket2 = bucket1)
       \<and> (gcs_md5 E c1 = compute_gcs_md5 E c1 \<longrightarrow> compute_gcs_md5 E c2 \<noteq> compute_gcs_md5 E c1 \<longrightarrow> w2)"
proof -
  note r1 = upload_file_if_changed_result[of fs p c1 E bucket bp dc, OF c1]
  note r2 = upload_file_if_changed_result[of fs2 p c2 E bucket1 bp dc2, OF c2]
  from first r1 have stored: "gcs_md5 E c1 = compute_gcs_md5 E c1 \<Longrightarrow>
      map_option md5_hash (bucket1 bp) = Some (compute_gcs_md5 E c1)"
    by (auto split: if_splits)
  from second r2 have A: "map_option md5_hash (bucket1 bp) = Some (compute_gcs_md5 E c2) \<Longrightarrow> \<not> w2 \<and> bucket2 = bucket1"
    by (auto split: if_splits)
  from second r2 have B: "map_option md5_hash (bucket1 bp) \<noteq> Some (compute_gcs_md5 E c2) \<Longrightarrow> w2"
    by (auto split: if_splits)
  show ?thesis using A B stored by auto
qed

theorem upload_file_if_changed_idempotent_witness:
  "upload_file_if_changed (example_env (example_metadata docs_url False)) icon_files ''/c/icon.svg''
      Map.empty ''metadata/source-foo/latest/icon.svg'' False
     = Inr ((True, Some ''metadata/source-foo/latest/icon.svg''),
            [''metadata/source-foo/latest/icon.svg'' \<mapsto> icon_blob])
   \<and> upload_file_if_changed (example_env (example_metadata docs_url False)) icon_files ''/c/icon.svg''
      [''metadata/source-foo/latest/icon.svg'' \<mapsto> icon_blob] ''metadata/source-foo/latest/icon.svg'' False
     = Inr ((False, Some ''metadata/source-foo/latest/icon.svg''),
            [''metadata/source-foo/latest/icon.svg'' \<mapsto> icon_blob])
   \<and> fst (fst (projr (upload_file_if_changed (example_env (example_metadata docs_url False))
        icon_files_edited ''/c/icon.svg''
        [''metadata/source-foo/latest/icon.svg'' \<mapsto> icon_blob] ''metadata/source-foo/latest/icon.svg'' False)))"
proof -
  let ?E = "example_env (example_metadata docs_url False)"
  let ?bp = "''metadata/source-foo/latest/icon.svg''"
  let ?b1 = "[?bp \<mapsto> icon_blob]"
  have c1: "icon_files ''/c/icon.svg'' = Some ''A''" by (simp add: icon_files_def)
  have c2: "icon_files_edited ''/c/icon.svg'' = Some ''B''" by (simp add: icon_files_edited_def)
  have h1: "upload_file_if_changed ?E icon_files ''/c/icon.svg'' Map.empty ?bp False
              = Inr ((True, Some ?bp), ?b1)"
    by (simp add: upload_file_if_changed_result[of icon_files _ "''A''"] c1 example_env_simps icon_blob_def)
  have stored: "map_option md5_hash (?b1 ?bp) = Some (compute_gcs_md5 ?E ''A'')"
    by (simp add: example_env_simps icon_blob_def)
  have differs: "map_option md5_hash (?b1 ?bp) \<noteq> Some (compute_gcs_md5 ?E ''B'')"
    by (simp add: example_env_simps icon_blob_def)
  obtain w2 i2 b2 where h2: "upload_file_if_changed ?E icon_files ''/c/icon.svg'' ?b1 ?bp False
              = Inr ((w2, i2), b2)"
    using upload_file_if_changed_total[of icon_files _ "''A''", OF c1] by blast
  obtain w3 i3 b3 where h3: "upload_file_if_changed ?E icon_files_edited ''/c/icon.svg'' ?b1 ?bp False
              = Inr ((w3, i3), b3)"
    using upload_file_if_changed_total[of icon_files_edited _ "''B''", OF c2] by blast
  have unchanged: "\<not> w2 \<and> b2 = ?b1"
    using upload_file_if_changed_idempotent[OF h1 h2 c1 c1] stored by blast
  have edited: "w3"
    using upload_file_if_changed_idempotent[OF h1 h3 c1 c2] differs by blast
  have "i2 = Some ?bp"
    using h2 unchanged
    by (simp add: upload_file_if_changed_result[of icon_files _ "''A''"] c1 example_env_simps icon_blob_def)
  then show ?thesis using h1 h2 h3 unchanged edited by simp
qed

text \<open>
  Claim C8. A call of \<open>_file_upload\<close> that returns: without a version alias and with
  \<open>upload_as_latest\<close>, no object other than the one at the latest path changes; with a
  version alias and without \<open>upload_as_latest\<close>, no object other than the one at the version
  path changes; with neither, the bucket is unchanged. The outcome of a destination that
  is not asked for is "not written, no id".
\<close>

theorem file_upload_alias_independence:
  assumes R: "file_upload E fs (Some p) dir bucket key ver latest skip dc = Inr ((v, l), bucket')"
  shows "(ver = None \<and> latest \<longrightarrow>
            (\<forall>n. n \<noteq> blob_path_of E dir LATEST_GCS_FOLDER_NAME p \<longrightarrow> bucket' n = bucket n)
            \<and> v = \<lparr>id' = ''versioned_'' @ key, uploaded = False, blob_id = None\<rparr>)
       \<and> (\<forall>a. ver = Some a \<and> \<not> latest \<longrightarrow>
            (\<forall>n. n \<noteq> blob_path_of E dir a p \<longrightarrow> bucket' n = bucket n)
            \<and> l = \<lparr>id' = ''latest_'' @ key, uploaded = False, blob_id = None\<rparr>)
       \<and> (ver = None \<and> \<not> latest \<longrightarrow>
            bucket' = bucket
            \<and> v = \<lparr>id' = ''versioned_'' @ key, uploaded = False, blob_id = None\<rparr>
            \<and> l = \<lparr>id' = ''latest_'' @ key, uploaded = False, blob_id = None\<rparr>)"
proof -
  have fr: "\<And>n. bucket' n \<noteq> bucket n \<Longrightarrow>
      (\<exists>a. ver = Some a \<and> a \<noteq> [] \<and> n = blob_path_of E dir a p)
       \<or> (latest \<and> n = blob_path_of E dir LATEST_GCS_FOLDER_NAME p)"
    by (rule file_upload_frame[OF R])
  have un: "(\<not> attempt_version ver \<longrightarrow>
            v = \<lparr>id' = ''versioned_'' @ key, uploaded = False, blob_id = None\<rparr>)
       \<and> (\<not> latest \<longrightarrow> l = \<lparr>id' = ''latest_'' @ key, uploaded = False, blob_id = None\<rparr>)"
    using file_upload_unattempted[OF R] by blast
  have a: "ver = None \<Longrightarrow> latest \<Longrightarrow> n \<noteq> blob_path_of E dir LATEST_GCS_FOLDER_NAME p \<Longrightarrow> bucket' n = bucket n" for n
    using fr[of n] by auto
  have b: "ver = Some a \<Longrightarrow> \<not> latest \<Longrightarrow> n \<noteq> blob_path_of E dir a p \<Longrightarrow> bucket' n = bucket n" for n a
    using fr[of n] by auto
  have c: "ver = None \<Longrightarrow> \<not> latest \<Longrightarrow> bucket' = bucket"
  proof
    fix n assume "ver = None" "\<not> latest"
    then show "bucket' n = bucket n" using fr[of n] by auto
  qed
  show ?thesis using a b c un by (auto simp: attempt_version_def)
qed

theorem file_upload_alias_independence_witness:
  "file_upload (example_env (example_metadata docs_url False)) icon_files (Some ''/c/icon.svg'')
      ''metadata/source-foo'' Map.empty ''icon'' None True True False
     = Inr ((\<lparr>id' = ''versioned_icon'', uploaded = False, blob_id = None\<rparr>,
             \<lparr>id' = ''latest_icon'', uploaded = True,
              blob_id = Some ''metadata/source-foo/latest/icon.svg''\<rparr>),
            [''metadata/source-foo/latest/icon.svg'' \<mapsto> icon_blob])
   \<and> snd (projr (file_upload (example_env (example_metadata docs_url False)) icon_files
        (Some ''/c/icon.svg'') ''metadata/source-foo'' Map.empty ''icon'' (Some ''2.1.0'') False True False))
        ''metadata/source-foo/latest/icon.svg'' = None
   \<and> snd (projr (file_upload (example_env (example_metadata docs_url False)) icon_files
        (Some ''/c/icon.svg'') ''metadata/source-foo'' Map.empty ''icon'' None False True False))
        = Map.empty"
proof -
  let ?E = "example_env (example_metadata docs_url False)"
  have c1: "icon_files ''/c/icon.svg'' = Some ''A''" by (simp add: icon_files_def)
  have h1: "file_upload ?E icon_files (Some ''/c/icon.svg'') ''metadata/source-foo'' Map.empty ''icon''
              None True True False
     = Inr ((\<lparr>id' = ''versioned_icon'', uploaded = False, blob_id = None\<rparr>,
             \<lparr>id' = ''latest_icon'', uploaded = True,
              blob_id = Some ''metadata/source-foo/latest/icon.svg''\<rparr>),
            [''metadata/source-foo/latest/icon.svg'' \<mapsto> icon_blob])"
    by (simp add: file_upload_def upload_file_if_changed_result[of icon_files _ "''A''"] c1
          example_env_simps icon_blob_def blob_path_of_def posix_name_def LATEST_GCS_FOLDER_NAME_def)
  obtain v2 l2 b2 where h2: "file_upload ?E icon_files (Some ''/c/icon.svg'') ''metadata/source-foo''
      Map.empty ''icon'' (Some ''2.1.0'') False True False = Inr ((v2, l2), b2)"
    using file_upload_total[of icon_files _ "''A''", OF c1] by blast
  obtain v3 l3 b3 where h3: "file_upload ?E icon_files (Some ''/c/icon.svg'') ''metadata/source-foo''
      Map.empty ''icon'' None False True False = Inr ((v3, l3), b3)"
    using file_upload_total[of icon_files _ "''A''", OF c1] by blast
  have away: "''metadata/source-foo/latest/icon.svg''
                \<noteq> blob_path_of ?E ''metadata/source-foo'' ''2.1.0'' ''/c/icon.svg''"
    by (simp add: blob_path_of_def example_env_simps posix_name_def)
  have "b2 ''metadata/source-foo/latest/icon.svg'' = Map.empty ''metadata/source-foo/latest/icon.svg''"
    using file_upload_alias_independence[OF h2] away by blast
  moreover have "b3 = Map.empty"
    using file_upload_alias_independence[OF h3] by blast
  moreover have "\<lparr>id' = ''versioned_icon'', uploaded = False, blob_id = None\<rparr>
                   = \<lparr>id' = ''versioned_'' @ ''icon'', uploaded = False, blob_id = None\<rparr>"
    using file_upload_alias_independence[OF h1] by simp
  ultimately show ?thesis using h1 h2 h3 by simp
qed

lemma sbom_url_of_complete:
  "map_of d ''data'' = Some (YDict data) \<Longrightarrow> map_of data ''dockerRepository'' = Some r \<Longrightarrow>
   map_of data ''dockerImageTag'' = Some t \<Longrightarrow> sbom_url_of E d = Inr (sbom_url E r t)"
  by (simp add: sbom_url_of_def subscript_def sbom_url_def)

lemma sbom_url_of_no_data:
  "map_of d ''data'' = None \<Longrightarrow> sbom_url_of E d = Inl (KeyError ''data'')"
  by (simp add: sbom_url_of_def subscript_def)

lemma sbom_url_of_missing_field:
  "map_of d ''data'' = Some (YDict data) \<Longrightarrow>
   map_of data ''dockerRepository'' = None \<or> map_of data ''dockerImageTag'' = None \<Longrightarrow>
   \<exists>k. sbom_url_of E d = Inl (KeyError k)"
  by (auto simp: sbom_url_of_def subscript_def split: option.splits)

text \<open>
  Claim C3, as amended. \<open>_apply_sbom_url_to_metadata_file\<close> returns the document unchanged
  when the document has no \<open>data\<close> key, when \<open>data\<close> lacks \<open>dockerRepository\<close> or
  \<open>dockerImageTag\<close>, and when the probe answers with a response that is not OK. An
  exception that \<open>requests.head\<close> itself raises (a network failure) is not caught: the
  function raises it.
\<close>

theorem apply_sbom_url_skips_or_propagates:
  "(map_of d ''data'' = None \<longrightarrow> apply_sbom_url_to_metadata_file E d = Inr d)
 \<and> (\<forall>data. map_of d ''data'' = Some (YDict data)
        \<and> (map_of data ''dockerRepository'' = None \<or> map_of data ''dockerImageTag'' = None)
      \<longrightarrow> apply_sbom_url_to_metadata_file E d = Inr d)
 \<and> (\<forall>data r t. map_of d ''data'' = Some (YDict data) \<and> map_of data ''dockerRepository'' = Some r
        \<and> map_of data ''dockerImageTag'' = Some t \<and> requests_head E (sbom_url E r t) = Inr False
      \<longrightarrow> apply_sbom_url_to_metadata_file E d = Inr d)
 \<and> (\<forall>data r t e. map_of d ''data'' = Some (YDict data) \<and> map_of data ''dockerRepository'' = Some r
        \<and> map_of data ''dockerImageTag'' = Some t \<and> requests_head E (sbom_url E r t) = Inl e
      \<longrightarrow> apply_sbom_url_to_metadata_file E d = Inl (CollaboratorError e))"
proof (intro conjI allI impI)
  assume "map_of d ''data'' = None"
  then show "apply_sbom_url_to_metadata_file E d = Inr d"
    by (simp add: apply_sbom_url_to_metadata_file_def sbom_url_of_no_data)
next
  fix data
  assume "map_of d ''data'' = Some (YDict data)
        \<and> (map_of data ''dockerRepository'' = None \<or> map_of data ''dockerImageTag'' = None)"
  then obtain k where "sbom_url_of E d = Inl (KeyError k)"
    using sbom_url_of_missing_field by blast
  then show "apply_sbom_url_to_metadata_file E d = Inr d"
    by (simp add: apply_sbom_url_to_metadata_file_def)
next
  fix data r t
  assume "map_of d ''data'' = Some (YDict data) \<and> map_of data ''dockerRepository'' = Some r
        \<and> map_of data ''dockerImageTag'' = Some t \<and> requests_head E (sbom_url E r t) = Inr False"
  then show "apply_sbom_url_to_metadata_file E d = Inr d"
    by (simp add: apply_sbom_url_to_metadata_file_def sbom_url_of_complete)
next
  fix data r t e
  assume "map_of d ''data'' = Some (YDict data) \<and> map_of data ''dockerRepository'' = Some r
        \<and> map_of data ''dockerImageTag'' = Some t \<and> requests_head E (sbom_url E r t) = Inl e"
  then show "apply_sbom_url_to_metadata_file E d = Inl (CollaboratorError e)"
    by (simp add: apply_sbom_url_to_metadata_file_def sbom_url_of_complete)
qed

text \<open>
  Claim C3 as stated fails: with the network down the probe raises, and so does the
  mutation, on a document that has both fields.
\<close>

theorem sbom_probe_failure_counterexample:
  "apply_sbom_url_to_metadata_file (offline_env (example_metadata docs_url False)) example_document
     = Inl (CollaboratorError ''ConnectionError'')"
  by (simp add: apply_sbom_url_to_metadata_file_def sbom_url_of_def subscript_def example_document_def
        offline_env_def example_env_def)

lemma override_registry_dict:
  "\<exists>r'. override_registry tag (YDict r) = Inr (YDict r') \<and> tag_replaced tag r r'"
proof (cases "map_of r ''dockerImageTag''")
  case None
  then have "''dockerImageTag'' \<notin> fst ` set r" by (simp add: map_of_eq_None_iff)
  then show ?thesis using None by (simp add: tag_replaced_def)
next
  case (Some old)
  then have "''dockerImageTag'' \<in> fst ` set r"
    by (metis map_of_eq_None_iff option.distinct(1))
  then show ?thesis using Some by (simp add: tag_replaced_def update_conv')
qed

lemma override_registries_dicts:
  "\<forall>registry \<in> snd ` set registries. \<exists>r. registry = YDict r \<Longrightarrow>
   \<exists>registries'. override_registries tag registries = Inr registries'
      \<and> list_all2 (override_replaced tag) registries registries'"
proof (induction registries)
  case Nil
  then show ?case by simp
next
  case (Cons x registries)
  obtain name registry where x: "x = (name, registry)" by (cases x)
  from Cons.prems x obtain r where r: "registry = YDict r" by auto
  obtain r' where r': "override_registry tag (YDict r) = Inr (YDict r')" "tag_replaced tag r r'"
    using override_registry_dict by blast
  from Cons obtain rest' where rest: "override_registries tag registries = Inr rest'"
      "list_all2 (override_replaced tag) registries rest'"
    by auto
  have head: "override_replaced tag (name, YDict r) (name, YDict r')"
    using r'(2) by (simp add: override_replaced_def)
  show ?case using x r r'(1) rest head by simp
qed

text \<open>
  Claim C7. On a document whose \<open>data\<close> is a dictionary and whose registry overrides, when
  there are any, are a dictionary of dictionaries: with a prerelease tag,
  \<open>_apply_prerelease_overrides\<close> returns the document with \<open>data.dockerImageTag\<close> set to the
  tag and, in every registry override, the \<open>dockerImageTag\<close> field replaced by the tag (an
  override without the field stays without it); everything else is as before. Without
  a prerelease tag the document is returned as it is.
\<close>

theorem apply_prerelease_overrides_replaces_tags:
  assumes data: "map_of metadata_dict ''data'' = Some (YDict data)"
      and regs: "map_of data ''registryOverrides'' = None
                 \<or> (\<exists>registries. map_of data ''registryOverrides'' = Some (YDict registries)
                        \<and> (\<forall>registry \<in> snd ` set registries. \<exists>r. registry = YDict r))"
  shows "(prerelease_tag opts = None \<longrightarrow> apply_prerelease_overrides metadata_dict opts = Inr metadata_dict)
   \<and> (\<forall>tag. prerelease_tag opts = Some tag \<longrightarrow>
        (\<exists>result data'.
            apply_prerelease_overrides metadata_dict opts = Inr result
          \<and> map_of result ''data'' = Some (YDict data')
          \<and> (\<forall>k. k \<noteq> ''data'' \<longrightarrow> map_of result k = map_of metadata_dict k)
          \<and> map_of data' ''dockerImageTag'' = Some (YStr tag)
          \<and> (\<forall>k. k \<noteq> ''dockerImageTag'' \<and> k \<noteq> ''registryOverrides'' \<longrightarrow> map_of data' k = map_of data k)
          \<and> (case map_of data ''registryOverrides'' of
               None \<Rightarrow> map_of data' ''registryOverrides'' = None
             | Some v \<Rightarrow>
                 \<exists>registries registries'. v = YDict registries
                   \<and> map_of data' ''registryOverrides'' = Some (YDict registries')
                   \<and> list_all2 (override_replaced tag) registries registries')))"
proof (intro conjI allI impI)
  assume "prerelease_tag opts = None"
  then show "apply_prerelease_overrides metadata_dict opts = Inr metadata_dict"
    by (simp add: apply_prerelease_overrides_def)
next
  fix tag
  assume tag: "prerelease_tag opts = Some tag"
  let ?data1 = "AList.update ''dockerImageTag'' (YStr tag) data"
  have d1: "map_of ?data1 ''registryOverrides'' = map_of data ''registryOverrides''"
    by (simp add: update_conv')
  from regs show "\<exists>result data'.
            apply_prerelease_overrides metadata_dict opts = Inr result
          \<and> map_of result ''data'' = Some (YDict data')
          \<and> (\<forall>k. k \<noteq> ''data'' \<longrightarrow> map_of result k = map_of metadata_dict k)
          \<and> map_of data' ''dockerImageTag'' = Some (YStr tag)
          \<and> (\<forall>k. k \<noteq> ''dockerImageTag'' \<and> k \<noteq> ''registryOverrides'' \<longrightarrow> map_of data' k = map_of data k)
          \<and> (case map_of data ''registryOverrides'' of
               None \<Rightarrow> map_of data' ''registryOverrides'' = None
             | Some v \<Rightarrow>
                 \<exists>registries registries'. v = YDict registries
                   \<and> map_of data' ''registryOverrides'' = Some (YDict registries')
                   \<and> list_all2 (override_replaced tag) registries registries')"
  proof
    assume none: "map_of data ''registryOverrides'' = None"
    have "apply_prerelease_overrides metadata_dict opts
            = Inr (AList.update ''data'' (YDict ?data1) metadata_dict)"
      using tag data none d1 by (simp add: apply_prerelease_overrides_def Let_def)
    then show ?thesis using none
      by (intro exI[of _ "AList.update ''data'' (YDict ?data1) metadata_dict"] exI[of _ ?data1])
         (simp add: update_conv')
  next
    assume "\<exists>registries. map_of data ''registryOverrides'' = Some (YDict registries)
                        \<and> (\<forall>registry \<in> snd ` set registries. \<exists>r. registry = YDict r)"
    then obtain registries where some: "map_of data ''registryOverrides'' = Some (YDict registries)"
      and dicts: "\<forall>registry \<in> snd ` set registries. \<exists>r. registry = YDict r"
      by blast
    obtain registries' where ov: "override_registries tag registries = Inr registries'"
      and rel: "list_all2 (override_replaced tag) registries registries'"
      using override_registries_dicts[OF dicts] by blast
    let ?data2 = "AList.update ''registryOverrides'' (YDict registries') ?data1"
    have "apply_prerelease_overrides metadata_dict opts
            = Inr (AList.update ''data'' (YDict ?data2) metadata_dict)"
      using tag data some d1 ov by (simp add: apply_prerelease_overrides_def Let_def)
    then show ?thesis using some rel
      by (intro exI[of _ "AList.update ''data'' (YDict ?data2) metadata_dict"] exI[of _ ?data2])
         (simp add: update_conv')
  qed
qed

theorem apply_prerelease_overrides_replaces_tags_witness:
  "map_of override_document ''data''
     = Some (YDict [(''dockerRepository'', YStr ''source-foo''),
                    (''dockerImageTag'', YStr ''1.0.0''),
                    (''registryOverrides'',
                       YDict [(''cloud'', YDict [(''dockerImageTag'', YStr ''1.0.0'')]),
                              (''oss'', YDict [(''enabled'', YBool True)])])])
   \<and> apply_prerelease_overrides override_document prerelease_options
     = Inr [(''data'', YDict [(''dockerRepository'', YStr ''source-foo''),
                              (''dockerImageTag'', YStr ''1.0.0-dev.abc123''),
                              (''registryOverrides'',
                                 YDict [(''cloud'', YDict [(''dockerImageTag'', YStr ''1.0.0-dev.abc123'')]),
                                        (''oss'', YDict [(''enabled'', YBool True)])])])]
   \<and> apply_prerelease_overrides override_document example_options = Inr override_document"
proof -
  let ?data = "[(''dockerRepository'', YStr ''source-foo''),
                    (''dockerImageTag'', YStr ''1.0.0''),
                    (''registryOverrides'',
                       YDict [(''cloud'', YDict [(''dockerImageTag'', YStr ''1.0.0'')]),
                              (''oss'', YDict [(''enabled'', YBool True)])])]"
  have h1: "map_of override_document ''data'' = Some (YDict ?data)"
    by (simp add: override_document_def)
  have h2: "map_of ?data ''registryOverrides'' = None
                 \<or> (\<exists>registries. map_of ?data ''registryOverrides'' = Some (YDict registries)
                        \<and> (\<forall>registry \<in> snd ` set registries. \<exists>r. registry = YDict r))"
    by simp
  have none: "prerelease_tag example_options = None" by (simp add: example_options_def)
  have tag: "prerelease_tag prerelease_options = Some ''1.0.0-dev.abc123''"
    by (simp add: prerelease_options_def)
  have identity: "apply_prerelease_overrides override_document example_options = Inr override_document"
    by (rule apply_prerelease_overrides_replaces_tags[OF h1 h2, THEN conjunct1, rule_format, OF none])
  from apply_prerelease_overrides_replaces_tags[OF h1 h2, THEN conjunct2, rule_format, OF tag]
  obtain result where returns: "apply_prerelease_overrides override_document prerelease_options = Inr result"
    by (elim exE conjE)
  have run: "apply_prerelease_overrides override_document prerelease_options
     = Inr [(''data'', YDict [(''dockerRepository'', YStr ''source-foo''),
                              (''dockerImageTag'', YStr ''1.0.0-dev.abc123''),
                              (''registryOverrides'',
                                 YDict [(''cloud'', YDict [(''dockerImageTag'', YStr ''1.0.0-dev.abc123'')]),
                                        (''oss'', YDict [(''enabled'', YBool True)])])])]"
    by (simp add: apply_prerelease_overrides_def override_document_def prerelease_options_def)
  show ?thesis
    by (intro conjI) (rule h1 run identity)+
qed

theorem apply_sbom_url_skips_or_propagates_witness:
  "apply_sbom_url_to_metadata_file (example_env (example_metadata docs_url False)) [] = Inr []
 \<and> apply_sbom_url_to_metadata_file (example_env (example_metadata docs_url False))
      [(''data'', YDict [(''dockerRepository'', YStr ''source-foo'')])]
      = Inr [(''data'', YDict [(''dockerRepository'', YStr ''source-foo'')])]
 \<and> apply_sbom_url_to_metadata_file (example_env (example_metadata docs_url False)) example_document
      = Inr example_document
 \<and> apply_sbom_url_to_metadata_file (offline_env (example_metadata docs_url False)) example_document
      = Inl (CollaboratorError ''ConnectionError'')"
proof -
  let ?E = "example_env (example_metadata docs_url False)"
  let ?O = "offline_env (example_metadata docs_url False)"
  let ?d = "[(''data'', YDict [(''dockerRepository'', YStr ''source-foo'')])]"
  let ?data = "[(''dockerRepository'', YStr ''source-foo''), (''dockerImageTag'', YStr ''2.1.0'')]"
  have a: "map_of ([] :: (string \<times> yaml) list) ''data'' = None" by simp
  have b: "map_of ?d ''data'' = Some (YDict [(''dockerRepository'', YStr ''source-foo'')])
        \<and> (map_of [(''dockerRepository'', YStr ''source-foo'')] ''dockerRepository'' = None
            \<or> map_of [(''dockerRepository'', YStr ''source-foo'')] ''dockerImageTag'' = None)"
    by simp
  have c: "map_of example_document ''data'' = Some (YDict ?data)
        \<and> map_of ?data ''dockerRepository'' = Some (YStr ''source-foo'')
        \<and> map_of ?data ''dockerImageTag'' = Some (YStr ''2.1.0'')
        \<and> requests_head ?E (sbom_url ?E (YStr ''source-foo'') (YStr ''2.1.0'')) = Inr False"
    by (simp add: example_document_def example_env_def)
  have d: "map_of example_document ''data'' = Some (YDict ?data)
        \<and> map_of ?data ''dockerRepository'' = Some (YStr ''source-foo'')
        \<and> map_of ?data ''dockerImageTag'' = Some (YStr ''2.1.0'')
        \<and> requests_head ?O (sbom_url ?O (YStr ''source-foo'') (YStr ''2.1.0'')) = Inl ''ConnectionError''"
    by (simp add: example_document_def example_env_def offline_env_def)
  note t = apply_sbom_url_skips_or_propagates
  show ?thesis
    by (intro conjI)
       (rule t[THEN conjunct1, rule_format, OF a]
             t[THEN conjunct2, THEN conjunct1, rule_format, OF b]
             t[THEN conjunct2, THEN conjunct2, THEN conjunct1, rule_format, OF c]
             t[THEN conjunct2, THEN conjunct2, THEN conjunct2, rule_format, OF d])+
qed

lemmas run_defs =
  upload_metadata_to_gcs_def maybe_create_components_zip_def
  apply_modifications_to_metadata_file_def safe_load_metadata_file_def apply_prerelease_overrides_def
  apply_author_info_to_metadata_file_def get_git_info_for_file_def
  apply_python_components_sha_to_metadata_file_def
  apply_sbom_url_to_metadata_file_def sbom_url_of_def subscript_def format_value_def
  write_metadata_to_tmp_file_def
  file_upload_def upload_file_if_changed_def save_blob_to_gcs_def
  get_doc_local_file_path_def docs_url_match_def docs_url_prefix_def blob_path_of_def list_extend_def
  LATEST_GCS_FOLDER_NAME_def RELEASE_CANDIDATE_GCS_FOLDER_NAME_def
  is_pre_release_def is_release_candidate_def should_upload_release_candidate_def
  should_upload_latest_def gcp_connector_dir_def upload_as_version_def
  example_env_def example_metadata_def example_options_def example_files_def example_document_def
  docs_url_def other_url_def posix_name_def posix_parent_def published_bucket_def published_blob_def
  Let_def

text \<open>
  Claim C1 says that \<open>metadata_uploaded\<close> is true exactly when one of the outcomes
  \<open>latest_metadata\<close>, \<open>versioned_metadata\<close>, \<open>versioned_release_candidate\<close> was written. The
  code does not do that: \<open>_any_uploaded\<close> looks at the ids only, never at \<open>uploaded\<close>, and
  two of its three keys (\<open>version_metadata\<close>, \<open>version_release_candidate\<close>) are not ids that
  \<open>_file_upload\<close> produces. Here the bucket already holds the metadata file under both
  folders: neither metadata outcome is written, and the flag is true.
\<close>

theorem metadata_uploaded_without_upload:
  "fst (upload_metadata_to_gcs (example_env (example_metadata docs_url False)) ''bucket''
          ''/c/metadata.yaml'' example_options example_files published_bucket)
     = Inr \<lparr>metadata_uploaded = True,
            metadata_file_path = ''/tmp/tmp0.yaml'',
            uploaded_files =
              [\<lparr>id' = ''versioned_metadata'', uploaded = False,
                 blob_id = Some ''metadata/source-foo/2.1.0/tmp0.yaml''\<rparr>,
               \<lparr>id' = ''latest_metadata'', uploaded = False,
                 blob_id = Some ''metadata/source-foo/latest/tmp0.yaml''\<rparr>,
               \<lparr>id' = ''versioned_icon'', uploaded = False, blob_id = None\<rparr>,
               \<lparr>id' = ''latest_icon'', uploaded = False, blob_id = None\<rparr>,
               \<lparr>id' = ''versioned_doc'', uploaded = False, blob_id = None\<rparr>,
               \<lparr>id' = ''latest_doc'', uploaded = False, blob_id = None\<rparr>,
               \<lparr>id' = ''versioned_inapp_doc'', uploaded = False, blob_id = None\<rparr>,
               \<lparr>id' = ''latest_inapp_doc'', uploaded = False, blob_id = None\<rparr>,
               \<lparr>id' = ''versioned_manifest'', uploaded = False, blob_id = None\<rparr>,
               \<lparr>id' = ''latest_manifest'', uploaded = False, blob_id = None\<rparr>,
               \<lparr>id' = ''versioned_components_zip_sha256'', uploaded = True,
                 blob_id = Some ''metadata/source-foo/2.1.0/tmp0.sha256''\<rparr>,
               \<lparr>id' = ''latest_components_zip_sha256'', uploaded = True,
                 blob_id = Some ''metadata/source-foo/latest/tmp0.sha256''\<rparr>,
               \<lparr>id' = ''versioned_components_zip'', uploaded = True,
                 blob_id = Some ''metadata/source-foo/2.1.0/tmp0.zip''\<rparr>,
               \<lparr>id' = ''latest_components_zip'', uploaded = True,
                 blob_id = Some ''metadata/source-foo/latest/tmp0.zip''\<rparr>]\<rparr>"
  by (simp add: run_defs)

text \<open>
  Claim C2 says that without a \<open>components.py\<close> both \<open>components_zip\<close> outcomes are "not
  written, no id". The code does not do that: \<open>maybe_create_components_zip\<close> has created
  the temporary zip file (and the hash file) before it looks for \<open>components.py\<close>, so
  \<open>_file_upload\<close> finds a file and uploads it, empty, under its temporary name.
\<close>

theorem components_zip_uploaded_without_components:
  "example_files ''/c/components.py'' = None
   \<and> fst (upload_metadata_to_gcs (example_env (example_metadata docs_url False)) ''bucket''
          ''/c/metadata.yaml'' example_options example_files Map.empty)
     = Inr \<lparr>metadata_uploaded = True,
            metadata_file_path = ''/tmp/tmp0.yaml'',
            uploaded_files =
              [\<lparr>id' = ''versioned_metadata'', uploaded = True,
                 blob_id = Some ''metadata/source-foo/2.1.0/tmp0.yaml''\<rparr>,
               \<lparr>id' = ''latest_metadata'', uploaded = True,
                 blob_id = Some ''metadata/source-foo/latest/tmp0.yaml''\<rparr>,
               \<lparr>id' = ''versioned_icon'', uploaded = False, blob_id = None\<rparr>,
               \<lparr>id' = ''latest_icon'', uploaded = False, blob_id = None\<rparr>,
               \<lparr>id' = ''versioned_doc'', uploaded = False, blob_id = None\<rparr>,
               \<lparr>id' = ''latest_doc'', uploaded = False, blob_id = None\<rparr>,
               \<lparr>id' = ''versioned_inapp_doc'', uploaded = False, blob_id = None\<rparr>,
               \<lparr>id' = ''latest_inapp_doc'', uploaded = False, blob_id = None\<rparr>,
               \<lparr>id' = ''versioned_manifest'', uploaded = False, blob_id = None\<rparr>,
               \<lparr>id' = ''latest_manifest'', uploaded = False, blob_id = None\<rparr>,
               \<lparr>id' = ''versioned_components_zip_sha256'', uploaded = True,
                 blob_id = Some ''metadata/source-foo/2.1.0/tmp0.sha256''\<rparr>,
               \<lparr>id' = ''latest_components_zip_sha256'', uploaded = True,
                 blob_id = Some ''metadata/source-foo/latest/tmp0.sha256''\<rparr>,
               \<lparr>id' = ''versioned_components_zip'', uploaded = True,
                 blob_id = Some ''metadata/source-foo/2.1.0/tmp0.zip''\<rparr>,
               \<lparr>id' = ''latest_components_zip'', uploaded = True,
                 blob_id = Some ''metadata/source-foo/latest/tmp0.zip''\<rparr>]\<rparr>"
  by (simp add: run_defs)

text \<open>
  Claim C4 says that a documentation URL outside \<open>https://docs.airbyte.com/\<close> is tolerated.
  The code does not do that: \<open>get_doc_local_file_path\<close> returns \<open>None\<close>, and \<open>_file_upload\<close>
  calls \<open>exists\<close> on it, which raises \<open>AttributeError\<close> and ends the run.
\<close>

theorem unmapped_documentation_url_aborts:
  "docs_url_match other_url = None
   \<and> fst (upload_metadata_to_gcs (example_env (example_metadata other_url False)) ''bucket''
          ''/c/metadata.yaml'' example_options example_files Map.empty)
     = Inl (AttributeError ''exists'')"
  by (simp add: run_defs)

text \<open>Steps of a run that returns: each call returned, and the rest of the run returns.\<close>

lemma step_components:
  "(case m of (Inl e, fs1) \<Rightarrow> (Inl e, g fs1) | (Inr i, fs1) \<Rightarrow> f i fs1) = (Inr r, t) \<Longrightarrow>
     \<exists>i fs1. m = (Inr i, fs1) \<and> f i fs1 = (Inr r, t)"
  by (auto split: prod.splits sum.splits)

lemma step_call2:
  "(case x of Inl e \<Rightarrow> (Inl e, s) | Inr (a, b) \<Rightarrow> f a b) = (Inr r, t) \<Longrightarrow>
     \<exists>a b. x = Inr (a, b) \<and> f a b = (Inr r, t)"
  by (auto split: prod.splits sum.splits)

lemma step_call:
  "(case x of Inl e \<Rightarrow> (Inl e, s) | Inr v \<Rightarrow> f v) = (Inr r, t) \<Longrightarrow>
     \<exists>v. x = Inr v \<and> f v = (Inr r, t)"
  by (auto split: sum.splits)

lemma step_validate:
  "(case v of (None, err) \<Rightarrow> (Inl (g err), s) | (Some md, err) \<Rightarrow> f md err) = (Inr r, t) \<Longrightarrow>
     \<exists>md err. v = (Some md, err) \<and> f md err = (Inr r, t)"
  by (auto split: prod.splits option.splits)

lemma step_credentials:
  "(case c of None \<Rightarrow> (Inl e1, s) | Some g \<Rightarrow> if g = [] then (Inl e2, s) else f g) = (Inr r, t) \<Longrightarrow>
     \<exists>g. c = Some g \<and> g \<noteq> [] \<and> f g = (Inr r, t)"
  by (auto split: option.splits if_splits)

lemma step_client:
  "(case x of Some e \<Rightarrow> (Inl (h e), s) | None \<Rightarrow> k) = (Inr r, t) \<Longrightarrow> x = None \<and> k = (Inr r, t)"
  by (auto split: option.splits)

lemma step_release_candidate:
  "(case (if c then (case x of Inl e \<Rightarrow> Inl e | Inr (a, b2) \<Rightarrow> Inr (g a, b2)) else Inr (u0, b1)) of
      Inl e \<Rightarrow> (Inl e, s) | Inr (u, b2) \<Rightarrow> f u b2) = (Inr r, t) \<Longrightarrow>
     \<exists>a b2. (if c then x = Inr (a, b2) else b2 = b1) \<and> f (if c then g a else u0) b2 = (Inr r, t)"
  by (auto split: prod.splits sum.splits if_splits)

lemma step_report:
  "(Inr r0, s0, b0) = (Inr r, s, b) \<Longrightarrow> r = r0 \<and> s0 = s \<and> b0 = b"
  by simp

lemma upload_metadata_to_gcs_Inr:
  assumes "upload_metadata_to_gcs E bucket_name mfp opts fs bucket = (Inr report, fs', bucket')"
  shows "\<exists>info fs1 tmp md err pm b1 prc b2 pic b3 ldp pd b4 lidp pid b5 pman b6 psha b7 pzip.
     maybe_create_components_zip E fs (path_parent E mfp) = (Inr info, fs1)
   \<and> apply_modifications_to_metadata_file E fs1 mfp opts (sha256 info) = Inr (tmp, fs')
   \<and> validate_and_load E fs' tmp opts = (Some md, err)
   \<and> file_upload E fs' (Some tmp) (gcp_connector_dir E md) bucket ''metadata''
        (upload_as_version md opts) (should_upload_latest md opts) True True
        = Inr (pm, b1)
   \<and> (if should_upload_release_candidate md opts
       then file_upload E fs' (Some tmp) (gcp_connector_dir E md) b1
              ''release_candidate'' (Some RELEASE_CANDIDATE_GCS_FOLDER_NAME) False True True = Inr (prc, b2)
       else b2 = b1)
   \<and> file_upload E fs' (Some (path_join E (path_parent E tmp) (ICON_FILE_NAME E)))
        (gcp_connector_dir E md) b2 ''icon''
        None (should_upload_latest md opts) True False = Inr (pic, b3)
   \<and> get_doc_local_file_path E md (docs_path opts) False = Inr ldp
   \<and> file_upload E fs' ldp (gcp_connector_dir E md) b3 ''doc''
        (upload_as_version md opts) (should_upload_latest md opts) True False
        = Inr (pd, b4)
   \<and> get_doc_local_file_path E md (docs_path opts) True = Inr lidp
   \<and> file_upload E fs' lidp (gcp_connector_dir E md) b4 ''inapp_doc''
        (upload_as_version md opts) (should_upload_latest md opts) True False
        = Inr (pid, b5)
   \<and> file_upload E fs' (Some (manifest_file_path info)) (gcp_connector_dir E md) b5
        ''manifest''
        (upload_as_version md opts) (should_upload_latest md opts) True False
        = Inr (pman, b6)
   \<and> file_upload E fs' (Some (sha256_file_path info)) (gcp_connector_dir E md) b6
        ''components_zip_sha256''
        (upload_as_version md opts) (should_upload_latest md opts) True False
        = Inr (psha, b7)
   \<and> file_upload E fs' (Some (zip_file_path info)) (gcp_connector_dir E md) b7
        ''components_zip''
        (upload_as_version md opts) (should_upload_latest md opts) True False
        = Inr (pzip, bucket')
   \<and> uploaded_files report =
        [fst pm, snd pm]
        @ (if should_upload_release_candidate md opts then [fst prc, snd prc] else [])
        @ [fst pic, snd pic, fst pd, snd pd, fst pid, snd pid, fst pman, snd pman,
           fst psha, snd psha, fst pzip, snd pzip]
   \<and> metadata_uploaded report =
        any_uploaded (uploaded_files report)
          [''latest_metadata'', ''version_metadata'', ''version_release_candidate'']
   \<and> metadata_file_path report = tmp"
  using assms
  unfolding upload_metadata_to_gcs_def Let_def
  apply -
  apply (drule step_components, elim exE conjE)
  apply (drule step_call2, elim exE conjE)
  apply (drule step_validate, elim exE conjE)
  apply (drule step_credentials, elim exE conjE)
  apply (drule step_client, elim exE conjE)
  apply (drule step_call2, elim exE conjE)
  apply (drule step_release_candidate, elim exE conjE)
  apply (drule step_call2, elim exE conjE)
  apply (drule step_call, elim exE conjE)
  apply (drule step_call2, elim exE conjE)
  apply (drule step_call, elim exE conjE)
  apply (drule step_call2, elim exE conjE)
  apply (drule step_call2, elim exE conjE)
  apply (drule step_call2, elim exE conjE)
  apply (drule step_call2, elim exE conjE)
  apply (drule step_report, elim conjE)
  apply hypsubst
  apply (intro exI conjI)
                 apply assumption
                apply assumption
               apply assumption
              apply assumption
             apply assumption
            apply assumption
           apply assumption
          apply assumption
         apply assumption
        apply assumption
       apply assumption
      apply assumption
     apply assumption
    apply (simp (no_asm_simp) add: list_extend_def)
   apply (simp (no_asm_simp) add: list_extend_def)
  apply (simp (no_asm_simp))
  done

lemma apply_modifications_writes:
  "apply_modifications_to_metadata_file E fs1 mfp opts digest = Inr (tmp, fs') \<Longrightarrow> \<exists>c. fs' tmp = Some c"
  by (auto simp: apply_modifications_to_metadata_file_def write_metadata_to_tmp_file_def Let_def
           split: sum.splits)

text \<open>A run that returns, as an elimination rule: the calls it made and what they returned.\<close>

lemma upload_metadata_to_gcs_InrE:
  assumes "upload_metadata_to_gcs E bucket_name mfp opts fs bucket = (Inr report, fs', bucket')"
  obtains (run) info fs1 tmp md err vm lm b1 vrc lrc b2 vic lic b3 ldp vd ld b4 lidp vid lid b5
          vman lman b6 vsha lsha b7 vzip lzip
  where "maybe_create_components_zip E fs (path_parent E mfp) = (Inr info, fs1)"
    and "apply_modifications_to_metadata_file E fs1 mfp opts (sha256 info) = Inr (tmp, fs')"
    and "validate_and_load E fs' tmp opts = (Some md, err)"
    and "file_upload E fs' (Some tmp) (gcp_connector_dir E md) bucket ''metadata''
           (upload_as_version md opts) (should_upload_latest md opts) True True = Inr ((vm, lm), b1)"
    and "if should_upload_release_candidate md opts
         then file_upload E fs' (Some tmp) (gcp_connector_dir E md) b1 ''release_candidate''
                (Some RELEASE_CANDIDATE_GCS_FOLDER_NAME) False True True = Inr ((vrc, lrc), b2)
         else b2 = b1"
    and "file_upload E fs' (Some (path_join E (path_parent E tmp) (ICON_FILE_NAME E)))
           (gcp_connector_dir E md) b2 ''icon'' None (should_upload_latest md opts) True False
           = Inr ((vic, lic), b3)"
    and "get_doc_local_file_path E md (docs_path opts) False = Inr ldp"
    and "file_upload E fs' ldp (gcp_connector_dir E md) b3 ''doc''
           (upload_as_version md opts) (should_upload_latest md opts) True False = Inr ((vd, ld), b4)"
    and "get_doc_local_file_path E md (docs_path opts) True = Inr lidp"
    and "file_upload E fs' lidp (gcp_connector_dir E md) b4 ''inapp_doc''
           (upload_as_version md opts) (should_upload_latest md opts) True False = Inr ((vid, lid), b5)"
    and "file_upload E fs' (Some (manifest_file_path info)) (gcp_connector_dir E md) b5 ''manifest''
           (upload_as_version md opts) (should_upload_latest md opts) True False = Inr ((vman, lman), b6)"
    and "file_upload E fs' (Some (sha256_file_path info)) (gcp_connector_dir E md) b6
           ''components_zip_sha256''
           (upload_as_version md opts) (should_upload_latest md opts) True False = Inr ((vsha, lsha), b7)"
    and "file_upload E fs' (Some (zip_file_path info)) (gcp_connector_dir E md) b7 ''components_zip''
           (upload_as_version md opts) (should_upload_latest md opts) True False
           = Inr ((vzip, lzip), bucket')"
    and "uploaded_files report =
           [vm, lm] @ (if should_upload_release_candidate md opts then [vrc, lrc] else [])
           @ [vic, lic, vd, ld, vid, lid, vman, lman, vsha, lsha, vzip, lzip]"
    and "metadata_uploaded report =
           any_uploaded (uploaded_files report)
             [''latest_metadata'', ''version_metadata'', ''version_release_candidate'']"
    and "metadata_file_path report = tmp"
proof -
  from upload_metadata_to_gcs_Inr[OF assms]
  obtain info fs1 tmp md err pm b1 prc b2 pic b3 ldp pd b4 lidp pid b5 pman b6 psha b7 pzip
    where f: "maybe_create_components_zip E fs (path_parent E mfp) = (Inr info, fs1)"
     "apply_modifications_to_metadata_file E fs1 mfp opts (sha256 info) = Inr (tmp, fs')"
     "validate_and_load E fs' tmp opts = (Some md, err)"
     "file_upload E fs' (Some tmp) (gcp_connector_dir E md) bucket ''metadata''
        (upload_as_version md opts) (should_upload_latest md opts) True True
        = Inr (pm, b1)"
     "(if should_upload_release_candidate md opts
       then file_upload E fs' (Some tmp) (gcp_connector_dir E md) b1
              ''release_candidate'' (Some RELEASE_CANDIDATE_GCS_FOLDER_NAME) False True True = Inr (prc, b2)
       else b2 = b1)"
     "file_upload E fs' (Some (path_join E (path_parent E tmp) (ICON_FILE_NAME E)))
        (gcp_connector_dir E md) b2 ''icon''
        None (should_upload_latest md opts) True False = Inr (pic, b3)"
     "get_doc_local_file_path E md (docs_path opts) False = Inr ldp"
     "file_upload E fs' ldp (gcp_connector_dir E md) b3 ''doc''
        (upload_as_version md opts) (should_upload_latest md opts) True False
        = Inr (pd, b4)"
     "get_doc_local_file_path E md (docs_path opts) True = Inr lidp"
     "file_upload E fs' lidp (gcp_connector_dir E md) b4 ''inapp_doc''
        (upload_as_version md opts) (should_upload_latest md opts) True False
        = Inr (pid, b5)"
     "file_upload E fs' (Some (manifest_file_path info)) (gcp_connector_dir E md) b5
        ''manifest''
        (upload_as_version md opts) (should_upload_latest md opts) True False
        = Inr (pman, b6)"
     "file_upload E fs' (Some (sha256_file_path info)) (gcp_connector_dir E md) b6
        ''components_zip_sha256''
        (upload_as_version md opts) (should_upload_latest md opts) True False
        = Inr (psha, b7)"
     "file_upload E fs' (Some (zip_file_path info)) (gcp_connector_dir E md) b7
        ''components_zip''
        (upload_as_version md opts) (should_upload_latest md opts) True False
        = Inr (pzip, bucket')"
     "uploaded_files report =
        [fst pm, snd pm]
        @ (if should_upload_release_candidate md opts then [fst prc, snd prc] else [])
        @ [fst pic, snd pic, fst pd, snd pd, fst pid, snd pid, fst pman, snd pman,
           fst psha, snd psha, fst pzip, snd pzip]"
     "metadata_uploaded report =
        any_uploaded (uploaded_files report)
          [''latest_metadata'', ''version_metadata'', ''version_release_candidate'']"
     "metadata_file_path report = tmp"
    by (elim exE conjE)
  show ?thesis
    by (rule that[of info fs1 tmp md err "fst pm" "snd pm" b1 "fst prc" "snd prc" b2
                    "fst pic" "snd pic" b3 ldp "fst pd" "snd pd" b4 lidp "fst pid" "snd pid" b5
                    "fst pman" "snd pman" b6 "fst psha" "snd psha" b7 "fst pzip" "snd pzip"];
        (simp only: prod.collapse)?; rule f)
qed

lemma not_attempt_version: "\<not> attempt_version ver \<longleftrightarrow> ver = None \<or> ver = Some []"
  by (auto simp: attempt_version_def split: option.splits)

text \<open>The ids of the report, in the order of the calls.\<close>

lemma upload_metadata_to_gcs_ids:
  assumes "upload_metadata_to_gcs E bucket_name mfp opts fs bucket = (Inr report, fs', bucket')"
  shows "\<exists>md err. validate_and_load E fs' (metadata_file_path report) opts = (Some md, err)
     \<and> map id' (uploaded_files report) =
         [''versioned_metadata'', ''latest_metadata'']
         @ (if should_upload_release_candidate md opts
            then [''versioned_release_candidate'', ''latest_release_candidate''] else [])
         @ [''versioned_icon'', ''latest_icon'', ''versioned_doc'', ''latest_doc'',
            ''versioned_inapp_doc'', ''latest_inapp_doc'', ''versioned_manifest'', ''latest_manifest'',
            ''versioned_components_zip_sha256'', ''latest_components_zip_sha256'',
            ''versioned_components_zip'', ''latest_components_zip'']"
  using assms
proof (cases rule: upload_metadata_to_gcs_InrE)
  case (run info fs1 tmp md err vm lm b1 vrc lrc b2 vic lic b3 ldp vd ld b4 lidp vid lid b5
          vman lman b6 vsha lsha b7 vzip lzip)
  note ids = file_upload_ids[OF run(4)] file_upload_ids[OF run(6)] file_upload_ids[OF run(8)]
     file_upload_ids[OF run(10)] file_upload_ids[OF run(11)] file_upload_ids[OF run(12)]
     file_upload_ids[OF run(13)]
  have rc: "should_upload_release_candidate md opts \<Longrightarrow>
              id' vrc = ''versioned_release_candidate'' \<and> id' lrc = ''latest_release_candidate''"
  proof -
    assume "should_upload_release_candidate md opts"
    with run(5) have "file_upload E fs' (Some tmp) (gcp_connector_dir E md) b1 ''release_candidate''
                (Some RELEASE_CANDIDATE_GCS_FOLDER_NAME) False True True = Inr ((vrc, lrc), b2)"
      by simp
    from file_upload_ids[OF this] show ?thesis by simp
  qed
  have "map id' (uploaded_files report) =
         [''versioned_metadata'', ''latest_metadata'']
         @ (if should_upload_release_candidate md opts
            then [''versioned_release_candidate'', ''latest_release_candidate''] else [])
         @ [''versioned_icon'', ''latest_icon'', ''versioned_doc'', ''latest_doc'',
            ''versioned_inapp_doc'', ''latest_inapp_doc'', ''versioned_manifest'', ''latest_manifest'',
            ''versioned_components_zip_sha256'', ''latest_components_zip_sha256'',
            ''versioned_components_zip'', ''latest_components_zip'']"
    using ids rc by (simp add: run(14))
  then show ?thesis using run(3) run(16) by simp
qed

text \<open>The flag of the report is true on every run that returns.\<close>

lemma metadata_uploaded_always:
  assumes "upload_metadata_to_gcs E bucket_name mfp opts fs bucket = (Inr report, fs', bucket')"
  shows "metadata_uploaded report"
  using assms
proof (cases rule: upload_metadata_to_gcs_InrE)
  case (run info fs1 tmp md err vm lm b1 vrc lrc b2 vic lic b3 ldp vd ld b4 lidp vid lid b5
          vman lman b6 vsha lsha b7 vzip lzip)
  from file_upload_ids[OF run(4)] show ?thesis
    by (simp add: run(15) run(14))
qed

text \<open>Every object that a run changes lies at a path that one of its calls was asked for.\<close>

lemma file_upload_frame_any:
  assumes R: "file_upload E fs lp dir bucket key ver latest skip dc = Inr ((v, l), bucket')"
      and d: "bucket' n \<noteq> bucket n"
  shows "\<exists>p. (\<exists>a. ver = Some a \<and> a \<noteq> [] \<and> n = blob_path_of E dir a p)
           \<or> (latest \<and> n = blob_path_of E dir LATEST_GCS_FOLDER_NAME p)"
proof (cases lp)
  case None
  then show ?thesis using R by (simp add: file_upload_None)
next
  case (Some p)
  with R have "file_upload E fs (Some p) dir bucket key ver latest skip dc = Inr ((v, l), bucket')"
    by simp
  from file_upload_frame[OF this d] show ?thesis by blast
qed

lemma upload_metadata_to_gcs_frame:
  assumes run: "upload_metadata_to_gcs E bucket_name mfp opts fs bucket = (Inr report, fs', bucket')"
      and valid: "validate_and_load E fs' (metadata_file_path report) opts = (Some md, err)"
      and d: "bucket' n \<noteq> bucket n"
  shows "(\<exists>a p. upload_as_version md opts = Some a \<and> a \<noteq> [] \<and> n = blob_path_of E (gcp_connector_dir E md) a p)
       \<or> (should_upload_latest md opts
            \<and> (\<exists>p. n = blob_path_of E (gcp_connector_dir E md) LATEST_GCS_FOLDER_NAME p))
       \<or> (should_upload_release_candidate md opts
            \<and> n = blob_path_of E (gcp_connector_dir E md) RELEASE_CANDIDATE_GCS_FOLDER_NAME
                     (metadata_file_path report))"
  using run
proof (cases rule: upload_metadata_to_gcs_InrE)
  case (run info fs1 tmp md0 err0 vm lm b1 vrc lrc b2 vic lic b3 ldp vd ld b4 lidp vid lid b5
          vman lman b6 vsha lsha b7 vzip lzip)
  have md: "md0 = md" using run(3) valid run(16) by simp
  let ?goal = "(\<exists>a p. upload_as_version md opts = Some a \<and> a \<noteq> [] \<and> n = blob_path_of E (gcp_connector_dir E md) a p)
       \<or> (should_upload_latest md opts
            \<and> (\<exists>p. n = blob_path_of E (gcp_connector_dir E md) LATEST_GCS_FOLDER_NAME p))
       \<or> (should_upload_release_candidate md opts
            \<and> n = blob_path_of E (gcp_connector_dir E md) RELEASE_CANDIDATE_GCS_FOLDER_NAME tmp)"
  have s1: "b1 n \<noteq> bucket n \<Longrightarrow> ?goal"
    using file_upload_frame_any[OF run(4)] md by blast
  have s2: "b2 n \<noteq> b1 n \<Longrightarrow> ?goal"
  proof -
    assume c: "b2 n \<noteq> b1 n"
    then have rc: "should_upload_release_candidate md0 opts" using run(5) by (auto split: if_splits)
    with run(5) have "file_upload E fs' (Some tmp) (gcp_connector_dir E md0) b1 ''release_candidate''
                (Some RELEASE_CANDIDATE_GCS_FOLDER_NAME) False True True = Inr ((vrc, lrc), b2)"
      by simp
    from file_upload_frame[OF this c] rc md show ?goal by auto
  qed
  have s3: "b3 n \<noteq> b2 n \<Longrightarrow> ?goal"
    using file_upload_frame_any[OF run(6)] md by blast
  have s4: "b4 n \<noteq> b3 n \<Longrightarrow> ?goal"
    using file_upload_frame_any[OF run(8)] md by blast
  have s5: "b5 n \<noteq> b4 n \<Longrightarrow> ?goal"
    using file_upload_frame_any[OF run(10)] md by blast
  have s6: "b6 n \<noteq> b5 n \<Longrightarrow> ?goal"
    using file_upload_frame_any[OF run(11)] md by blast
  have s7: "b7 n \<noteq> b6 n \<Longrightarrow> ?goal"
    using file_upload_frame_any[OF run(12)] md by blast
  have s8: "bucket' n \<noteq> b7 n \<Longrightarrow> ?goal"
    using file_upload_frame_any[OF run(13)] md by blast
  have "b1 n \<noteq> bucket n \<or> b2 n \<noteq> b1 n \<or> b3 n \<noteq> b2 n \<or> b4 n \<noteq> b3 n \<or> b5 n \<noteq> b4 n
        \<or> b6 n \<noteq> b5 n \<or> b7 n \<noteq> b6 n \<or> bucket' n \<noteq> b7 n"
    using d by metis
  then have ?goal using s1 s2 s3 s4 s5 s6 s7 s8 by blast
  then show ?thesis using run(16) by simp
qed

lemma published_before:
  "x n = y n \<Longrightarrow> published E c outcome x a n = published E c outcome y a n"
  by (simp add: published_def split: option.splits)

lemma published_after:
  "x n = y n \<Longrightarrow> published E c outcome a x n = published E c outcome a y n"
  by (simp add: published_def)

lemma upload_file_if_changed_object:
  assumes R: "upload_file_if_changed E fs p b n dc = Inr ((w, i), b')"
      and c: "fs p = Some c"
      and o: "uploaded outcome = w"
  shows "published E c outcome b b' n \<and> i = map_option blob_ident (b' n)"
  using R o unfolding upload_file_if_changed_result[of fs p c, OF c] published_def
  by (cases "b n") (auto split: if_splits)

lemma upload_file_if_changed_written:
  assumes R: "upload_file_if_changed E fs p b n dc = Inr ((w, i), b')"
      and c: "fs p = Some c"
      and d: "b' m \<noteq> b m"
  shows "m = n \<and> (\<exists>obj. b' m = Some obj \<and> blob_data obj = c)
         \<and> map_option md5_hash (b m) \<noteq> Some (compute_gcs_md5 E c)"
  using R d unfolding upload_file_if_changed_result[of fs p c, OF c]
  by (cases "b n") (auto split: if_splits)

text \<open>An object that a call changed holds the content of the file of that call.\<close>

lemma file_upload_written:
  assumes R: "file_upload E fs lp dir b key ver latest skip dc = Inr ((v, l), b')"
      and d: "b' n \<noteq> b n"
  shows "\<exists>p c obj. lp = Some p \<and> fs p = Some c \<and> b' n = Some obj \<and> blob_data obj = c
           \<and> map_option md5_hash (b n) \<noteq> Some (compute_gcs_md5 E c)
           \<and> ((\<exists>a. ver = Some a \<and> a \<noteq> [] \<and> n = blob_path_of E dir a p)
                \<or> (latest \<and> n = blob_path_of E dir LATEST_GCS_FOLDER_NAME p))"
proof (cases lp)
  case None
  then show ?thesis using R by (simp add: file_upload_None)
next
  case (Some p)
  note lp = Some
  show ?thesis
  proof (cases "fs p")
    case None
    then show ?thesis using R d lp by (simp add: file_upload_missing split: if_splits)
  next
    case (Some c)
    note c = Some
    from R lp have R': "file_upload E fs (Some p) dir b key ver latest skip dc = Inr ((v, l), b')"
      by simp
    from c R' show ?thesis
    proof (cases rule: file_upload_cases)
      case neither
      then show ?thesis using d by simp
    next
      case (latest_only w i b2)
      then have b2: "b2 = b'" by simp
      from upload_file_if_changed_written[OF latest_only(3) c] d b2 latest_only(2) lp c
      show ?thesis by auto
    next
      case (version_only a w i b1)
      then have b1: "b1 = b'" by simp
      from upload_file_if_changed_written[OF version_only(4) c] d b1 version_only(1,2) lp c
      show ?thesis by auto
    next
      case (both a w i b1 w2 i2 b2)
      then have b2: "b2 = b'" by simp
      note s1 = upload_file_if_changed_written[OF both(4) c, of n]
      note s2 = upload_file_if_changed_written[OF both(5) c, of n]
      show ?thesis
      proof (cases "b2 n = b1 n")
        case True
        then have "b1 n \<noteq> b n" using d b2 by simp
        from s1[OF this] True b2 both(1,2) lp c show ?thesis by auto
      next
        case False
        note f = s2[OF False]
        have h: "map_option md5_hash (b n) \<noteq> Some (compute_gcs_md5 E c)"
        proof (cases "b1 n = b n")
          case True
          then show ?thesis using f by simp
        next
          case False
          from s1[OF this] show ?thesis by simp
        qed
        from f h b2 both(3) lp c show ?thesis by auto
      qed
    qed
  qed
qed

text \<open>The outcome of the version alias and of the latest alias, with the object it names.\<close>

lemma file_upload_versioned_object:
  assumes R: "file_upload E fs (Some p) dir b key (Some a) False skip dc = Inr ((v, l), b')"
      and a: "a \<noteq> []"
      and c: "fs p = Some c"
  shows "published E c v b b' (blob_path_of E dir a p)
         \<and> blob_id v = map_option blob_ident (b' (blob_path_of E dir a p))"
  using c R
proof (cases rule: file_upload_cases)
  case neither
  then show ?thesis using a by (simp add: attempt_version_def)
next
  case (latest_only w i b2)
  then show ?thesis by simp
next
  case (version_only a' w i b1)
  then have e: "a' = a" "b1 = b'" "uploaded v = w" "blob_id v = i"
    by simp_all
  from upload_file_if_changed_object[OF version_only(4) c e(3)] e
  show ?thesis by simp
next
  case (both a' w i b1 w2 i2 b2)
  then show ?thesis by simp
qed

lemma file_upload_latest_object:
  assumes R: "file_upload E fs (Some p) dir b key ver True skip dc = Inr ((v, l), b')"
      and c: "fs p = Some c"
      and ne: "\<And>a. ver = Some a \<Longrightarrow>
                 blob_path_of E dir a p \<noteq> blob_path_of E dir LATEST_GCS_FOLDER_NAME p"
  shows "published E c l b b' (blob_path_of E dir LATEST_GCS_FOLDER_NAME p)"
  using c R
proof (cases rule: file_upload_cases)
  case neither
  then show ?thesis by simp
next
  case (latest_only w i b2)
  then have e: "b2 = b'" "uploaded l = w"
    by simp_all
  from upload_file_if_changed_object[OF latest_only(3) c e(2)] e
  show ?thesis by simp
next
  case (version_only a w i b1)
  then show ?thesis by simp
next
  case (both a w i b1 w2 i2 b2)
  then have e: "b2 = b'" "uploaded l = w2"
    by simp_all
  have "b1 (blob_path_of E dir LATEST_GCS_FOLDER_NAME p) = b (blob_path_of E dir LATEST_GCS_FOLDER_NAME p)"
    using upload_file_if_changed_frame[OF both(4)] ne[OF both(1)] by metis
  moreover have "published E c l b1 b' (blob_path_of E dir LATEST_GCS_FOLDER_NAME p)"
    using upload_file_if_changed_object[OF both(5) c e(2)] e(1) by simp
  ultimately show ?thesis by (rule published_before[THEN iffD1])
qed

text \<open>A later call leaves a published file published, unless it uploads another file there.\<close>

lemma file_upload_keeps_published:
  assumes pub: "published E c outcome b0 b n"
      and R: "file_upload E fs lp dir b key ver latest skip dc = Inr ((v, l), b')"
      and same: "\<And>p. lp = Some p \<Longrightarrow> fs p \<noteq> None
                   \<Longrightarrow> (\<exists>a. ver = Some a \<and> a \<noteq> [] \<and> n = blob_path_of E dir a p)
                        \<or> (latest \<and> n = blob_path_of E dir LATEST_GCS_FOLDER_NAME p)
                   \<Longrightarrow> fs p = Some c"
  shows "published E c outcome b0 b' n"
proof (cases "b' n = b n")
  case True
  then show ?thesis using pub published_after[where x = b' and y = b and n = n, OF True] by simp
next
  case False
  from file_upload_written[OF R False] obtain p c' obj where
    w: "lp = Some p" "fs p = Some c'" "b' n = Some obj" "blob_data obj = c'"
       "map_option md5_hash (b n) \<noteq> Some (compute_gcs_md5 E c')"
       "(\<exists>a. ver = Some a \<and> a \<noteq> [] \<and> n = blob_path_of E dir a p)
          \<or> (latest \<and> n = blob_path_of E dir LATEST_GCS_FOLDER_NAME p)"
    by blast
  have "fs p = Some c" using same[OF w(1) _ w(6)] w(2) by simp
  then have c': "c' = c" using w(2) by simp
  show ?thesis using pub w(3,4,5) c'
    by (auto simp: published_def split: option.splits if_splits)
qed

text \<open>Paths of the bucket: the folder is read off a path whose file name has no separator.\<close>

lemma blob_path_of_folder:
  assumes e: "blob_path_of E dir a p = blob_path_of E dir f q"
      and q: "CHR ''/'' \<notin> set (path_name E q)"
      and f: "CHR ''/'' \<notin> set f"
  shows "a = f"
proof -
  from e have "a @ CHR ''/'' # path_name E p = f @ CHR ''/'' # path_name E q"
    by (simp add: blob_path_of_def)
  then obtain us where
    "(a = f @ us \<and> us @ CHR ''/'' # path_name E p = CHR ''/'' # path_name E q)
     \<or> (a @ us = f \<and> CHR ''/'' # path_name E p = us @ CHR ''/'' # path_name E q)"
    by (auto simp: append_eq_append_conv2)
  then show ?thesis
  proof (elim disjE conjE)
    assume 1: "a = f @ us" and 2: "us @ CHR ''/'' # path_name E p = CHR ''/'' # path_name E q"
    show ?thesis
    proof (cases us)
      case Nil
      then show ?thesis using 1 by simp
    next
      case (Cons x xs)
      then have "path_name E q = xs @ CHR ''/'' # path_name E p" using 2 by simp
      then have "CHR ''/'' \<in> set (path_name E q)" by simp
      then show ?thesis using q by simp
    qed
  next
    assume 1: "a @ us = f" and 2: "CHR ''/'' # path_name E p = us @ CHR ''/'' # path_name E q"
    show ?thesis
    proof (cases us)
      case Nil
      then show ?thesis using 1 by simp
    next
      case (Cons x xs)
      then have "x = CHR ''/''" using 2 by simp
      then have "CHR ''/'' \<in> set f" using 1 Cons by auto
      then show ?thesis using f by simp
    qed
  qed
qed

lemma blob_path_of_name:
  "blob_path_of E dir f p = blob_path_of E dir f q \<Longrightarrow> path_name E p = path_name E q"
  by (simp add: blob_path_of_def)

lemma latest_not_release_candidate:
  "blob_path_of E dir LATEST_GCS_FOLDER_NAME p
     \<noteq> blob_path_of E dir RELEASE_CANDIDATE_GCS_FOLDER_NAME q"
  by (simp add: blob_path_of_def LATEST_GCS_FOLDER_NAME_def RELEASE_CANDIDATE_GCS_FOLDER_NAME_def)

text \<open>The metadata file that a run reports is there when the run returns.\<close>

lemma upload_metadata_to_gcs_content:
  assumes "upload_metadata_to_gcs E bucket_name mfp opts fs bucket = (Inr report, fs', bucket')"
  shows "\<exists>c. fs' (metadata_file_path report) = Some c"
  using assms
proof (cases rule: upload_metadata_to_gcs_InrE)
  case (run info fs1 tmp md0 err0 vm lm b1 vrc lrc b2 vic lic b3 ldp vd ld b4 lidp vid lid b5
          vman lman b6 vsha lsha b7 vzip lzip)
  from apply_modifications_writes[OF run(2)] run(16) show ?thesis by simp
qed

text \<open>The destinations that a run tries, by its outcomes.\<close>

lemma release_candidate_outcomes:
  assumes run: "upload_metadata_to_gcs E bucket_name mfp opts fs bucket = (Inr report, fs', bucket')"
      and valid: "validate_and_load E fs' (metadata_file_path report) opts = (Some md, err)"
      and nopre: "prerelease_tag opts = None"
  shows "(is_release_candidate md \<longrightarrow>
            uploaded_files report ! 1 = \<lparr>id' = ''latest_metadata'', uploaded = False, blob_id = None\<rparr>
          \<and> id' (uploaded_files report ! 2) = ''versioned_release_candidate''
          \<and> blob_id (uploaded_files report ! 2) \<noteq> None
          \<and> bucket' (blob_path_of E (gcp_connector_dir E md) RELEASE_CANDIDATE_GCS_FOLDER_NAME
                        (metadata_file_path report)) \<noteq> None
          \<and> (\<forall>n. bucket' n \<noteq> bucket n \<longrightarrow>
                (\<exists>p. n = blob_path_of E (gcp_connector_dir E md) (dockerImageTag md) p)
                \<or> n = blob_path_of E (gcp_connector_dir E md) RELEASE_CANDIDATE_GCS_FOLDER_NAME
                        (metadata_file_path report)))
       \<and> (\<not> is_release_candidate md \<longrightarrow>
            id' (uploaded_files report ! 1) = ''latest_metadata''
          \<and> blob_id (uploaded_files report ! 1) \<noteq> None
          \<and> bucket' (blob_path_of E (gcp_connector_dir E md) LATEST_GCS_FOLDER_NAME
                        (metadata_file_path report)) \<noteq> None
          \<and> ''versioned_release_candidate'' \<notin> id' ` set (uploaded_files report)
          \<and> ''latest_release_candidate'' \<notin> id' ` set (uploaded_files report)
          \<and> (\<forall>n. bucket' n \<noteq> bucket n \<longrightarrow>
                (\<exists>p. n = blob_path_of E (gcp_connector_dir E md) (dockerImageTag md) p)
                \<or> (\<exists>p. n = blob_path_of E (gcp_connector_dir E md) LATEST_GCS_FOLDER_NAME p)))"
  using run
proof (cases rule: upload_metadata_to_gcs_InrE)
  case (run info fs1 tmp md0 err0 vm lm b1 vrc lrc b2 vic lic b3 ldp vd ld b4 lidp vid lid b5
          vman lman b6 vsha lsha b7 vzip lzip)
  have md: "md0 = md" using run(3) valid run(16) by simp
  have tmp: "metadata_file_path report = tmp" by (rule run(16))
  obtain c where c: "fs' tmp = Some c" using apply_modifications_writes[OF run(2)] by blast
  have pre: "\<not> is_pre_release opts" using nopre by (simp add: is_pre_release_def)
  have asver: "upload_as_version md opts = Some (dockerImageTag md)"
    using pre by (simp add: upload_as_version_def)
  note frame = upload_metadata_to_gcs_frame[OF assms(1) valid]
  have m3: "\<And>n. b2 n \<noteq> None \<Longrightarrow> b3 n \<noteq> None" by (rule file_upload_mono[OF run(6)])
  have m4: "\<And>n. b3 n \<noteq> None \<Longrightarrow> b4 n \<noteq> None" by (rule file_upload_mono[OF run(8)])
  have m5: "\<And>n. b4 n \<noteq> None \<Longrightarrow> b5 n \<noteq> None" by (rule file_upload_mono[OF run(10)])
  have m6: "\<And>n. b5 n \<noteq> None \<Longrightarrow> b6 n \<noteq> None" by (rule file_upload_mono[OF run(11)])
  have m7: "\<And>n. b6 n \<noteq> None \<Longrightarrow> b7 n \<noteq> None" by (rule file_upload_mono[OF run(12)])
  have m8: "\<And>n. b7 n \<noteq> None \<Longrightarrow> bucket' n \<noteq> None" by (rule file_upload_mono[OF run(13)])
  have mono: "\<And>n. b2 n \<noteq> None \<Longrightarrow> bucket' n \<noteq> None"
    using m3 m4 m5 m6 m7 m8 by blast
  have candidate: "uploaded_files report ! 1 = \<lparr>id' = ''latest_metadata'', uploaded = False, blob_id = None\<rparr>
          \<and> id' (uploaded_files report ! 2) = ''versioned_release_candidate''
          \<and> blob_id (uploaded_files report ! 2) \<noteq> None
          \<and> bucket' (blob_path_of E (gcp_connector_dir E md) RELEASE_CANDIDATE_GCS_FOLDER_NAME
                        (metadata_file_path report)) \<noteq> None
          \<and> (\<forall>n. bucket' n \<noteq> bucket n \<longrightarrow>
                (\<exists>p. n = blob_path_of E (gcp_connector_dir E md) (dockerImageTag md) p)
                \<or> n = blob_path_of E (gcp_connector_dir E md) RELEASE_CANDIDATE_GCS_FOLDER_NAME
                        (metadata_file_path report))"
    if rc: "is_release_candidate md"
  proof -
    have flags: "should_upload_release_candidate md0 opts" "\<not> should_upload_latest md0 opts"
      using rc md pre by (simp_all add: should_upload_release_candidate_def should_upload_latest_def)
    have lm: "lm = \<lparr>id' = ''latest_metadata'', uploaded = False, blob_id = None\<rparr>"
      using file_upload_unattempted[OF run(4)] flags by simp
    have rcu: "file_upload E fs' (Some tmp) (gcp_connector_dir E md0) b1 ''release_candidate''
                (Some RELEASE_CANDIDATE_GCS_FOLDER_NAME) False True True = Inr ((vrc, lrc), b2)"
      using run(5) flags by simp
    have idrc: "id' vrc = ''versioned_release_candidate''"
      using file_upload_ids[OF rcu] by simp
    have att: "blob_id vrc \<noteq> None
        \<and> b2 (blob_path_of E (gcp_connector_dir E md0) RELEASE_CANDIDATE_GCS_FOLDER_NAME tmp) \<noteq> None"
      using file_upload_attempted[OF rcu c] by (simp add: RELEASE_CANDIDATE_GCS_FOLDER_NAME_def)
    have files: "uploaded_files report =
          [vm, lm, vrc, lrc, vic, lic, vd, ld, vid, lid, vman, lman, vsha, lsha, vzip, lzip]"
      using run(14) flags by simp
    have fr: "\<forall>n. bucket' n \<noteq> bucket n \<longrightarrow>
                (\<exists>p. n = blob_path_of E (gcp_connector_dir E md) (dockerImageTag md) p)
                \<or> n = blob_path_of E (gcp_connector_dir E md) RELEASE_CANDIDATE_GCS_FOLDER_NAME
                        (metadata_file_path report)"
      using frame asver flags md by auto
    have "uploaded_files report ! 1 = \<lparr>id' = ''latest_metadata'', uploaded = False, blob_id = None\<rparr>
          \<and> id' (uploaded_files report ! 2) = ''versioned_release_candidate''
          \<and> blob_id (uploaded_files report ! 2) \<noteq> None
          \<and> bucket' (blob_path_of E (gcp_connector_dir E md) RELEASE_CANDIDATE_GCS_FOLDER_NAME
                        (metadata_file_path report)) \<noteq> None"
      using lm idrc att mono files md tmp by simp
    then show ?thesis using fr by blast
  qed
  have release: "id' (uploaded_files report ! 1) = ''latest_metadata''
          \<and> blob_id (uploaded_files report ! 1) \<noteq> None
          \<and> bucket' (blob_path_of E (gcp_connector_dir E md) LATEST_GCS_FOLDER_NAME
                        (metadata_file_path report)) \<noteq> None
          \<and> ''versioned_release_candidate'' \<notin> id' ` set (uploaded_files report)
          \<and> ''latest_release_candidate'' \<notin> id' ` set (uploaded_files report)
          \<and> (\<forall>n. bucket' n \<noteq> bucket n \<longrightarrow>
                (\<exists>p. n = blob_path_of E (gcp_connector_dir E md) (dockerImageTag md) p)
                \<or> (\<exists>p. n = blob_path_of E (gcp_connector_dir E md) LATEST_GCS_FOLDER_NAME p))"
    if rc: "\<not> is_release_candidate md"
  proof -
    have flags: "\<not> should_upload_release_candidate md0 opts" "should_upload_latest md0 opts"
      using rc md pre by (simp_all add: should_upload_release_candidate_def should_upload_latest_def)
    have b2: "b2 = b1" using run(5) flags by simp
    have idm: "id' lm = ''latest_metadata''" using file_upload_ids[OF run(4)] by simp
    have att: "blob_id lm \<noteq> None
        \<and> b1 (blob_path_of E (gcp_connector_dir E md0) LATEST_GCS_FOLDER_NAME tmp) \<noteq> None"
      using file_upload_attempted[OF run(4) c] flags by simp
    have files: "uploaded_files report =
          [vm, lm, vic, lic, vd, ld, vid, lid, vman, lman, vsha, lsha, vzip, lzip]"
      using run(14) flags by simp
    note ids = file_upload_ids[OF run(4)] file_upload_ids[OF run(6)] file_upload_ids[OF run(8)]
     file_upload_ids[OF run(10)] file_upload_ids[OF run(11)] file_upload_ids[OF run(12)]
     file_upload_ids[OF run(13)]
    have absent: "''versioned_release_candidate'' \<notin> id' ` set (uploaded_files report)
          \<and> ''latest_release_candidate'' \<notin> id' ` set (uploaded_files report)"
      using ids by (simp add: files)
    have fr: "\<forall>n. bucket' n \<noteq> bucket n \<longrightarrow>
                (\<exists>p. n = blob_path_of E (gcp_connector_dir E md) (dockerImageTag md) p)
                \<or> (\<exists>p. n = blob_path_of E (gcp_connector_dir E md) LATEST_GCS_FOLDER_NAME p)"
      using frame asver flags md by auto
    have "id' (uploaded_files report ! 1) = ''latest_metadata''
          \<and> blob_id (uploaded_files report ! 1) \<noteq> None
          \<and> bucket' (blob_path_of E (gcp_connector_dir E md) LATEST_GCS_FOLDER_NAME
                        (metadata_file_path report)) \<noteq> None"
      using idm att mono b2 files md tmp by simp
    then show ?thesis using absent fr by blast
  qed
  show ?thesis using candidate release by blast
qed

text \<open>The objects at the release-candidate path and at the latest path after a run.\<close>

lemma release_candidate_objects:
  assumes run: "upload_metadata_to_gcs E bucket_name mfp opts fs bucket = (Inr report, fs', bucket')"
      and valid: "validate_and_load E fs' (metadata_file_path report) opts = (Some md, err)"
      and nopre: "prerelease_tag opts = None"
      and folders: "distinct_folders E (dockerImageTag md) (metadata_file_path report)"
      and content: "fs' (metadata_file_path report) = Some c"
  shows "(is_release_candidate md \<longrightarrow>
            published E c (uploaded_files report ! 2) bucket bucket'
                (blob_path_of E (gcp_connector_dir E md) RELEASE_CANDIDATE_GCS_FOLDER_NAME
                        (metadata_file_path report))
          \<and> blob_id (uploaded_files report ! 2)
               = map_option blob_ident
                   (bucket' (blob_path_of E (gcp_connector_dir E md) RELEASE_CANDIDATE_GCS_FOLDER_NAME
                        (metadata_file_path report)))
          \<and> bucket' (blob_path_of E (gcp_connector_dir E md) LATEST_GCS_FOLDER_NAME
                        (metadata_file_path report))
               = bucket (blob_path_of E (gcp_connector_dir E md) LATEST_GCS_FOLDER_NAME
                        (metadata_file_path report)))
       \<and> (\<not> is_release_candidate md \<longrightarrow>
            bucket' (blob_path_of E (gcp_connector_dir E md) RELEASE_CANDIDATE_GCS_FOLDER_NAME
                        (metadata_file_path report))
               = bucket (blob_path_of E (gcp_connector_dir E md) RELEASE_CANDIDATE_GCS_FOLDER_NAME
                        (metadata_file_path report))
          \<and> (unique_name E fs' (metadata_file_path report) \<longrightarrow>
                published E c (uploaded_files report ! 1) bucket bucket'
                  (blob_path_of E (gcp_connector_dir E md) LATEST_GCS_FOLDER_NAME
                        (metadata_file_path report))))"
  using run
proof (cases rule: upload_metadata_to_gcs_InrE)
  case (run info fs1 tmp md0 err0 vm lm b1 vrc lrc b2 vic lic b3 ldp vd ld b4 lidp vid lid b5
          vman lman b6 vsha lsha b7 vzip lzip)
  have md: "md0 = md" using run(3) valid run(16) by simp
  note r = run[unfolded md]
  have tmp: "metadata_file_path report = tmp" by (rule run(16))
  have c: "fs' tmp = Some c" using content tmp by simp
  have pre: "\<not> is_pre_release opts" using nopre by (simp add: is_pre_release_def)
  have asver: "upload_as_version md opts = Some (dockerImageTag md)"
    using pre by (simp add: upload_as_version_def)
  let ?dir = "gcp_connector_dir E md"
  let ?tag = "dockerImageTag md"
  let ?rcp = "blob_path_of E ?dir RELEASE_CANDIDATE_GCS_FOLDER_NAME tmp"
  let ?lp = "blob_path_of E ?dir LATEST_GCS_FOLDER_NAME tmp"
  have nm: "CHR ''/'' \<notin> set (path_name E tmp)"
    and tag: "?tag \<noteq> LATEST_GCS_FOLDER_NAME" "?tag \<noteq> RELEASE_CANDIDATE_GCS_FOLDER_NAME"
    using folders tmp by (simp_all add: distinct_folders_def)
  have nsl: "CHR ''/'' \<notin> set LATEST_GCS_FOLDER_NAME"
    by (simp add: LATEST_GCS_FOLDER_NAME_def)
  have nsr: "CHR ''/'' \<notin> set RELEASE_CANDIDATE_GCS_FOLDER_NAME"
    by (simp add: RELEASE_CANDIDATE_GCS_FOLDER_NAME_def)
  have ver_lp: False if "?lp = blob_path_of E ?dir ?tag p" for p
    using blob_path_of_folder[OF that[symmetric] nm nsl] tag(1) by simp
  have ver_rcp: False if "?rcp = blob_path_of E ?dir ?tag p" for p
    using blob_path_of_folder[OF that[symmetric] nm nsr] tag(2) by simp
  have rcp_lp: False if "?rcp = blob_path_of E ?dir LATEST_GCS_FOLDER_NAME p" for p
    using latest_not_release_candidate[of E ?dir p tmp] that by simp
  have lp_rcp: False if "?lp = ?rcp"
    using latest_not_release_candidate[of E ?dir tmp tmp] that by simp
  have frame: "(\<exists>p. n = blob_path_of E ?dir ?tag p)
       \<or> (should_upload_latest md opts \<and> (\<exists>p. n = blob_path_of E ?dir LATEST_GCS_FOLDER_NAME p))
       \<or> (should_upload_release_candidate md opts \<and> n = ?rcp)"
    if "bucket' n \<noteq> bucket n" for n
    using upload_metadata_to_gcs_frame[OF assms(1) valid that] asver tmp by auto
  have step: "(\<exists>p. n = blob_path_of E ?dir ?tag p)
       \<or> (latest \<and> (\<exists>p. n = blob_path_of E ?dir LATEST_GCS_FOLDER_NAME p))"
    if R: "file_upload E fs' lpth ?dir b key ver latest skip dc = Inr ((v, l), b')"
      and ver: "ver = None \<or> ver = upload_as_version md opts"
      and d: "b' n \<noteq> b n"
    for lpth b key ver latest skip dc v l b' n
  proof -
    from file_upload_frame_any[OF R d] obtain p where
      w: "(\<exists>a. ver = Some a \<and> a \<noteq> [] \<and> n = blob_path_of E ?dir a p)
           \<or> (latest \<and> n = blob_path_of E ?dir LATEST_GCS_FOLDER_NAME p)"
      by blast
    then show ?thesis
    proof
      assume "\<exists>a. ver = Some a \<and> a \<noteq> [] \<and> n = blob_path_of E ?dir a p"
      then obtain a where a: "ver = Some a" "n = blob_path_of E ?dir a p" by blast
      from a(1) ver asver have "a = ?tag" by auto
      with a(2) show ?thesis by blast
    next
      assume "latest \<and> n = blob_path_of E ?dir LATEST_GCS_FOLDER_NAME p"
      then show ?thesis by blast
    qed
  qed
  have candidate: "published E c (uploaded_files report ! 2) bucket bucket'
                (blob_path_of E (gcp_connector_dir E md) RELEASE_CANDIDATE_GCS_FOLDER_NAME
                        (metadata_file_path report))
          \<and> blob_id (uploaded_files report ! 2)
               = map_option blob_ident
                   (bucket' (blob_path_of E (gcp_connector_dir E md) RELEASE_CANDIDATE_GCS_FOLDER_NAME
                        (metadata_file_path report)))
          \<and> bucket' (blob_path_of E (gcp_connector_dir E md) LATEST_GCS_FOLDER_NAME
                        (metadata_file_path report))
               = bucket (blob_path_of E (gcp_connector_dir E md) LATEST_GCS_FOLDER_NAME
                        (metadata_file_path report))"
    if rc: "is_release_candidate md"
  proof -
    have flags: "should_upload_release_candidate md opts" "\<not> should_upload_latest md opts"
      using rc pre by (simp_all add: should_upload_release_candidate_def should_upload_latest_def)
    have rcu: "file_upload E fs' (Some tmp) ?dir b1 ''release_candidate''
                (Some RELEASE_CANDIDATE_GCS_FOLDER_NAME) False True True = Inr ((vrc, lrc), b2)"
      using r(5) flags by simp
    have files: "uploaded_files report =
          [vm, lm, vrc, lrc, vic, lic, vd, ld, vid, lid, vman, lman, vsha, lsha, vzip, lzip]"
      using r(14) flags by simp
    have keep: "b' ?rcp = b ?rcp"
      if R: "file_upload E fs' lpth ?dir b key ver (should_upload_latest md opts) skip dc
               = Inr ((v, l), b')"
        and ver: "ver = None \<or> ver = upload_as_version md opts"
      for lpth b key ver skip dc v l b'
    proof (rule ccontr)
      assume "b' ?rcp \<noteq> b ?rcp"
      from step[OF R ver this] flags(2) obtain p where "?rcp = blob_path_of E ?dir ?tag p"
        by blast
      then show False by (rule ver_rcp)
    qed
    have k1: "b1 ?rcp = bucket ?rcp" by (rule keep[OF r(4)]) simp
    have k3: "b3 ?rcp = b2 ?rcp" by (rule keep[OF r(6)]) simp
    have k4: "b4 ?rcp = b3 ?rcp" by (rule keep[OF r(8)]) simp
    have k5: "b5 ?rcp = b4 ?rcp" by (rule keep[OF r(10)]) simp
    have k6: "b6 ?rcp = b5 ?rcp" by (rule keep[OF r(11)]) simp
    have k7: "b7 ?rcp = b6 ?rcp" by (rule keep[OF r(12)]) simp
    have k8: "bucket' ?rcp = b7 ?rcp" by (rule keep[OF r(13)]) simp
    have kk: "bucket' ?rcp = b2 ?rcp" using k3 k4 k5 k6 k7 k8 by simp
    have ne: "RELEASE_CANDIDATE_GCS_FOLDER_NAME \<noteq> []"
      by (simp add: RELEASE_CANDIDATE_GCS_FOLDER_NAME_def)
    from file_upload_versioned_object[OF rcu ne c]
    have p2: "published E c vrc b1 b2 ?rcp" and i2: "blob_id vrc = map_option blob_ident (b2 ?rcp)"
      by simp_all
    have "published E c vrc bucket b2 ?rcp"
      using p2 published_before[where x = b1 and y = bucket and n = "?rcp", OF k1] by simp
    then have pub: "published E c vrc bucket bucket' ?rcp"
      using published_after[where x = bucket' and y = b2 and n = "?rcp", OF kk] by simp
    have ident: "blob_id vrc = map_option blob_ident (bucket' ?rcp)" using i2 kk by simp
    have untouched: "bucket' ?lp = bucket ?lp"
    proof (rule ccontr)
      assume "bucket' ?lp \<noteq> bucket ?lp"
      from frame[OF this] flags(2) show False using ver_lp lp_rcp by blast
    qed
    show ?thesis using pub ident untouched files tmp by simp
  qed
  have release: "bucket' (blob_path_of E (gcp_connector_dir E md) RELEASE_CANDIDATE_GCS_FOLDER_NAME
                        (metadata_file_path report))
               = bucket (blob_path_of E (gcp_connector_dir E md) RELEASE_CANDIDATE_GCS_FOLDER_NAME
                        (metadata_file_path report))
          \<and> (unique_name E fs' (metadata_file_path report) \<longrightarrow>
                published E c (uploaded_files report ! 1) bucket bucket'
                  (blob_path_of E (gcp_connector_dir E md) LATEST_GCS_FOLDER_NAME
                        (metadata_file_path report)))"
    if rc: "\<not> is_release_candidate md"
  proof -
    have flags: "\<not> should_upload_release_candidate md opts" "should_upload_latest md opts"
      using rc pre by (simp_all add: should_upload_release_candidate_def should_upload_latest_def)
    have b2: "b2 = b1" using r(5) flags by simp
    have files: "uploaded_files report =
          [vm, lm, vic, lic, vd, ld, vid, lid, vman, lman, vsha, lsha, vzip, lzip]"
      using r(14) flags by simp
    have untouched: "bucket' ?rcp = bucket ?rcp"
    proof (rule ccontr)
      assume "bucket' ?rcp \<noteq> bucket ?rcp"
      from frame[OF this] flags(1) show False using ver_rcp rcp_lp by blast
    qed
    have pub: "published E c lm bucket bucket' ?lp"
      if uniq: "unique_name E fs' (metadata_file_path report)"
    proof -
      have same: "fs' p = Some c"
        if p: "fs' p \<noteq> None"
          and ver: "ver = None \<or> ver = upload_as_version md opts"
          and at: "(\<exists>a. ver = Some a \<and> a \<noteq> [] \<and> ?lp = blob_path_of E ?dir a p)
                   \<or> (latest \<and> ?lp = blob_path_of E ?dir LATEST_GCS_FOLDER_NAME p)"
        for p ver latest
      proof -
        from at have "?lp = blob_path_of E ?dir LATEST_GCS_FOLDER_NAME p"
        proof
          assume "\<exists>a. ver = Some a \<and> a \<noteq> [] \<and> ?lp = blob_path_of E ?dir a p"
          then obtain a where a: "ver = Some a" "?lp = blob_path_of E ?dir a p" by blast
          from a(1) ver asver have "a = ?tag" by auto
          with a(2) have "?lp = blob_path_of E ?dir ?tag p" by simp
          then have False by (rule ver_lp)
          then show ?thesis ..
        next
          assume "latest \<and> ?lp = blob_path_of E ?dir LATEST_GCS_FOLDER_NAME p"
          then show ?thesis ..
        qed
        then have "path_name E tmp = path_name E p" by (rule blob_path_of_name)
        with uniq p tmp have "p = tmp" by (simp add: unique_name_def)
        then show ?thesis using c by simp
      qed
      have ne: "blob_path_of E ?dir a tmp \<noteq> ?lp" if "upload_as_version md opts = Some a" for a
      proof
        assume e: "blob_path_of E ?dir a tmp = ?lp"
        from that asver have "a = ?tag" by simp
        with e have "?lp = blob_path_of E ?dir ?tag tmp" by simp
        then show False by (rule ver_lp)
      qed
      have r4: "file_upload E fs' (Some tmp) ?dir bucket ''metadata''
                  (upload_as_version md opts) True True True = Inr ((vm, lm), b1)"
        using r(4) flags by simp
      have p1: "published E c lm bucket b1 ?lp"
        by (rule file_upload_latest_object[OF r4 c ne])
      have p2: "published E c lm bucket b2 ?lp" using p1 b2 by simp
      note sv = same[where ver = "upload_as_version md opts" and latest = "should_upload_latest md opts"]
      note si = same[where ver = None and latest = "should_upload_latest md opts"]
      have p3: "published E c lm bucket b3 ?lp"
        by (rule file_upload_keeps_published[OF p2 r(6)]) (rule si, assumption, simp, assumption)
      have p4: "published E c lm bucket b4 ?lp"
        by (rule file_upload_keeps_published[OF p3 r(8)]) (rule sv, assumption, simp, assumption)
      have p5: "published E c lm bucket b5 ?lp"
        by (rule file_upload_keeps_published[OF p4 r(10)]) (rule sv, assumption, simp, assumption)
      have p6: "published E c lm bucket b6 ?lp"
        by (rule file_upload_keeps_published[OF p5 r(11)]) (rule sv, assumption, simp, assumption)
      have p7: "published E c lm bucket b7 ?lp"
        by (rule file_upload_keeps_published[OF p6 r(12)]) (rule sv, assumption, simp, assumption)
      show "published E c lm bucket bucket' ?lp"
        by (rule file_upload_keeps_published[OF p7 r(13)]) (rule sv, assumption, simp, assumption)
    qed
    show ?thesis using pub untouched files tmp by simp
  qed
  show ?thesis using candidate release by blast
qed

text \<open>
  Claim C6. A run that returns, without a prerelease tag, on the validated document \<open>md\<close>;
  \<open>c\<close> is the content of the metadata file that the run uploads, which is there.
  For a release candidate: the \<open>latest_metadata\<close> outcome is "not written, no id" (the latest
  path was not tried), the third outcome is \<open>versioned_release_candidate\<close> with an object id
  (the release-candidate path was tried), the bucket holds an object at the release-candidate
  path of the metadata file, and every object that the run changed is in the folder of the
  version or is that release-candidate object. When the folders are distinct
  (\<open>distinct_folders\<close>), the object at the release-candidate path is \<open>published\<close> from \<open>c\<close>: it
  holds \<open>c\<close> when the outcome says written, and otherwise is the object from before the run,
  with the hash of \<open>c\<close>; the outcome carries the id of that object; and the object at the latest
  path of the metadata file is the one from before the run.
  For any other document: the \<open>latest_metadata\<close> outcome has an object id, the bucket holds
  an object at the latest path of the metadata file, the report has no release-candidate
  outcome, and every object that the run changed is in the folder of the version or in the
  latest folder. When the folders are distinct, the object at the release-candidate path is
  the one from before the run, and the object at the latest path is \<open>published\<close> from \<open>c\<close>,
  provided that no other local file has the name of the metadata file (\<open>unique_name\<close>: a
  later call of the run uploads a file of the same name to the same latest path).
\<close>

theorem release_candidate_routing:
  assumes run: "upload_metadata_to_gcs E bucket_name mfp opts fs bucket = (Inr report, fs', bucket')"
      and valid: "validate_and_load E fs' (metadata_file_path report) opts = (Some md, err)"
      and nopre: "prerelease_tag opts = None"
  shows "\<exists>c. fs' (metadata_file_path report) = Some c
       \<and> (is_release_candidate md \<longrightarrow>
            uploaded_files report ! 1 = \<lparr>id' = ''latest_metadata'', uploaded = False, blob_id = None\<rparr>
          \<and> id' (uploaded_files report ! 2) = ''versioned_release_candidate''
          \<and> blob_id (uploaded_files report ! 2) \<noteq> None
          \<and> bucket' (blob_path_of E (gcp_connector_dir E md) RELEASE_CANDIDATE_GCS_FOLDER_NAME
                        (metadata_file_path report)) \<noteq> None
          \<and> (\<forall>n. bucket' n \<noteq> bucket n \<longrightarrow>
                (\<exists>p. n = blob_path_of E (gcp_connector_dir E md) (dockerImageTag md) p)
                \<or> n = blob_path_of E (gcp_connector_dir E md) RELEASE_CANDIDATE_GCS_FOLDER_NAME
                        (metadata_file_path report))
          \<and> (distinct_folders E (dockerImageTag md) (metadata_file_path report) \<longrightarrow>
            published E c (uploaded_files report ! 2) bucket bucket'
                (blob_path_of E (gcp_connector_dir E md) RELEASE_CANDIDATE_GCS_FOLDER_NAME
                        (metadata_file_path report))
          \<and> blob_id (uploaded_files report ! 2)
               = map_option blob_ident
                   (bucket' (blob_path_of E (gcp_connector_dir E md) RELEASE_CANDIDATE_GCS_FOLDER_NAME
                        (metadata_file_path report)))
          \<and> bucket' (blob_path_of E (gcp_connector_dir E md) LATEST_GCS_FOLDER_NAME
                        (metadata_file_path report))
               = bucket (blob_path_of E (gcp_connector_dir E md) LATEST_GCS_FOLDER_NAME
                        (metadata_file_path report))))
       \<and> (\<not> is_release_candidate md \<longrightarrow>
            id' (uploaded_files report ! 1) = ''latest_metadata''
          \<and> blob_id (uploaded_files report ! 1) \<noteq> None
          \<and> bucket' (blob_path_of E (gcp_connector_dir E md) LATEST_GCS_FOLDER_NAME
                        (metadata_file_path report)) \<noteq> None
          \<and> ''versioned_release_candidate'' \<notin> id' ` set (uploaded_files report)
          \<and> ''latest_release_candidate'' \<notin> id' ` set (uploaded_files report)
          \<and> (\<forall>n. bucket' n \<noteq> bucket n \<longrightarrow>
                (\<exists>p. n = blob_path_of E (gcp_connector_dir E md) (dockerImageTag md) p)
                \<or> (\<exists>p. n = blob_path_of E (gcp_connector_dir E md) LATEST_GCS_FOLDER_NAME p))
          \<and> (distinct_folders E (dockerImageTag md) (metadata_file_path report) \<longrightarrow>
            bucket' (blob_path_of E (gcp_connector_dir E md) RELEASE_CANDIDATE_GCS_FOLDER_NAME
                        (metadata_file_path report))
               = bucket (blob_path_of E (gcp_connector_dir E md) RELEASE_CANDIDATE_GCS_FOLDER_NAME
                        (metadata_file_path report))
          \<and> (unique_name E fs' (metadata_file_path report) \<longrightarrow>
                published E c (uploaded_files report ! 1) bucket bucket'
                  (blob_path_of E (gcp_connector_dir E md) LATEST_GCS_FOLDER_NAME
                        (metadata_file_path report)))))"
proof -
  obtain c where c: "fs' (metadata_file_path report) = Some c"
    using upload_metadata_to_gcs_content[OF run] by blast
  note outcomes = release_candidate_outcomes[OF run valid nopre]
  have candidate: "uploaded_files report ! 1 = \<lparr>id' = ''latest_metadata'', uploaded = False, blob_id = None\<rparr>
          \<and> id' (uploaded_files report ! 2) = ''versioned_release_candidate''
          \<and> blob_id (uploaded_files report ! 2) \<noteq> None
          \<and> bucket' (blob_path_of E (gcp_connector_dir E md) RELEASE_CANDIDATE_GCS_FOLDER_NAME
                        (metadata_file_path report)) \<noteq> None
          \<and> (\<forall>n. bucket' n \<noteq> bucket n \<longrightarrow>
                (\<exists>p. n = blob_path_of E (gcp_connector_dir E md) (dockerImageTag md) p)
                \<or> n = blob_path_of E (gcp_connector_dir E md) RELEASE_CANDIDATE_GCS_FOLDER_NAME
                        (metadata_file_path report))"
    if "is_release_candidate md"
    using outcomes[THEN conjunct1] that by (rule mp)
  have release: "id' (uploaded_files report ! 1) = ''latest_metadata''
          \<and> blob_id (uploaded_files report ! 1) \<noteq> None
          \<and> bucket' (blob_path_of E (gcp_connector_dir E md) LATEST_GCS_FOLDER_NAME
                        (metadata_file_path report)) \<noteq> None
          \<and> ''versioned_release_candidate'' \<notin> id' ` set (uploaded_files report)
          \<and> ''latest_release_candidate'' \<notin> id' ` set (uploaded_files report)
          \<and> (\<forall>n. bucket' n \<noteq> bucket n \<longrightarrow>
                (\<exists>p. n = blob_path_of E (gcp_connector_dir E md) (dockerImageTag md) p)
                \<or> (\<exists>p. n = blob_path_of E (gcp_connector_dir E md) LATEST_GCS_FOLDER_NAME p))"
    if "\<not> is_release_candidate md"
    using outcomes[THEN conjunct2] that by (rule mp)
  have candidate_objects: "published E c (uploaded_files report ! 2) bucket bucket'
                (blob_path_of E (gcp_connector_dir E md) RELEASE_CANDIDATE_GCS_FOLDER_NAME
                        (metadata_file_path report))
          \<and> blob_id (uploaded_files report ! 2)
               = map_option blob_ident
                   (bucket' (blob_path_of E (gcp_connector_dir E md) RELEASE_CANDIDATE_GCS_FOLDER_NAME
                        (metadata_file_path report)))
          \<and> bucket' (blob_path_of E (gcp_connector_dir E md) LATEST_GCS_FOLDER_NAME
                        (metadata_file_path report))
               = bucket (blob_path_of E (gcp_connector_dir E md) LATEST_GCS_FOLDER_NAME
                        (metadata_file_path report))"
    if "is_release_candidate md" "distinct_folders E (dockerImageTag md) (metadata_file_path report)"
    using release_candidate_objects[OF run valid nopre that(2) c, THEN conjunct1] that(1) by (rule mp)
  have release_objects: "bucket' (blob_path_of E (gcp_connector_dir E md) RELEASE_CANDIDATE_GCS_FOLDER_NAME
                        (metadata_file_path report))
               = bucket (blob_path_of E (gcp_connector_dir E md) RELEASE_CANDIDATE_GCS_FOLDER_NAME
                        (metadata_file_path report))
          \<and> (unique_name E fs' (metadata_file_path report) \<longrightarrow>
                published E c (uploaded_files report ! 1) bucket bucket'
                  (blob_path_of E (gcp_connector_dir E md) LATEST_GCS_FOLDER_NAME
                        (metadata_file_path report)))"
    if "\<not> is_release_candidate md" "distinct_folders E (dockerImageTag md) (metadata_file_path report)"
    using release_candidate_objects[OF run valid nopre that(2) c, THEN conjunct2] that(1) by (rule mp)
  show ?thesis
  proof (intro exI[of _ c] conjI impI)
    show "fs' (metadata_file_path report) = Some c" by (rule c)
  qed (use candidate release candidate_objects release_objects in blast)+
qed

text \<open>What the parts of a run can raise.\<close>

lemma maybe_create_components_zip_Inl:
  "maybe_create_components_zip E fs wd = (Inl e, fs1) \<Longrightarrow> e \<noteq> FileNotFoundError m"
  by (auto simp: maybe_create_components_zip_def Let_def split: if_splits sum.splits prod.splits)

lemma safe_load_metadata_file_Inl:
  "safe_load_metadata_file E fs p = Inl e \<Longrightarrow> e \<noteq> FileNotFoundError m"
  by (auto simp: safe_load_metadata_file_def split: option.splits sum.splits yaml.splits)

lemma override_registry_Inl:
  "override_registry tag v = Inl e \<Longrightarrow> e \<noteq> FileNotFoundError m"
  by (cases v) (auto split: if_splits)

lemma override_registries_Inl:
  "override_registries tag rs = Inl e \<Longrightarrow> e \<noteq> FileNotFoundError m"
proof (induction tag rs rule: override_registries.induct)
  case (1 tag)
  then show ?case by simp
next
  case (2 tag name registry rest)
  then show ?case
    by (auto split: sum.splits dest: override_registry_Inl)
qed

lemma apply_prerelease_overrides_Inl:
  "apply_prerelease_overrides d opts = Inl e \<Longrightarrow> e \<noteq> FileNotFoundError m"
  by (auto simp: apply_prerelease_overrides_def Let_def
           split: option.splits yaml.splits sum.splits dest: override_registries_Inl)

lemma apply_author_info_Inl:
  "apply_author_info_to_metadata_file E d p = Inl e \<Longrightarrow> e \<noteq> FileNotFoundError m"
  by (auto simp: apply_author_info_to_metadata_file_def get_git_info_for_file_def
           split: sum.splits option.splits git_lookup.splits if_splits)

lemma apply_python_components_sha_Inl:
  "apply_python_components_sha_to_metadata_file E d digest = Inl e \<Longrightarrow> e \<noteq> FileNotFoundError m"
  by (auto simp: apply_python_components_sha_to_metadata_file_def
           split: sum.splits option.splits if_splits)

lemma sbom_url_of_Inl:
  "sbom_url_of E d = Inl e \<Longrightarrow> e \<noteq> FileNotFoundError m"
  by (auto simp: sbom_url_of_def subscript_def split: sum.splits option.splits yaml.splits)

lemma apply_sbom_url_Inl:
  "apply_sbom_url_to_metadata_file E d = Inl e \<Longrightarrow> e \<noteq> FileNotFoundError m"
  by (auto simp: apply_sbom_url_to_metadata_file_def
           split: sum.splits error.splits if_splits dest: sbom_url_of_Inl)

lemma apply_modifications_Inl:
  "apply_modifications_to_metadata_file E fs p opts digest = Inl e \<Longrightarrow> e \<noteq> FileNotFoundError m"
  by (auto simp: apply_modifications_to_metadata_file_def split: sum.splits
           dest: safe_load_metadata_file_Inl apply_prerelease_overrides_Inl apply_author_info_Inl
                 apply_python_components_sha_Inl apply_sbom_url_Inl)

lemma file_upload_skip_Inl:
  "file_upload E fs lp dir bucket key ver latest True dc = Inl e \<Longrightarrow> e \<noteq> FileNotFoundError m"
  by (drule file_upload_Inl) auto

lemma get_doc_local_file_path_Inl:
  "get_doc_local_file_path E md dp inapp = Inl e \<Longrightarrow> e \<noteq> FileNotFoundError m"
  by (auto simp: get_doc_local_file_path_def Let_def split: option.splits sum.splits)

text \<open>Steps of a run that raises: either this call raised, or the rest of the run did.\<close>

lemma istep_components:
  "(case x of (Inl e, fs1) \<Rightarrow> (Inl e, g fs1) | (Inr i, fs1) \<Rightarrow> f i fs1) = (Inl e', t) \<Longrightarrow>
   (\<And>fs1. x = (Inl e', fs1) \<Longrightarrow> Q) \<Longrightarrow> (\<And>i fs1. f i fs1 = (Inl e', t) \<Longrightarrow> Q) \<Longrightarrow> Q"
  by (auto split: prod.splits sum.splits)

lemma istep_call2:
  "(case x of Inl e \<Rightarrow> (Inl e, s) | Inr (a, b) \<Rightarrow> f a b) = (Inl e', t) \<Longrightarrow>
   (x = Inl e' \<Longrightarrow> Q) \<Longrightarrow> (\<And>a b. f a b = (Inl e', t) \<Longrightarrow> Q) \<Longrightarrow> Q"
  by (auto split: prod.splits sum.splits)

lemma istep_call:
  "(case x of Inl e \<Rightarrow> (Inl e, s) | Inr v \<Rightarrow> f v) = (Inl e', t) \<Longrightarrow>
   (x = Inl e' \<Longrightarrow> Q) \<Longrightarrow> (\<And>v. f v = (Inl e', t) \<Longrightarrow> Q) \<Longrightarrow> Q"
  by (auto split: sum.splits)

lemma istep_validate:
  "(case v of (None, err) \<Rightarrow> (Inl (ValueError (g err)), s) | (Some md, err) \<Rightarrow> f md err) = (Inl e', t) \<Longrightarrow>
   (\<And>x. e' = ValueError x \<Longrightarrow> Q) \<Longrightarrow> (\<And>md err. f md err = (Inl e', t) \<Longrightarrow> Q) \<Longrightarrow> Q"
  by (auto split: prod.splits option.splits)

lemma istep_credentials:
  "(case c of None \<Rightarrow> (Inl (ValueError a), s)
            | Some g \<Rightarrow> if g = [] then (Inl (ValueError b), s) else f g) = (Inl e', t) \<Longrightarrow>
   (\<And>x. e' = ValueError x \<Longrightarrow> Q) \<Longrightarrow> (\<And>g. f g = (Inl e', t) \<Longrightarrow> Q) \<Longrightarrow> Q"
  by (auto split: option.splits if_splits)

lemma istep_client:
  "(case x of Some e \<Rightarrow> (Inl (CollaboratorError e), s) | None \<Rightarrow> k) = (Inl e', t) \<Longrightarrow>
   (\<And>x. e' = CollaboratorError x \<Longrightarrow> Q) \<Longrightarrow> (k = (Inl e', t) \<Longrightarrow> Q) \<Longrightarrow> Q"
  by (auto split: option.splits)

lemma istep_release_candidate:
  "(case (if c then (case x of Inl e \<Rightarrow> Inl e | Inr (a, b2) \<Rightarrow> Inr (g a, b2)) else Inr (u0, b1)) of
      Inl e \<Rightarrow> (Inl e, s) | Inr (u, b2) \<Rightarrow> f u b2) = (Inl e', t) \<Longrightarrow>
   (x = Inl e' \<Longrightarrow> Q) \<Longrightarrow> (\<And>u b2. f u b2 = (Inl e', t) \<Longrightarrow> Q) \<Longrightarrow> Q"
  by (auto split: prod.splits sum.splits if_splits)

lemma istep_report: "(Inr r, s) = (Inl e, t) \<Longrightarrow> Q"
  by simp

lemma upload_metadata_to_gcs_never_missing_file:
  assumes "upload_metadata_to_gcs E bucket_name mfp opts fs bucket = (Inl e, fs', bucket')"
  shows "e \<noteq> FileNotFoundError m"
  using assms
  unfolding upload_metadata_to_gcs_def Let_def
  apply -
  apply (erule istep_components)
   apply (erule maybe_create_components_zip_Inl)
  apply (erule istep_call2)
   apply (erule apply_modifications_Inl)
  apply (erule istep_validate)
   apply (simp (no_asm_simp))
  apply (erule istep_credentials)
   apply (simp (no_asm_simp))
  apply (erule istep_client)
   apply (simp (no_asm_simp))
  apply (erule istep_call2)
   apply (erule file_upload_skip_Inl)
  apply (erule istep_release_candidate)
   apply (erule file_upload_skip_Inl)
  apply (erule istep_call2)
   apply (erule file_upload_skip_Inl)
  apply (erule istep_call)
   apply (erule get_doc_local_file_path_Inl)
  apply (erule istep_call2)
   apply (erule file_upload_skip_Inl)
  apply (erule istep_call)
   apply (erule get_doc_local_file_path_Inl)
  apply (erule istep_call2)
   apply (erule file_upload_skip_Inl)
  apply (erule istep_call2)
   apply (erule file_upload_skip_Inl)
  apply (erule istep_call2)
   apply (erule file_upload_skip_Inl)
  apply (erule istep_call2)
   apply (erule file_upload_skip_Inl)
  apply (erule istep_report)
  done

text \<open>Two runs of the model, evaluated: a release and a release candidate, on an empty bucket.\<close>

lemma example_run:
  "fst (upload_metadata_to_gcs (example_env (example_metadata docs_url False)) ''bucket''
          ''/c/metadata.yaml'' example_options example_files Map.empty) = Inr example_report"
  by (simp add: run_defs example_report_def written_def not_written_def)

lemma example_run_files:
  "fst (snd (upload_metadata_to_gcs (example_env (example_metadata docs_url False)) ''bucket''
          ''/c/metadata.yaml'' example_options example_files Map.empty)) ''/tmp/icon.svg'' = None"
  by (simp add: run_defs)

lemma candidate_run:
  "fst (upload_metadata_to_gcs (example_env (example_metadata docs_url True)) ''bucket''
          ''/c/metadata.yaml'' example_options example_files Map.empty) = Inr candidate_report"
  by (simp add: run_defs candidate_report_def written_def not_written_def)

lemma example_validate:
  "validate_and_load (example_env m) fs p opts = (Some m, [])"
  by (simp add: example_env_def)

lemma run_triple:
  "fst run = Inr report \<Longrightarrow> run = (Inr report, fst (snd run), snd (snd run))"
  by (cases run) auto

text \<open>
  Claim C10. A call of \<open>_file_upload\<close> that returns gives two outcomes, with the ids
  \<open>versioned_<key>\<close> and \<open>latest_<key>\<close>; the outcome of a destination that was not tried
  (no version alias, \<open>upload_as_latest\<close> unset, or no file) is "not written, no id". The
  report of a run that returns has the ids of the two outcomes of every call, in the order
  of the calls, the release-candidate pair exactly when that call is made. And the outcomes
  in the report are the ones that the calls returned: each call of \<open>_file_upload\<close> of the run
  returned a pair, on the bucket that the call before left, and the report is the list of
  these pairs, both outcomes of each, in the order of the calls.
\<close>

theorem file_upload_two_outcomes:
  "(file_upload E fs lp dir bucket key ver latest skip dc = Inr ((v, l), bucket') \<longrightarrow>
      id' v = ''versioned_'' @ key \<and> id' l = ''latest_'' @ key
    \<and> (\<forall>p. lp = Some p \<and> (ver = None \<or> ver = Some [] \<or> fs p = None) \<longrightarrow>
          v = \<lparr>id' = ''versioned_'' @ key, uploaded = False, blob_id = None\<rparr>)
    \<and> (\<forall>p. lp = Some p \<and> (\<not> latest \<or> fs p = None) \<longrightarrow>
          l = \<lparr>id' = ''latest_'' @ key, uploaded = False, blob_id = None\<rparr>))
 \<and> (upload_metadata_to_gcs E bucket_name mfp opts fs0 bucket0 = (Inr report, fs1, bucket1) \<longrightarrow>
      (\<exists>md err. validate_and_load E fs1 (metadata_file_path report) opts = (Some md, err)
        \<and> map id' (uploaded_files report) =
            [''versioned_metadata'', ''latest_metadata'']
            @ (if should_upload_release_candidate md opts
               then [''versioned_release_candidate'', ''latest_release_candidate''] else [])
            @ [''versioned_icon'', ''latest_icon'', ''versioned_doc'', ''latest_doc'',
               ''versioned_inapp_doc'', ''latest_inapp_doc'', ''versioned_manifest'', ''latest_manifest'',
               ''versioned_components_zip_sha256'', ''latest_components_zip_sha256'',
               ''versioned_components_zip'', ''latest_components_zip'']))
 \<and> (upload_metadata_to_gcs E bucket_name mfp opts fs0 bucket0 = (Inr report, fs1, bucket1) \<longrightarrow>
      (\<exists>info fsz tmp md err pm b1 prc b2 pic b3 ldp pd b4 lidp pid b5 pman b6 psha b7 pzip.
         maybe_create_components_zip E fs0 (path_parent E mfp) = (Inr info, fsz)
       \<and> apply_modifications_to_metadata_file E fsz mfp opts (sha256 info) = Inr (tmp, fs1)
       \<and> validate_and_load E fs1 tmp opts = (Some md, err)
       \<and> file_upload E fs1 (Some tmp) (gcp_connector_dir E md) bucket0 ''metadata''
            (upload_as_version md opts) (should_upload_latest md opts) True True
            = Inr (pm, b1)
       \<and> (if should_upload_release_candidate md opts
           then file_upload E fs1 (Some tmp) (gcp_connector_dir E md) b1
                  ''release_candidate'' (Some RELEASE_CANDIDATE_GCS_FOLDER_NAME) False True True = Inr (prc, b2)
           else b2 = b1)
       \<and> file_upload E fs1 (Some (path_join E (path_parent E tmp) (ICON_FILE_NAME E)))
            (gcp_connector_dir E md) b2 ''icon''
            None (should_upload_latest md opts) True False = Inr (pic, b3)
       \<and> get_doc_local_file_path E md (docs_path opts) False = Inr ldp
       \<and> file_upload E fs1 ldp (gcp_connector_dir E md) b3 ''doc''
            (upload_as_version md opts) (should_upload_latest md opts) True False
            = Inr (pd, b4)
       \<and> get_doc_local_file_path E md (docs_path opts) True = Inr lidp
       \<and> file_upload E fs1 lidp (gcp_connector_dir E md) b4 ''inapp_doc''
            (upload_as_version md opts) (should_upload_latest md opts) True False
            = Inr (pid, b5)
       \<and> file_upload E fs1 (Some (manifest_file_path info)) (gcp_connector_dir E md) b5
            ''manifest''
            (upload_as_version md opts) (should_upload_latest md opts) True False
            = Inr (pman, b6)
       \<and> file_upload E fs1 (Some (sha256_file_path info)) (gcp_connector_dir E md) b6
            ''components_zip_sha256''
            (upload_as_version md opts) (should_upload_latest md opts) True False
            = Inr (psha, b7)
       \<and> file_upload E fs1 (Some (zip_file_path info)) (gcp_connector_dir E md) b7
            ''components_zip''
            (upload_as_version md opts) (should_upload_latest md opts) True False
            = Inr (pzip, bucket1)
       \<and> uploaded_files report =
            [fst pm, snd pm]
            @ (if should_upload_release_candidate md opts then [fst prc, snd prc] else [])
            @ [fst pic, snd pic, fst pd, snd pd, fst pid, snd pid, fst pman, snd pman,
               fst psha, snd psha, fst pzip, snd pzip]
       \<and> metadata_uploaded report =
            any_uploaded (uploaded_files report)
              [''latest_metadata'', ''version_metadata'', ''version_release_candidate'']
       \<and> metadata_file_path report = tmp))"
proof (intro conjI impI)
  assume R: "file_upload E fs lp dir bucket key ver latest skip dc = Inr ((v, l), bucket')"
  from file_upload_ids[OF R] show "id' v = ''versioned_'' @ key" "id' l = ''latest_'' @ key"
    by simp_all
  show "\<forall>p. lp = Some p \<and> (ver = None \<or> ver = Some [] \<or> fs p = None) \<longrightarrow>
          v = \<lparr>id' = ''versioned_'' @ key, uploaded = False, blob_id = None\<rparr>"
    using R file_upload_unattempted not_attempt_version by blast
  show "\<forall>p. lp = Some p \<and> (\<not> latest \<or> fs p = None) \<longrightarrow>
          l = \<lparr>id' = ''latest_'' @ key, uploaded = False, blob_id = None\<rparr>"
    using R file_upload_unattempted by blast
next
  assume "upload_metadata_to_gcs E bucket_name mfp opts fs0 bucket0 = (Inr report, fs1, bucket1)"
  then show "\<exists>md err. validate_and_load E fs1 (metadata_file_path report) opts = (Some md, err)
        \<and> map id' (uploaded_files report) =
            [''versioned_metadata'', ''latest_metadata'']
            @ (if should_upload_release_candidate md opts
               then [''versioned_release_candidate'', ''latest_release_candidate''] else [])
            @ [''versioned_icon'', ''latest_icon'', ''versioned_doc'', ''latest_doc'',
               ''versioned_inapp_doc'', ''latest_inapp_doc'', ''versioned_manifest'', ''latest_manifest'',
               ''versioned_components_zip_sha256'', ''latest_components_zip_sha256'',
               ''versioned_components_zip'', ''latest_components_zip'']"
    by (rule upload_metadata_to_gcs_ids)
next
  assume "upload_metadata_to_gcs E bucket_name mfp opts fs0 bucket0 = (Inr report, fs1, bucket1)"
  then show "\<exists>info fsz tmp md err pm b1 prc b2 pic b3 ldp pd b4 lidp pid b5 pman b6 psha b7 pzip.
     maybe_create_components_zip E fs0 (path_parent E mfp) = (Inr info, fsz)
   \<and> apply_modifications_to_metadata_file E fsz mfp opts (sha256 info) = Inr (tmp, fs1)
   \<and> validate_and_load E fs1 tmp opts = (Some md, err)
   \<and> file_upload E fs1 (Some tmp) (gcp_connector_dir E md) bucket0 ''metadata''
        (upload_as_version md opts) (should_upload_latest md opts) True True
        = Inr (pm, b1)
   \<and> (if should_upload_release_candidate md opts
       then file_upload E fs1 (Some tmp) (gcp_connector_dir E md) b1
              ''release_candidate'' (Some RELEASE_CANDIDATE_GCS_FOLDER_NAME) False True True = Inr (prc, b2)
       else b2 = b1)
   \<and> file_upload E fs1 (Some (path_join E (path_parent E tmp) (ICON_FILE_NAME E)))
        (gcp_connector_dir E md) b2 ''icon''
        None (should_upload_latest md opts) True False = Inr (pic, b3)
   \<and> get_doc_local_file_path E md (docs_path opts) False = Inr ldp
   \<and> file_upload E fs1 ldp (gcp_connector_dir E md) b3 ''doc''
        (upload_as_version md opts) (should_upload_latest md opts) True False
        = Inr (pd, b4)
   \<and> get_doc_local_file_path E md (docs_path opts) True = Inr lidp
   \<and> file_upload E fs1 lidp (gcp_connector_dir E md) b4 ''inapp_doc''
        (upload_as_version md opts) (should_upload_latest md opts) True False
        = Inr (pid, b5)
   \<and> file_upload E fs1 (Some (manifest_file_path info)) (gcp_connector_dir E md) b5
        ''manifest''
        (upload_as_version md opts) (should_upload_latest md opts) True False
        = Inr (pman, b6)
   \<and> file_upload E fs1 (Some (sha256_file_path info)) (gcp_connector_dir E md) b6
        ''components_zip_sha256''
        (upload_as_version md opts) (should_upload_latest md opts) True False
        = Inr (psha, b7)
   \<and> file_upload E fs1 (Some (zip_file_path info)) (gcp_connector_dir E md) b7
        ''components_zip''
        (upload_as_version md opts) (should_upload_latest md opts) True False
        = Inr (pzip, bucket1)
   \<and> uploaded_files report =
        [fst pm, snd pm]
        @ (if should_upload_release_candidate md opts then [fst prc, snd prc] else [])
        @ [fst pic, snd pic, fst pd, snd pd, fst pid, snd pid, fst pman, snd pman,
           fst psha, snd psha, fst pzip, snd pzip]
   \<and> metadata_uploaded report =
        any_uploaded (uploaded_files report)
          [''latest_metadata'', ''version_metadata'', ''version_release_candidate'']
   \<and> metadata_file_path report = tmp"
    by (rule upload_metadata_to_gcs_Inr)
qed

text \<open>
  Claim C9. On a local path that does not exist, \<open>_file_upload\<close> returns two outcomes "not
  written, no id" and leaves the bucket alone when \<open>skip_if_not_exists\<close> is set, and raises
  \<open>FileNotFoundError\<close> otherwise. No run of \<open>upload_metadata_to_gcs\<close> ends with that error,
  and a run that returns without an icon file reports both icon outcomes as "not written,
  no id".
\<close>

theorem missing_file_is_skipped_or_fatal:
  "(fs p = None \<longrightarrow>
      file_upload E fs (Some p) dir bucket key ver latest True dc
        = Inr ((\<lparr>id' = ''versioned_'' @ key, uploaded = False, blob_id = None\<rparr>,
                \<lparr>id' = ''latest_'' @ key, uploaded = False, blob_id = None\<rparr>), bucket))
 \<and> (fs p = None \<longrightarrow>
      file_upload E fs (Some p) dir bucket key ver latest False dc
        = Inl (FileNotFoundError (missing_file_msg p)))
 \<and> (\<forall>m. fst (upload_metadata_to_gcs E bucket_name mfp opts fs0 bucket0) \<noteq> Inl (FileNotFoundError m))
 \<and> (upload_metadata_to_gcs E bucket_name mfp opts fs0 bucket0 = (Inr report, fs1, bucket1)
      \<and> fs1 (path_join E (path_parent E (metadata_file_path report)) (ICON_FILE_NAME E)) = None \<longrightarrow>
        \<lparr>id' = ''versioned_icon'', uploaded = False, blob_id = None\<rparr> \<in> set (uploaded_files report)
      \<and> \<lparr>id' = ''latest_icon'', uploaded = False, blob_id = None\<rparr> \<in> set (uploaded_files report))"
proof (intro conjI impI allI)
  assume "fs p = None"
  then show "file_upload E fs (Some p) dir bucket key ver latest True dc
        = Inr ((\<lparr>id' = ''versioned_'' @ key, uploaded = False, blob_id = None\<rparr>,
                \<lparr>id' = ''latest_'' @ key, uploaded = False, blob_id = None\<rparr>), bucket)"
    by (simp add: file_upload_missing)
next
  assume "fs p = None"
  then show "file_upload E fs (Some p) dir bucket key ver latest False dc
        = Inl (FileNotFoundError (missing_file_msg p))"
    by (simp add: file_upload_missing)
next
  fix m
  show "fst (upload_metadata_to_gcs E bucket_name mfp opts fs0 bucket0) \<noteq> Inl (FileNotFoundError m)"
  proof
    assume a: "fst (upload_metadata_to_gcs E bucket_name mfp opts fs0 bucket0) = Inl (FileNotFoundError m)"
    obtain r f b where t: "upload_metadata_to_gcs E bucket_name mfp opts fs0 bucket0 = (r, f, b)"
      by (cases "upload_metadata_to_gcs E bucket_name mfp opts fs0 bucket0") auto
    with a have "upload_metadata_to_gcs E bucket_name mfp opts fs0 bucket0 = (Inl (FileNotFoundError m), f, b)"
      by simp
    from upload_metadata_to_gcs_never_missing_file[where m = m, OF this] show False by simp
  qed
next
  assume a: "upload_metadata_to_gcs E bucket_name mfp opts fs0 bucket0 = (Inr report, fs1, bucket1)
      \<and> fs1 (path_join E (path_parent E (metadata_file_path report)) (ICON_FILE_NAME E)) = None"
  then have run: "upload_metadata_to_gcs E bucket_name mfp opts fs0 bucket0 = (Inr report, fs1, bucket1)"
    and icon: "fs1 (path_join E (path_parent E (metadata_file_path report)) (ICON_FILE_NAME E)) = None"
    by simp_all
  from run have "\<lparr>id' = ''versioned_icon'', uploaded = False, blob_id = None\<rparr> \<in> set (uploaded_files report)
      \<and> \<lparr>id' = ''latest_icon'', uploaded = False, blob_id = None\<rparr> \<in> set (uploaded_files report)"
  proof (cases rule: upload_metadata_to_gcs_InrE)
    case (run info fs' tmp md err vm lm b1 vrc lrc b2 vic lic b3 ldp vd ld b4 lidp vid lid b5
          vman lman b6 vsha lsha b7 vzip lzip)
    have "fs1 (path_join E (path_parent E tmp) (ICON_FILE_NAME E)) = None"
      using icon run(16) by simp
    with file_upload_unattempted[OF run(6)]
    have "vic = \<lparr>id' = ''versioned_icon'', uploaded = False, blob_id = None\<rparr>"
         "lic = \<lparr>id' = ''latest_icon'', uploaded = False, blob_id = None\<rparr>"
      by simp_all
    then show ?thesis by (simp add: run(14))
  qed
  then show "\<lparr>id' = ''versioned_icon'', uploaded = False, blob_id = None\<rparr> \<in> set (uploaded_files report)"
    and "\<lparr>id' = ''latest_icon'', uploaded = False, blob_id = None\<rparr> \<in> set (uploaded_files report)"
    by simp_all
qed

lemma example_icon_upload:
  "file_upload (example_env (example_metadata docs_url False)) icon_files (Some ''/c/icon.svg'')
      ''metadata/source-foo'' Map.empty ''icon'' None True True False
     = Inr ((not_written ''versioned_icon'',
             written ''latest_icon'' ''metadata/source-foo/latest/icon.svg''),
            [''metadata/source-foo/latest/icon.svg'' \<mapsto> icon_blob])"
  by (simp add: file_upload_def upload_file_if_changed_def save_blob_to_gcs_def icon_files_def
        example_env_def icon_blob_def blob_path_of_def posix_name_def LATEST_GCS_FOLDER_NAME_def
        not_written_def written_def Let_def)

theorem file_upload_two_outcomes_witness:
  "file_upload (example_env (example_metadata docs_url False)) icon_files (Some ''/c/icon.svg'')
      ''metadata/source-foo'' Map.empty ''icon'' None True True False
     = Inr ((not_written ''versioned_icon'',
             written ''latest_icon'' ''metadata/source-foo/latest/icon.svg''),
            [''metadata/source-foo/latest/icon.svg'' \<mapsto> icon_blob])
   \<and> fst (upload_metadata_to_gcs (example_env (example_metadata docs_url False)) ''bucket''
          ''/c/metadata.yaml'' example_options example_files Map.empty) = Inr example_report
   \<and> map id' (uploaded_files example_report) =
        [''versioned_metadata'', ''latest_metadata'',
         ''versioned_icon'', ''latest_icon'', ''versioned_doc'', ''latest_doc'',
         ''versioned_inapp_doc'', ''latest_inapp_doc'', ''versioned_manifest'', ''latest_manifest'',
         ''versioned_components_zip_sha256'', ''latest_components_zip_sha256'',
         ''versioned_components_zip'', ''latest_components_zip'']
   \<and> (\<exists>b1. file_upload (example_env (example_metadata docs_url False))
              (fst (snd (upload_metadata_to_gcs (example_env (example_metadata docs_url False)) ''bucket''
          ''/c/metadata.yaml'' example_options example_files Map.empty)))
              (Some ''/tmp/tmp0.yaml'') ''metadata/source-foo'' Map.empty ''metadata''
              (Some ''2.1.0'') True True True
            = Inr ((written ''versioned_metadata'' ''metadata/source-foo/2.1.0/tmp0.yaml'',
                    written ''latest_metadata'' ''metadata/source-foo/latest/tmp0.yaml''), b1))
   \<and> take 2 (uploaded_files example_report) =
        [written ''versioned_metadata'' ''metadata/source-foo/2.1.0/tmp0.yaml'',
         written ''latest_metadata'' ''metadata/source-foo/latest/tmp0.yaml'']"
proof -
  let ?mE = "example_metadata docs_url False"
  let ?E = "example_env ?mE"
  let ?fE = "fst (snd (upload_metadata_to_gcs (example_env (example_metadata docs_url False)) ''bucket''
          ''/c/metadata.yaml'' example_options example_files Map.empty))"
  let ?bE = "snd (snd (upload_metadata_to_gcs (example_env (example_metadata docs_url False)) ''bucket''
          ''/c/metadata.yaml'' example_options example_files Map.empty))"
  note run = run_triple[OF example_run]
  from file_upload_two_outcomes[THEN conjunct1, rule_format, OF example_icon_upload]
  have unset: "not_written ''versioned_icon''
                 = \<lparr>id' = ''versioned_'' @ ''icon'', uploaded = False, blob_id = None\<rparr>"
    by simp
  from file_upload_two_outcomes[THEN conjunct2, THEN conjunct1, rule_format, OF run]
  obtain md err where
    v: "validate_and_load ?E ?fE (metadata_file_path example_report) example_options = (Some md, err)"
    and m: "map id' (uploaded_files example_report) =
            [''versioned_metadata'', ''latest_metadata'']
            @ (if should_upload_release_candidate md example_options
               then [''versioned_release_candidate'', ''latest_release_candidate''] else [])
            @ [''versioned_icon'', ''latest_icon'', ''versioned_doc'', ''latest_doc'',
               ''versioned_inapp_doc'', ''latest_inapp_doc'', ''versioned_manifest'', ''latest_manifest'',
               ''versioned_components_zip_sha256'', ''latest_components_zip_sha256'',
               ''versioned_components_zip'', ''latest_components_zip'']"
    by blast
  have md: "md = ?mE"
    using v by (simp add: example_validate)
  have "\<not> should_upload_release_candidate md example_options"
    by (simp add: md should_upload_release_candidate_def is_release_candidate_def example_metadata_def)
  with m have ids: "map id' (uploaded_files example_report) =
        [''versioned_metadata'', ''latest_metadata'',
         ''versioned_icon'', ''latest_icon'', ''versioned_doc'', ''latest_doc'',
         ''versioned_inapp_doc'', ''latest_inapp_doc'', ''versioned_manifest'', ''latest_manifest'',
         ''versioned_components_zip_sha256'', ''latest_components_zip_sha256'',
         ''versioned_components_zip'', ''latest_components_zip'']"
    by simp
  from file_upload_two_outcomes[THEN conjunct2, THEN conjunct2, rule_format, OF run]
  obtain info fsz tmp md err pm b1 prc b2 pic b3 ldp pd b4 lidp pid b5 pman b6 psha b7 pzip where
    z: "maybe_create_components_zip ?E example_files (path_parent ?E ''/c/metadata.yaml'') = (Inr info, fsz)" and
    am: "apply_modifications_to_metadata_file ?E fsz ''/c/metadata.yaml'' example_options (sha256 info) = Inr (tmp, ?fE)" and
    v: "validate_and_load ?E ?fE tmp example_options = (Some md, err)" and
    fu: "file_upload ?E ?fE (Some tmp) (gcp_connector_dir ?E md) Map.empty ''metadata''
        (upload_as_version md example_options) (should_upload_latest md example_options) True True
        = Inr (pm, b1)" and
    c5: "(if should_upload_release_candidate md example_options
       then file_upload ?E ?fE (Some tmp) (gcp_connector_dir ?E md) b1
              ''release_candidate'' (Some RELEASE_CANDIDATE_GCS_FOLDER_NAME) False True True = Inr (prc, b2)
       else b2 = b1)" and
    c6: "file_upload ?E ?fE (Some (path_join ?E (path_parent ?E tmp) (ICON_FILE_NAME ?E)))
        (gcp_connector_dir ?E md) b2 ''icon''
        None (should_upload_latest md example_options) True False = Inr (pic, b3)" and
    c7: "get_doc_local_file_path ?E md (docs_path example_options) False = Inr ldp" and
    c8: "file_upload ?E ?fE ldp (gcp_connector_dir ?E md) b3 ''doc''
        (upload_as_version md example_options) (should_upload_latest md example_options) True False
        = Inr (pd, b4)" and
    c9: "get_doc_local_file_path ?E md (docs_path example_options) True = Inr lidp" and
    c10: "file_upload ?E ?fE lidp (gcp_connector_dir ?E md) b4 ''inapp_doc''
        (upload_as_version md example_options) (should_upload_latest md example_options) True False
        = Inr (pid, b5)" and
    c11: "file_upload ?E ?fE (Some (manifest_file_path info)) (gcp_connector_dir ?E md) b5
        ''manifest''
        (upload_as_version md example_options) (should_upload_latest md example_options) True False
        = Inr (pman, b6)" and
    c12: "file_upload ?E ?fE (Some (sha256_file_path info)) (gcp_connector_dir ?E md) b6
        ''components_zip_sha256''
        (upload_as_version md example_options) (should_upload_latest md example_options) True False
        = Inr (psha, b7)" and
    c13: "file_upload ?E ?fE (Some (zip_file_path info)) (gcp_connector_dir ?E md) b7
        ''components_zip''
        (upload_as_version md example_options) (should_upload_latest md example_options) True False
        = Inr (pzip, ?bE)" and
    uf: "uploaded_files example_report =
        [fst pm, snd pm]
        @ (if should_upload_release_candidate md example_options then [fst prc, snd prc] else [])
        @ [fst pic, snd pic, fst pd, snd pd, fst pid, snd pid, fst pman, snd pman,
           fst psha, snd psha, fst pzip, snd pzip]" and
    mu: "metadata_uploaded example_report =
        any_uploaded (uploaded_files example_report)
          [''latest_metadata'', ''version_metadata'', ''version_release_candidate'']" and
    t: "metadata_file_path example_report = tmp"
    by (elim exE conjE) (rule that; assumption)
  have md': "md = ?mE" using v by (simp add: example_validate)
  have tmp: "tmp = ''/tmp/tmp0.yaml''" using t by (simp add: example_report_def)
  have dir: "gcp_connector_dir ?E ?mE = ''metadata/source-foo''"
    by (simp add: gcp_connector_dir_def example_env_def example_metadata_def)
  have ver: "upload_as_version ?mE example_options = Some ''2.1.0''"
    by (simp add: upload_as_version_def is_pre_release_def example_options_def example_metadata_def)
  have latest: "should_upload_latest ?mE example_options"
    by (simp add: should_upload_latest_def is_release_candidate_def is_pre_release_def
          example_options_def example_metadata_def)
  have first: "uploaded_files example_report ! 0 = fst pm" "uploaded_files example_report ! 1 = snd pm"
    using uf by simp_all
  have pm: "pm = (written ''versioned_metadata'' ''metadata/source-foo/2.1.0/tmp0.yaml'',
                  written ''latest_metadata'' ''metadata/source-foo/latest/tmp0.yaml'')"
    using first by (cases pm) (simp add: example_report_def)
  have call: "\<exists>b1. file_upload ?E ?fE (Some ''/tmp/tmp0.yaml'') ''metadata/source-foo'' Map.empty
                ''metadata'' (Some ''2.1.0'') True True True
              = Inr ((written ''versioned_metadata'' ''metadata/source-foo/2.1.0/tmp0.yaml'',
                      written ''latest_metadata'' ''metadata/source-foo/latest/tmp0.yaml''), b1)"
    using fu latest unfolding md' tmp dir ver pm by auto
  have two: "take 2 (uploaded_files example_report) =
        [written ''versioned_metadata'' ''metadata/source-foo/2.1.0/tmp0.yaml'',
         written ''latest_metadata'' ''metadata/source-foo/latest/tmp0.yaml'']"
    by (simp add: example_report_def)
  show ?thesis
    by (intro conjI) (rule example_icon_upload example_run ids call two)+
qed

theorem missing_file_is_skipped_or_fatal_witness:
  "icon_files ''/c/other.svg'' = None
   \<and> file_upload (example_env (example_metadata docs_url False)) icon_files (Some ''/c/other.svg'')
        ''metadata/source-foo'' Map.empty ''icon'' None True True False
       = Inr ((not_written ''versioned_icon'', not_written ''latest_icon''), Map.empty)
   \<and> file_upload (example_env (example_metadata docs_url False)) icon_files (Some ''/c/other.svg'')
        ''metadata/source-foo'' Map.empty ''icon'' None True False False
       = Inl (FileNotFoundError ''Expected to find file at /c/other.svg, but none was found.'')
   \<and> fst (upload_metadata_to_gcs (example_env (example_metadata docs_url False)) ''bucket''
          ''/c/metadata.yaml'' example_options example_files Map.empty) = Inr example_report
   \<and> not_written ''versioned_icon'' \<in> set (uploaded_files example_report)
   \<and> not_written ''latest_icon'' \<in> set (uploaded_files example_report)"
proof -
  let ?E = "example_env (example_metadata docs_url False)"
  let ?run = "upload_metadata_to_gcs ?E ''bucket'' ''/c/metadata.yaml'' example_options
                example_files Map.empty"
  note t = missing_file_is_skipped_or_fatal
  have h0: "icon_files ''/c/other.svg'' = None" by (simp add: icon_files_def)
  have a: "file_upload ?E icon_files (Some ''/c/other.svg'') ''metadata/source-foo'' Map.empty ''icon''
             None True True False
       = Inr ((not_written ''versioned_icon'', not_written ''latest_icon''), Map.empty)"
    using t[where fs = icon_files and p = "''/c/other.svg''" and E = ?E and dir = "''metadata/source-foo''"
              and bucket = Map.empty and key = "''icon''" and ver = None and latest = True
              and dc = False,
            THEN conjunct1, rule_format, OF h0]
    by (simp add: not_written_def)
  have b: "file_upload ?E icon_files (Some ''/c/other.svg'') ''metadata/source-foo'' Map.empty ''icon''
             None True False False
       = Inl (FileNotFoundError ''Expected to find file at /c/other.svg, but none was found.'')"
    using t[where fs = icon_files and p = "''/c/other.svg''" and E = ?E and dir = "''metadata/source-foo''"
              and bucket = Map.empty and key = "''icon''" and ver = None and latest = True
              and dc = False,
            THEN conjunct2, THEN conjunct1, rule_format, OF h0]
    by (simp add: missing_file_msg_def)
  note run = run_triple[OF example_run]
  have icon: "fst (snd ?run) (path_join ?E (path_parent ?E (metadata_file_path example_report))
                 (ICON_FILE_NAME ?E)) = None"
    using example_run_files by (simp add: example_env_def posix_parent_def example_report_def)
  from t[THEN conjunct2, THEN conjunct2, THEN conjunct2, rule_format, OF conjI[OF run icon]]
  have c: "not_written ''versioned_icon'' \<in> set (uploaded_files example_report)"
          "not_written ''latest_icon'' \<in> set (uploaded_files example_report)"
    by (simp_all add: not_written_def)
  show ?thesis
    by (intro conjI) (rule h0 a b example_run c)+
qed

lemma candidate_run_file:
  "fst (snd (upload_metadata_to_gcs (example_env (example_metadata docs_url True)) ''bucket''
          ''/c/metadata.yaml'' example_options example_files Map.empty)) ''/tmp/tmp0.yaml'' = Some ''dumped''"
  by (simp add: run_defs)

lemma example_run_file:
  "fst (snd (upload_metadata_to_gcs (example_env (example_metadata docs_url False)) ''bucket''
          ''/c/metadata.yaml'' example_options example_files Map.empty)) ''/tmp/tmp0.yaml'' = Some ''dumped''"
  by (simp add: run_defs)

lemma example_run_names:
  "fst (snd (upload_metadata_to_gcs (example_env (example_metadata docs_url False)) ''bucket''
          ''/c/metadata.yaml'' example_options example_files Map.empty)) p \<noteq> None
   \<Longrightarrow> posix_name p = ''tmp0.yaml'' \<Longrightarrow> p = ''/tmp/tmp0.yaml''"
  by (auto simp: run_defs posix_name_def split: if_splits)

theorem release_candidate_routing_witness:
  "fst (upload_metadata_to_gcs (example_env (example_metadata docs_url True)) ''bucket''
          ''/c/metadata.yaml'' example_options example_files Map.empty) = Inr candidate_report
   \<and> is_release_candidate (example_metadata docs_url True)
   \<and> prerelease_tag example_options = None
   \<and> distinct_folders (example_env (example_metadata docs_url True))
        (dockerImageTag (example_metadata docs_url True)) (metadata_file_path candidate_report)
   \<and> fst (snd (upload_metadata_to_gcs (example_env (example_metadata docs_url True)) ''bucket''
          ''/c/metadata.yaml'' example_options example_files Map.empty)) ''/tmp/tmp0.yaml'' = Some ''dumped''
   \<and> uploaded_files candidate_report ! 1 = not_written ''latest_metadata''
   \<and> id' (uploaded_files candidate_report ! 2) = ''versioned_release_candidate''
   \<and> blob_id (uploaded_files candidate_report ! 2) \<noteq> None
   \<and> snd (snd (upload_metadata_to_gcs (example_env (example_metadata docs_url True)) ''bucket''
          ''/c/metadata.yaml'' example_options example_files Map.empty))
        ''metadata/source-foo/release_candidate/tmp0.yaml'' \<noteq> None
   \<and> published (example_env (example_metadata docs_url True)) ''dumped''
        (uploaded_files candidate_report ! 2) Map.empty
        (snd (snd (upload_metadata_to_gcs (example_env (example_metadata docs_url True)) ''bucket''
          ''/c/metadata.yaml'' example_options example_files Map.empty)))
        ''metadata/source-foo/release_candidate/tmp0.yaml''
   \<and> snd (snd (upload_metadata_to_gcs (example_env (example_metadata docs_url True)) ''bucket''
          ''/c/metadata.yaml'' example_options example_files Map.empty))
        ''metadata/source-foo/latest/tmp0.yaml'' = None
   \<and> fst (upload_metadata_to_gcs (example_env (example_metadata docs_url False)) ''bucket''
          ''/c/metadata.yaml'' example_options example_files Map.empty) = Inr example_report
   \<and> \<not> is_release_candidate (example_metadata docs_url False)
   \<and> distinct_folders (example_env (example_metadata docs_url False))
        (dockerImageTag (example_metadata docs_url False)) (metadata_file_path example_report)
   \<and> unique_name (example_env (example_metadata docs_url False))
        (fst (snd (upload_metadata_to_gcs (example_env (example_metadata docs_url False)) ''bucket''
          ''/c/metadata.yaml'' example_options example_files Map.empty)))
        (metadata_file_path example_report)
   \<and> id' (uploaded_files example_report ! 1) = ''latest_metadata''
   \<and> blob_id (uploaded_files example_report ! 1) \<noteq> None
   \<and> snd (snd (upload_metadata_to_gcs (example_env (example_metadata docs_url False)) ''bucket''
          ''/c/metadata.yaml'' example_options example_files Map.empty))
        ''metadata/source-foo/latest/tmp0.yaml'' \<noteq> None
   \<and> ''versioned_release_candidate'' \<notin> id' ` set (uploaded_files example_report)
   \<and> ''latest_release_candidate'' \<notin> id' ` set (uploaded_files example_report)
   \<and> snd (snd (upload_metadata_to_gcs (example_env (example_metadata docs_url False)) ''bucket''
          ''/c/metadata.yaml'' example_options example_files Map.empty))
        ''metadata/source-foo/release_candidate/tmp0.yaml'' = None
   \<and> published (example_env (example_metadata docs_url False)) ''dumped''
        (uploaded_files example_report ! 1) Map.empty
        (snd (snd (upload_metadata_to_gcs (example_env (example_metadata docs_url False)) ''bucket''
          ''/c/metadata.yaml'' example_options example_files Map.empty)))
        ''metadata/source-foo/latest/tmp0.yaml''"
proof -
  let ?mC = "example_metadata docs_url True"
  let ?mE = "example_metadata docs_url False"
  let ?C = "example_env ?mC"
  let ?E = "example_env ?mE"
  let ?fC = "fst (snd (upload_metadata_to_gcs (example_env (example_metadata docs_url True)) ''bucket''
          ''/c/metadata.yaml'' example_options example_files Map.empty))"
  let ?fE = "fst (snd (upload_metadata_to_gcs (example_env (example_metadata docs_url False)) ''bucket''
          ''/c/metadata.yaml'' example_options example_files Map.empty))"
  let ?bC = "snd (snd (upload_metadata_to_gcs (example_env (example_metadata docs_url True)) ''bucket''
          ''/c/metadata.yaml'' example_options example_files Map.empty))"
  let ?bE = "snd (snd (upload_metadata_to_gcs (example_env (example_metadata docs_url False)) ''bucket''
          ''/c/metadata.yaml'' example_options example_files Map.empty))"
  have nopre: "prerelease_tag example_options = None" by (simp add: example_options_def)
  have rc: "is_release_candidate ?mC"
    by (simp add: is_release_candidate_def example_metadata_def)
  have norc: "\<not> is_release_candidate ?mE"
    by (simp add: is_release_candidate_def example_metadata_def)
  have tC: "metadata_file_path candidate_report = ''/tmp/tmp0.yaml''"
    by (simp add: candidate_report_def)
  have tE: "metadata_file_path example_report = ''/tmp/tmp0.yaml''"
    by (simp add: example_report_def)
  have nameC: "path_name ?C (metadata_file_path candidate_report) = ''tmp0.yaml''"
    by (simp add: tC example_env_def posix_name_def)
  have nameE: "path_name ?E (metadata_file_path example_report) = ''tmp0.yaml''"
    by (simp add: tE example_env_def posix_name_def)
  have slashC: "CHR ''/'' \<notin> set (path_name ?C (metadata_file_path candidate_report))"
    by (simp add: nameC)
  have slashE: "CHR ''/'' \<notin> set (path_name ?E (metadata_file_path example_report))"
    by (simp add: nameE)
  have tagC: "dockerImageTag ?mC = ''2.1.0''" by (simp add: example_metadata_def)
  have tagE: "dockerImageTag ?mE = ''2.1.0''" by (simp add: example_metadata_def)
  have tagsC: "dockerImageTag ?mC \<noteq> LATEST_GCS_FOLDER_NAME"
              "dockerImageTag ?mC \<noteq> RELEASE_CANDIDATE_GCS_FOLDER_NAME"
    by (simp_all add: tagC LATEST_GCS_FOLDER_NAME_def RELEASE_CANDIDATE_GCS_FOLDER_NAME_def)
  have tagsE: "dockerImageTag ?mE \<noteq> LATEST_GCS_FOLDER_NAME"
              "dockerImageTag ?mE \<noteq> RELEASE_CANDIDATE_GCS_FOLDER_NAME"
    by (simp_all add: tagE LATEST_GCS_FOLDER_NAME_def RELEASE_CANDIDATE_GCS_FOLDER_NAME_def)
  have paths:
    "blob_path_of ?C (gcp_connector_dir ?C ?mC) RELEASE_CANDIDATE_GCS_FOLDER_NAME
        (metadata_file_path candidate_report) = ''metadata/source-foo/release_candidate/tmp0.yaml''"
    "blob_path_of ?C (gcp_connector_dir ?C ?mC) LATEST_GCS_FOLDER_NAME
        (metadata_file_path candidate_report) = ''metadata/source-foo/latest/tmp0.yaml''"
    "blob_path_of ?E (gcp_connector_dir ?E ?mE) RELEASE_CANDIDATE_GCS_FOLDER_NAME
        (metadata_file_path example_report) = ''metadata/source-foo/release_candidate/tmp0.yaml''"
    "blob_path_of ?E (gcp_connector_dir ?E ?mE) LATEST_GCS_FOLDER_NAME
        (metadata_file_path example_report) = ''metadata/source-foo/latest/tmp0.yaml''"
    by (simp_all add: blob_path_of_def gcp_connector_dir_def example_env_def example_metadata_def
          posix_name_def candidate_report_def example_report_def
          RELEASE_CANDIDATE_GCS_FOLDER_NAME_def LATEST_GCS_FOLDER_NAME_def)
  have uniq: "unique_name ?E ?fE (metadata_file_path example_report)"
    unfolding unique_name_def
  proof (intro allI impI, elim conjE)
    fix p assume p: "?fE p \<noteq> None" and n: "path_name ?E p = path_name ?E (metadata_file_path example_report)"
    from n have "posix_name p = ''tmp0.yaml''" by (simp add: nameE) (simp add: example_env_def)
    with p show "p = metadata_file_path example_report"
      using example_run_names tE by simp
  qed
  have foldersC: "distinct_folders ?C (dockerImageTag ?mC) (metadata_file_path candidate_report)"
    using slashC tagsC by (simp add: distinct_folders_def)
  have foldersE: "distinct_folders ?E (dockerImageTag ?mE) (metadata_file_path example_report)"
    using slashE tagsE by (simp add: distinct_folders_def)
  note TC = release_candidate_routing[OF run_triple[OF candidate_run] example_validate nopre,
              unfolded paths]
  note TE = release_candidate_routing[OF run_triple[OF example_run] example_validate nopre,
              unfolded paths]
  from TC rc foldersC obtain c where c: "?fC (metadata_file_path candidate_report) = Some c"
    and A: "uploaded_files candidate_report ! 1 = \<lparr>id' = ''latest_metadata'', uploaded = False, blob_id = None\<rparr>
          \<and> id' (uploaded_files candidate_report ! 2) = ''versioned_release_candidate''
          \<and> blob_id (uploaded_files candidate_report ! 2) \<noteq> None
          \<and> ?bC ''metadata/source-foo/release_candidate/tmp0.yaml'' \<noteq> None
          \<and> (\<forall>n. ?bC n \<noteq> Map.empty n \<longrightarrow>
                (\<exists>p. n = blob_path_of ?C (gcp_connector_dir ?C ?mC) (dockerImageTag ?mC) p)
                \<or> n = ''metadata/source-foo/release_candidate/tmp0.yaml'')
          \<and> published ?C c (uploaded_files candidate_report ! 2) Map.empty ?bC ''metadata/source-foo/release_candidate/tmp0.yaml''
          \<and> blob_id (uploaded_files candidate_report ! 2) = map_option blob_ident (?bC ''metadata/source-foo/release_candidate/tmp0.yaml'')
          \<and> ?bC ''metadata/source-foo/latest/tmp0.yaml'' = Map.empty ''metadata/source-foo/latest/tmp0.yaml''"
    by blast
  from TE norc foldersE obtain d where d: "?fE (metadata_file_path example_report) = Some d"
    and B: "id' (uploaded_files example_report ! 1) = ''latest_metadata''
          \<and> blob_id (uploaded_files example_report ! 1) \<noteq> None
          \<and> ?bE ''metadata/source-foo/latest/tmp0.yaml'' \<noteq> None
          \<and> ''versioned_release_candidate'' \<notin> id' ` set (uploaded_files example_report)
          \<and> ''latest_release_candidate'' \<notin> id' ` set (uploaded_files example_report)
          \<and> (\<forall>n. ?bE n \<noteq> Map.empty n \<longrightarrow>
                (\<exists>p. n = blob_path_of ?E (gcp_connector_dir ?E ?mE) (dockerImageTag ?mE) p)
                \<or> (\<exists>p. n = blob_path_of ?E (gcp_connector_dir ?E ?mE) LATEST_GCS_FOLDER_NAME p))
          \<and> ?bE ''metadata/source-foo/release_candidate/tmp0.yaml'' = Map.empty ''metadata/source-foo/release_candidate/tmp0.yaml''
          \<and> (unique_name ?E ?fE (metadata_file_path example_report) \<longrightarrow>
                published ?E d (uploaded_files example_report ! 1) Map.empty ?bE ''metadata/source-foo/latest/tmp0.yaml'')"
    by blast
  have c': "c = ''dumped''" using c candidate_run_file by (simp add: tC)
  have d': "d = ''dumped''" using d example_run_file by (simp add: tE)
  have A1: "uploaded_files candidate_report ! 1 = not_written ''latest_metadata''"
    using A by (simp add: not_written_def)
  have A2: "id' (uploaded_files candidate_report ! 2) = ''versioned_release_candidate''"
    and A3: "blob_id (uploaded_files candidate_report ! 2) \<noteq> None"
    and A4: "?bC ''metadata/source-foo/release_candidate/tmp0.yaml'' \<noteq> None"
    and A5: "published ?C ''dumped'' (uploaded_files candidate_report ! 2) Map.empty ?bC ''metadata/source-foo/release_candidate/tmp0.yaml''"
    using A c' by blast+
  have A6: "?bC ''metadata/source-foo/latest/tmp0.yaml'' = None" using A by simp
  have B1: "id' (uploaded_files example_report ! 1) = ''latest_metadata''"
    and B2: "blob_id (uploaded_files example_report ! 1) \<noteq> None"
    and B3: "?bE ''metadata/source-foo/latest/tmp0.yaml'' \<noteq> None"
    and B4: "''versioned_release_candidate'' \<notin> id' ` set (uploaded_files example_report)"
    and B5: "''latest_release_candidate'' \<notin> id' ` set (uploaded_files example_report)"
    and B7: "published ?E ''dumped'' (uploaded_files example_report ! 1) Map.empty ?bE ''metadata/source-foo/latest/tmp0.yaml''"
    using B d' uniq by blast+
  have B6: "?bE ''metadata/source-foo/release_candidate/tmp0.yaml'' = None" using B by simp
  show ?thesis
    by (intro conjI)
       (rule candidate_run example_run nopre rc norc foldersC foldersE uniq candidate_run_file
             A1 A2 A3 A4 A5 A6 B1 B2 B3 B4 B5 B6 B7)+
qed

end
